theory Spec2Isabelle
  imports Complex_Main "HOL-Library.Word"
begin

chapter \<open>The configuration validators of pilot/pkg/model/validation.go\<close>

text \<open>
  The theory embeds the validators of \<open>validation.go\<close> as HOL functions and proves the
  properties of its specification about them.  Conventions of the embedding:

  \<^item> A Go \<open>error\<close> is \<open>error option\<close>, \<open>None\<close> for \<open>nil\<close>.
  \<^item> A pointer that the source compares with \<open>nil\<close>, or that a property is about, is an
    \<open>option\<close>; dereferencing \<open>None\<close> is the run-time panic \<open>NilDereference\<close>.  Every other
    pointer (the message handed to a validator, the elements of a repeated field) is
    modelled as present.
  \<^item> \<open>int32\<close> and \<open>uint32\<close> are \<open>32 word\<close>, \<open>int64\<close> and \<open>time.Duration\<close> are \<open>64 word\<close>;
    Go's \<open>int\<close> is \<open>64 word\<close> (its width on the platforms Pilot is built for).  A
    floating-point field is only compared with constants: it is a real number, an infinity
    or a NaN.
  \<^item> A Go map is an association list; the order of the list stands for the order in which
    \<open>range\<close> happens to visit the map, which Go leaves unspecified.
  \<^item> Functions of this repository or of libraries that are not in \<open>validation.go\<close>
    (\<open>net.ParseIP\<close>, \<open>net.ParseCIDR\<close>, \<open>ptypes.Duration\<close>, \<open>ParseProtocol\<close>, ...) are
    parameters of the functions that call them.
\<close>

section \<open>Errors and the error accumulator\<close>

text \<open>
  An error made by \<open>fmt.Errorf\<close> or \<open>errors.New\<close> is kept as its format string together
  with its string and integer arguments (an argument of another type is \<open>Obj\<close>), so that
  each error of the model is traced to the line of the source that creates it.  A
  \<open>*multierror.Error\<close> is the list of the errors it holds (its field \<open>Errors\<close>).  An error
  returned by a function that is not in the source is \<open>Opaque\<close>; \<open>Prefixed\<close> is an
  error wrapped by \<open>multierror.Prefix\<close>, with the format and the arguments of the prefix.
\<close>

datatype arg = S string | I int | Obj

datatype error =
    Errorf string "arg list"
  | Opaque string
  | Prefixed string "arg list" error
  | MultiError "error list"

abbreviation errors_New :: "string \<Rightarrow> error" where
  "errors_New m \<equiv> Errorf m []"

text \<open>
  The failures a caller can enumerate in an outcome: none for \<open>nil\<close>, the elements of
  \<open>Errors\<close> for a \<open>*multierror.Error\<close>, the error itself otherwise.
\<close>

fun failures :: "error option \<Rightarrow> error list" where
  "failures None = []"
| "failures (Some (MultiError es)) = es"
| "failures (Some e) = [e]"

text \<open>
  \<open>multierror.Append(err, errs...)\<close> of \<open>github.com/hashicorp/go-multierror\<close>, a library
  that \<open>validation.go\<close> imports: the result is always a \<open>*multierror.Error\<close>; if \<open>err\<close>
  is one already its list is extended, otherwise a new list starts with \<open>err\<close> (when not
  \<open>nil\<close>); every appended \<open>*multierror.Error\<close> is flattened into the list and every
  other error that is not \<open>nil\<close> is added as one element.  (The source never passes a
  \<open>nil\<close> error to it.)
\<close>

definition multierror_Append :: "error option \<Rightarrow> error option list \<Rightarrow> error" where
  "multierror_Append err errs =
     (case err of
        Some (MultiError es) \<Rightarrow> MultiError (es @ concat (map failures errs))
      | _ \<Rightarrow> MultiError (concat (map failures (err # errs))))"

text \<open>
  \<open>multierror.Prefix(err, prefix)\<close> of the same library: \<open>nil\<close> stays \<open>nil\<close>, each
  element of a \<open>*multierror.Error\<close> is wrapped with the prefix, any other error is wrapped.
\<close>

definition multierror_Prefix :: "error option \<Rightarrow> string \<Rightarrow> arg list \<Rightarrow> error option" where
  "multierror_Prefix err prefix args =
     (case err of
        None \<Rightarrow> None
      | Some (MultiError es) \<Rightarrow> Some (MultiError (map (Prefixed prefix args) es))
      | Some e \<Rightarrow> Some (Prefixed prefix args e))"

text \<open>\<open>appendErrors\<close> (lines 2315-2329) and its local closure \<open>appendError\<close>.\<close>

definition appendError :: "error option \<Rightarrow> error option \<Rightarrow> error option" where
  "appendError err err2 =
     (if err = None then err2
      else if err2 = None then err
      else Some (multierror_Append err [err2]))"

definition appendErrors :: "error option \<Rightarrow> error option list \<Rightarrow> error option" where
  "appendErrors err errs = foldl appendError err errs"

text \<open>
  The idiom \<open>if err := f(); err != nil { errs = multierror.Append(errs, err) }\<close> of the
  source, written once: \<open>errs\<close> is unchanged when \<open>err\<close> is \<open>nil\<close>.
\<close>

definition appendIfErr :: "error option \<Rightarrow> error option \<Rightarrow> error option" where
  "appendIfErr errs err = (if err \<noteq> None then Some (multierror_Append errs [err]) else errs)"

text \<open>A result of a function that can panic: \<open>Inl\<close> the panic, \<open>Inr\<close> the value returned.\<close>

datatype panic = NilDereference | UnhandledFamily

section \<open>Strings and regular expressions\<close>

text \<open>
  A Go string is a sequence of bytes, \<open>len\<close> counts bytes: \<open>string\<close> (a list of \<open>char\<close>)
  with \<open>length\<close>.  The functions of package \<open>strings\<close> and \<open>path\<close> that the validators call,
  at the separators they are called with:
  \<open>strings.Split(s, sep)\<close> for a separator of one byte, \<open>strings.SplitN(s, sep, 2)\<close>,
  \<open>strings.Contains\<close>, \<open>strings.Count\<close>, \<open>strings.HasPrefix\<close>, \<open>strings.TrimPrefix\<close> and
  \<open>path.IsAbs\<close>.
\<close>

fun strings_Split :: "string \<Rightarrow> char \<Rightarrow> string list" where
  "strings_Split [] sep = [[]]"
| "strings_Split (c # cs) sep =
     (if c = sep then [] # strings_Split cs sep
      else (case strings_Split cs sep of
              [] \<Rightarrow> [[c]]
            | p # ps \<Rightarrow> (c # p) # ps))"

definition strings_SplitN2 :: "string \<Rightarrow> char \<Rightarrow> string list" where
  "strings_SplitN2 s sep =
     (if sep \<in> set s
      then [takeWhile (\<lambda>c. c \<noteq> sep) s, tl (dropWhile (\<lambda>c. c \<noteq> sep) s)]
      else [s])"

definition strings_Contains :: "string \<Rightarrow> char \<Rightarrow> bool" where
  "strings_Contains s sep = (sep \<in> set s)"

definition strings_Count :: "string \<Rightarrow> char \<Rightarrow> nat" where
  "strings_Count s sep = length (filter (\<lambda>c. c = sep) s)"

definition strings_HasPrefix :: "string \<Rightarrow> string \<Rightarrow> bool" where
  "strings_HasPrefix s p = (take (length p) s = p)"

definition strings_TrimPrefix :: "string \<Rightarrow> string \<Rightarrow> string" where
  "strings_TrimPrefix s p = (if strings_HasPrefix s p then drop (length p) s else s)"

definition path_IsAbs :: "string \<Rightarrow> bool" where
  "path_IsAbs p = (case p of [] \<Rightarrow> False | c # _ \<Rightarrow> c = CHR ''/'')"

text \<open>
  Regular expressions of package \<open>regexp\<close>, as far as the patterns of the source use them:
  a literal byte, a character class of ranges, concatenation, alternation, \<open>?\<close>, \<open>*\<close>
  and the anchors \<open>^\<close> and \<open>$\<close> (beginning and end of the text; no pattern sets the
  multi-line flag).  \<open>ends r s i\<close> lists the positions at which a match of \<open>r\<close> that
  starts at position \<open>i\<close> of \<open>s\<close> can end.  An iteration of \<open>*\<close> that consumes nothing
  reaches no new position, so \<open>length s - i\<close> rounds reach them all.
\<close>

datatype regex =
    Lit char
  | Class "(char \<times> char) list"
  | Cat regex regex
  | Alt regex regex
  | Opt regex
  | Star regex
  | Bol
  | Eol

definition in_class :: "(char \<times> char) list \<Rightarrow> char \<Rightarrow> bool" where
  "in_class rs c =
     list_ex (\<lambda>(lo, hi). (of_char lo :: nat) \<le> of_char c \<and> (of_char c :: nat) \<le> of_char hi) rs"

fun star_from :: "(nat \<Rightarrow> nat list) \<Rightarrow> nat \<Rightarrow> nat \<Rightarrow> nat list" where
  "star_from f 0 i = [i]"
| "star_from f (Suc n) i = i # concat (map (star_from f n) (filter (\<lambda>j. i < j) (f i)))"

primrec ends :: "regex \<Rightarrow> string \<Rightarrow> nat \<Rightarrow> nat list" where
  "ends (Lit c) s i = (if i < length s \<and> s ! i = c then [Suc i] else [])"
| "ends (Class rs) s i = (if i < length s \<and> in_class rs (s ! i) then [Suc i] else [])"
| "ends (Cat a b) s i = concat (map (ends b s) (ends a s i))"
| "ends (Alt a b) s i = ends a s i @ ends b s i"
| "ends (Opt a) s i = i # ends a s i"
| "ends (Star a) s i = star_from (ends a s) (length s - i) i"
| "ends Bol s i = (if i = 0 then [i] else [])"
| "ends Eol s i = (if i = length s then [i] else [])"

text \<open>
  \<open>(*Regexp).MatchString\<close>: the pattern matches somewhere in the text.  A pattern
  matches the whole text only where it is anchored on both sides.
\<close>

definition MatchString :: "regex \<Rightarrow> string \<Rightarrow> bool" where
  "MatchString r s = list_ex (\<lambda>i. ends r s i \<noteq> []) [0..<Suc (length s)]"

section \<open>DNS names (lines 44-74, 222-272)\<close>

definition dns1123LabelMaxLength :: nat where
  "dns1123LabelMaxLength = 63"

text \<open>\<open>dns1123LabelFmt = "[a-zA-Z0-9]([-a-z-A-Z0-9]*[a-zA-Z0-9])?"\<close>\<close>

definition dns1123LabelFmt :: regex where
  "dns1123LabelFmt =
     Cat (Class [(CHR ''a'', CHR ''z''), (CHR ''A'', CHR ''Z''), (CHR ''0'', CHR ''9'')])
       (Opt (Cat
          (Star (Class [(CHR ''-'', CHR ''-''), (CHR ''a'', CHR ''z''), (CHR ''-'', CHR ''-''),
                        (CHR ''A'', CHR ''Z''), (CHR ''0'', CHR ''9'')]))
          (Class [(CHR ''a'', CHR ''z''), (CHR ''A'', CHR ''Z''), (CHR ''0'', CHR ''9'')])))"

text \<open>\<open>qualifiedNameFmt = "[-A-Za-z0-9_./]*"\<close>\<close>

definition qualifiedNameFmt :: regex where
  "qualifiedNameFmt =
     Star (Class [(CHR ''-'', CHR ''-''), (CHR ''A'', CHR ''Z''), (CHR ''a'', CHR ''z''),
                  (CHR ''0'', CHR ''9''), (CHR ''_'', CHR ''_''), (CHR ''.'', CHR ''.''),
                  (CHR ''/'', CHR ''/'')])"

text \<open>
  \<open>dns1123LabelRegexp = regexp.MustCompile("^" + dns1123LabelFmt + "$")\<close> and
  \<open>tagRegexp = regexp.MustCompile("^" + qualifiedNameFmt + "$")\<close>.
\<close>

definition dns1123LabelRegexp :: regex where
  "dns1123LabelRegexp = Cat Bol (Cat dns1123LabelFmt Eol)"

definition tagRegexp :: regex where
  "tagRegexp = Cat Bol (Cat qualifiedNameFmt Eol)"

text \<open>
  \<open>wildcardPrefix = `\*|(\*|\*-)?(` + dns1123LabelFmt + `)`\<close> and
  \<open>wildcardPrefixRegexp = regexp.MustCompile("^" + wildcardPrefix + "$")\<close>: the pattern
  compiled is the text \<open>^\*|(\*|\*-)?(L)$\<close>, with \<open>L\<close> for \<open>dns1123LabelFmt\<close>.  Alternation
  binds weaker than concatenation, so its two branches are \<open>^\*\<close> and \<open>(\*|\*-)?(L)$\<close>.
\<close>

definition wildcardPrefixRegexp :: regex where
  "wildcardPrefixRegexp =
     Alt (Cat Bol (Lit CHR ''*''))
         (Cat (Cat (Opt (Alt (Lit CHR ''*'') (Cat (Lit CHR ''*'') (Lit CHR ''-''))))
                   dns1123LabelFmt)
              Eol)"

definition IsDNS1123Label :: "string \<Rightarrow> bool" where
  "IsDNS1123Label v = (length v \<le> dns1123LabelMaxLength \<and> MatchString dns1123LabelRegexp v)"

definition IsWildcardDNS1123Label :: "string \<Rightarrow> bool" where
  "IsWildcardDNS1123Label v =
     (length v \<le> dns1123LabelMaxLength \<and> MatchString wildcardPrefixRegexp v)"

definition checkDNS1123Preconditions :: "string \<Rightarrow> error option" where
  "checkDNS1123Preconditions name =
     (if length name > 255 then Some (Errorf ''domain name %q too long (max 255)'' [S name])
      else if length name = 0 then Some (Errorf ''empty domain name not allowed'' [])
      else None)"

text \<open>The loop of \<open>validateDNS1123Labels\<close> returns at the first label that is invalid.\<close>

fun validateDNS1123Labels_loop :: "string \<Rightarrow> string list \<Rightarrow> error option" where
  "validateDNS1123Labels_loop domain [] = None"
| "validateDNS1123Labels_loop domain (label # labels) =
     (if \<not> IsDNS1123Label label
      then Some (Errorf ''domain name %q invalid (label %q invalid)'' [S domain, S label])
      else validateDNS1123Labels_loop domain labels)"

definition validateDNS1123Labels :: "string \<Rightarrow> error option" where
  "validateDNS1123Labels domain =
     validateDNS1123Labels_loop domain (strings_Split domain CHR ''.'')"

definition ValidateFQDN :: "string \<Rightarrow> error option" where
  "ValidateFQDN fqdn = appendErrors (checkDNS1123Preconditions fqdn) [validateDNS1123Labels fqdn]"

text \<open>
  \<open>ValidateWildcardDomain\<close>: \<open>parts\<close> has one or two elements, \<open>parts[0]\<close> is its head.
\<close>

definition ValidateWildcardDomain :: "string \<Rightarrow> error option" where
  "ValidateWildcardDomain domain =
     (case checkDNS1123Preconditions domain of
        Some err \<Rightarrow> Some err
      | None \<Rightarrow>
          (let parts = strings_SplitN2 domain CHR ''.'' in
           if \<not> IsWildcardDNS1123Label (hd parts)
           then Some (Errorf ''domain name %q invalid (label %q invalid)'' [S domain, S (hd parts)])
           else if length parts > 1 then validateDNS1123Labels (parts ! 1)
           else None))"

section \<open>Functions and declarations from outside validation.go\<close>

text \<open>
  \<open>net.IP\<close>: the validators only ask whether \<open>To4()\<close> of a parsed address is \<open>nil\<close>.
  \<open>IPv4\<close> is an address with a 4-byte form, \<open>IPv6\<close> one without.
\<close>

datatype IP = IPv4 | IPv6

text \<open>
  Modelled from the spec: \<open>Protocol\<close>, \<open>ParseProtocol\<close> and \<open>ProtocolUnsupported\<close> are
  declared in another file of package \<open>model\<close>.  The specification: a protocol string is
  resolved via a protocol-name table to a known enum or an "unsupported" sentinel.  The
  table is the parameter \<open>ParseProtocol\<close> below.
\<close>

datatype Protocol = ProtocolUnsupported | Protocol string

text \<open>
  Modelled from the spec: \<open>NetworkEndpoint\<close>, \<open>AddressFamily\<close> and its constants
  \<open>AddressFamilyTCP\<close> and \<open>AddressFamilyUnix\<close> are declared in another file of package
  \<open>model\<close>.  The specification: an endpoint has an address and an address family;
  \<open>AddressFamily\<close> is an integer type, so a value can be neither of the two constants.
\<close>

datatype AddressFamily = AddressFamilyTCP | AddressFamilyUnix | AddressFamilyOther int

record NetworkEndpoint =
  Family :: AddressFamily
  Address :: string

text \<open>
  \<open>duration.Duration\<close> and \<open>types.Duration\<close> (the golang and the gogo message of the same
  shape), and \<open>types.Timestamp\<close>.
\<close>

record Duration =
  Seconds :: "64 word"
  Nanos :: "32 word"

record Timestamp =
  Timestamp_Seconds :: "64 word"
  Timestamp_Nanos :: "32 word"

text \<open>
  The functions that \<open>validation.go\<close> calls and does not define.  A decoder returns the
  message of its error (\<open>Inl\<close>) or the \<open>time.Duration\<close> in nanoseconds (\<open>Inr\<close>);
  \<open>net.ParseCIDR\<close> returns the address of the block, \<open>None\<close> for its error;
  \<open>types.TimestampFromProto\<close> and \<open>ParseJwksURI\<close> are kept by the error they return.

  Modelled from the spec: the constants \<open>DefaultAuthenticationPolicyName\<close> (the reserved
  default name of an authentication policy) and \<open>HeaderURI\<close> (the name of the special
  header that holds the URI of a request) are declared in other files of package \<open>model\<close>;
  they are fields of the environment.
\<close>

record env =
  net_ParseIP :: "string \<Rightarrow> IP option"
  net_ParseCIDR :: "string \<Rightarrow> IP option"
  ParseProtocol :: "string \<Rightarrow> Protocol"
  strings_ToLower :: "string \<Rightarrow> string"
  ptypes_Duration :: "Duration option \<Rightarrow> string + 64 word"
  types_DurationFromProto :: "Duration option \<Rightarrow> string + 64 word"
  types_TimestampFromProto :: "Timestamp option \<Rightarrow> string option"
  ParseJwksURI :: "string \<Rightarrow> string option"
  DefaultAuthenticationPolicyName :: string
  HeaderURI :: string

section \<open>Primitive validators\<close>

text \<open>
  \<open>ValidatePort(port int)\<close> (lines 90-95).  Comparison of Go's signed integers is
  comparison of \<open>sint\<close>.
\<close>

definition ValidatePort :: "64 word \<Rightarrow> error option" where
  "ValidatePort port =
     (if 1 \<le> sint port \<and> sint port \<le> 65535 then None
      else Some (Errorf ''port number %d must be in the range 1..65535'' [I (sint port)]))"

text \<open>\<open>ValidatePercent(val int32)\<close> (lines 409-414).\<close>

definition ValidatePercent :: "32 word \<Rightarrow> error option" where
  "ValidatePercent val =
     (if sint val < 0 \<or> sint val > 100
      then Some (Errorf ''percentage %v is not in range 0..100'' [I (sint val)])
      else None)"

text \<open>\<open>ValidateHTTPHeaderName\<close> (lines 371-379).\<close>

definition ValidateHTTPHeaderName :: "env \<Rightarrow> string \<Rightarrow> error option" where
  "ValidateHTTPHeaderName E name =
     (if name = [] then Some (Errorf ''header name cannot be empty'' [])
      else if strings_ToLower E name \<noteq> name then Some (Errorf ''must be in lower case'' [])
      else None)"

text \<open>
  \<open>Labels.Validate\<close> (lines 209-220), over the pairs of the map in the order \<open>range\<close>
  visits them.
\<close>

definition Labels_Validate_step :: "error option \<Rightarrow> string \<times> string \<Rightarrow> error option" where
  "Labels_Validate_step errs kv =
     (let errs = (if \<not> MatchString tagRegexp (fst kv)
                  then Some (multierror_Append errs [Some (Errorf ''invalid tag key: %q'' [S (fst kv)])])
                  else errs)
      in if \<not> MatchString tagRegexp (snd kv)
         then Some (multierror_Append errs [Some (Errorf ''invalid tag value: %q'' [S (snd kv)])])
         else errs)"

definition Labels_Validate :: "(string \<times> string) list \<Rightarrow> error option" where
  "Labels_Validate l = foldl Labels_Validate_step None l"

text \<open>IP addresses and subnets (lines 503-560).\<close>

definition validateCIDR :: "env \<Rightarrow> string \<Rightarrow> error option" where
  "validateCIDR E cidr =
     (case net_ParseCIDR E cidr of
        None \<Rightarrow> Some (Errorf ''%v is not a valid CIDR block'' [S cidr])
      | Some ip \<Rightarrow>
          if ip = IPv6 then Some (Errorf ''%v is not a valid IPv4 address'' [S cidr])
          else None)"

definition ValidateIPv4Address :: "env \<Rightarrow> string \<Rightarrow> error option" where
  "ValidateIPv4Address E addr =
     (case net_ParseIP E addr of
        None \<Rightarrow> Some (Errorf ''%v is not a valid IP'' [S addr])
      | Some ip \<Rightarrow>
          if ip = IPv6 then Some (Errorf ''%v is not a valid IPv4 address'' [S addr])
          else None)"

definition ValidateIPv4Subnet :: "env \<Rightarrow> string \<Rightarrow> error option" where
  "ValidateIPv4Subnet E subnet =
     (if strings_Count subnet CHR ''/'' = 1 then validateCIDR E subnet
      else ValidateIPv4Address E subnet)"

definition ValidateUnixAddress :: "string \<Rightarrow> error option" where
  "ValidateUnixAddress addr =
     (if length addr = 0 then Some (Errorf ''unix address must not be empty'' [])
      else if \<not> path_IsAbs addr then Some (Errorf ''%s is not an absolute path'' [S addr])
      else None)"

text \<open>
  Durations (lines 1274-1302).  \<open>time.Duration\<close> is an \<open>int64\<close> of nanoseconds; \<open>%\<close> on
  Go's signed integers truncates towards zero.
\<close>

definition time_Millisecond :: "64 word" where
  "time_Millisecond = 1000000"

definition go_rem :: "64 word \<Rightarrow> 64 word \<Rightarrow> 64 word" where
  "go_rem a b = word_of_int (sgn (sint a) * (\<bar>sint a\<bar> mod \<bar>sint b\<bar>))"

definition ValidateDurationGogo :: "env \<Rightarrow> Duration option \<Rightarrow> error option" where
  "ValidateDurationGogo E pd =
     (case types_DurationFromProto E pd of
        Inl err \<Rightarrow> Some (Opaque err)
      | Inr dur \<Rightarrow>
          if sint dur < sint time_Millisecond
          then Some (errors_New ''duration must be greater than 1ms'')
          else if go_rem dur time_Millisecond \<noteq> 0
          then Some (errors_New ''only durations to ms precision are supported'')
          else None)"

definition ValidateDuration :: "env \<Rightarrow> Duration option \<Rightarrow> error option" where
  "ValidateDuration E pd =
     (case ptypes_Duration E pd of
        Inl err \<Rightarrow> Some (Opaque err)
      | Inr dur \<Rightarrow>
          if sint dur < sint time_Millisecond
          then Some (errors_New ''duration must be greater than 1ms'')
          else if go_rem dur time_Millisecond \<noteq> 0
          then Some (errors_New ''only durations to ms precision are supported'')
          else None)"

text \<open>
  \<open>ValidateGogoDuration\<close> (lines 1305-1310) reads \<open>in.Seconds\<close> and \<open>in.Nanos\<close>: it panics
  on \<open>nil\<close>.
\<close>

definition ValidateGogoDuration :: "env \<Rightarrow> Duration option \<Rightarrow> panic + error option" where
  "ValidateGogoDuration E d =
     (case d of
        None \<Rightarrow> Inl NilDereference
      | Some d \<Rightarrow> Inr (ValidateDuration E (Some \<lparr>Seconds = Seconds d, Nanos = Nanos d\<rparr>)))"

text \<open>
  \<open>ValidateWeights\<close> (lines 704-722).  \<open>sum\<close> is an \<open>int\<close>; \<open>int(destWeight.Weight)\<close>
  extends the sign of the \<open>int32\<close>.
\<close>

record DestinationWeight =
  DestinationWeight_Labels :: "(string \<times> string) list"
  Weight :: "32 word"

definition ValidateWeights :: "DestinationWeight list \<Rightarrow> error option" where
  "ValidateWeights routes =
     (let sum = foldl (\<lambda>sum destWeight. sum + (scast (Weight destWeight) :: 64 word)) 0 routes
      in if length routes = 1 \<and> sum = 0 then None
         else if sum \<noteq> 100
         then Some (multierror_Append None
                [Some (Errorf ''route weights total %v (must total 100)'' [I (sint sum)])])
         else None)"

text \<open>\<open>ValidateStringMatch\<close> (lines 382-389); the oneof \<open>MatchType\<close> is \<open>None\<close> when unset.\<close>

datatype StringMatch_MatchType =
    StringMatch_Exact string
  | StringMatch_Prefix string
  | StringMatch_Regex string

record StringMatch =
  MatchType :: "StringMatch_MatchType option"

definition ValidateStringMatch :: "StringMatch \<Rightarrow> error option" where
  "ValidateStringMatch match =
     (case MatchType match of
        Some (StringMatch_Exact _) \<Rightarrow> None
      | Some (StringMatch_Prefix _) \<Rightarrow> None
      | Some (StringMatch_Regex _) \<Rightarrow> None
      | None \<Rightarrow> Some (Errorf ''unrecognized string match %q'' [Obj]))"

text \<open>\<open>ValidateNetworkEndpointAddress\<close> (lines 2333-2346).\<close>

definition ValidateNetworkEndpointAddress :: "env \<Rightarrow> NetworkEndpoint \<Rightarrow> panic + error option" where
  "ValidateNetworkEndpointAddress E n =
     (case Family n of
        AddressFamilyTCP \<Rightarrow>
          (case net_ParseIP E (Address n) of
             None \<Rightarrow> Inr (Some (errors_New (''invalid IP address '' @ Address n)))
           | Some ipAddr \<Rightarrow> Inr None)
      | AddressFamilyUnix \<Rightarrow> Inr (ValidateUnixAddress (Address n))
      | AddressFamilyOther _ \<Rightarrow> Inl UnhandledFamily)"

section \<open>HTTP routes of a virtual service (lines 1935-2188)\<close>

text \<open>
  The messages of \<open>networking/v1alpha3\<close> that \<open>validateHTTPRoute\<close> reads, with the fields
  it reads.  A oneof is an \<open>option\<close> of its variants, \<open>None\<close> when unset.
\<close>

datatype PortSelector_Port = PortSelector_Number "32 word" | PortSelector_Name string

record PortSelector =
  PortSelector_Port :: "PortSelector_Port option"

record Destination =
  Host :: string
  Subset :: string
  Destination_Port :: "PortSelector option"

record HTTPRouteDestination =
  Route_Destination :: "Destination option"
  Route_Weight :: "32 word"

record HTTPRedirect =
  Redirect_Uri :: string
  Redirect_Authority :: string

record HTTPRewrite =
  Rewrite_Uri :: string
  Rewrite_Authority :: string

record HTTPRetry =
  Attempts :: "32 word"
  PerTryTimeout :: "Duration option"

datatype Delay_HttpDelayType =
    Delay_FixedDelay "Duration option"
  | Delay_ExponentialDelay "Duration option"

record HTTPFaultInjection_Delay =
  Delay_Percent :: "32 word"
  HttpDelayType :: "Delay_HttpDelayType option"

datatype Abort_ErrorType =
    Abort_HttpStatus "32 word"
  | Abort_GrpcStatus string
  | Abort_Http2Error string

record HTTPFaultInjection_Abort =
  Abort_Percent :: "32 word"
  ErrorType :: "Abort_ErrorType option"

record HTTPFaultInjection =
  Delay :: "HTTPFaultInjection_Delay option"
  Abort :: "HTTPFaultInjection_Abort option"

record CorsPolicy =
  AllowMethods :: "string list"
  AllowHeaders :: "string list"
  ExposeHeaders :: "string list"
  MaxAge :: "Duration option"

record HTTPMatchRequest =
  Match_Headers :: "(string \<times> StringMatch) list"
  SourceLabels :: "(string \<times> string) list"

record HTTPRoute =
  Match :: "HTTPMatchRequest list"
  Route :: "HTTPRouteDestination list"
  Redirect :: "HTTPRedirect option"
  Rewrite :: "HTTPRewrite option"
  WebsocketUpgrade :: bool
  Timeout :: "Duration option"
  Retries :: "HTTPRetry option"
  Fault :: "HTTPFaultInjection option"
  Mirror :: "Destination option"
  HTTPRoute_CorsPolicy :: "CorsPolicy option"
  AppendHeaders :: "(string \<times> string) list"

text \<open>\<open>supportedMethods\<close> (lines 77-87), with the values of the constants of \<open>net/http\<close>.\<close>

definition supportedMethods :: "string \<Rightarrow> bool" where
  "supportedMethods m =
     (m \<in> set [''GET'', ''HEAD'', ''POST'', ''PUT'', ''PATCH'', ''DELETE'', ''CONNECT'',
                ''OPTIONS'', ''TRACE''])"

definition validateHTTPMethod :: "string \<Rightarrow> error option" where
  "validateHTTPMethod method =
     (if \<not> supportedMethods method
      then Some (Errorf ''%q is not a supported HTTP method'' [S method])
      else None)"

definition validateHost :: "env \<Rightarrow> string \<Rightarrow> error option" where
  "validateHost E host =
     (case ValidateWildcardDomain host of
        Some err \<Rightarrow>
          (case ValidateIPv4Subnet E host of
             Some err2 \<Rightarrow> appendErrors (Some err) [Some err2]
           | None \<Rightarrow> None)
      | None \<Rightarrow> None)"

definition validateSubsetName :: "string \<Rightarrow> error option" where
  "validateSubsetName name =
     (if length name = 0 then Some (Errorf ''subset name cannot be empty'' [])
      else if \<not> IsDNS1123Label name then Some (Errorf ''subnet name is invalid: %s'' [S name])
      else None)"

text \<open>The getters of a port selector return the zero value for a variant that is not set.\<close>

definition PortSelector_GetName :: "PortSelector \<Rightarrow> string" where
  "PortSelector_GetName selector =
     (case PortSelector_Port selector of Some (PortSelector_Name n) \<Rightarrow> n | _ \<Rightarrow> [])"

definition PortSelector_GetNumber :: "PortSelector \<Rightarrow> 32 word" where
  "PortSelector_GetNumber selector =
     (case PortSelector_Port selector of Some (PortSelector_Number n) \<Rightarrow> n | _ \<Rightarrow> 0)"

definition validatePortSelector :: "PortSelector option \<Rightarrow> error option" where
  "validatePortSelector selector =
     (case selector of
        None \<Rightarrow> None
      | Some sel \<Rightarrow>
          (let name = PortSelector_GetName sel;
               number = (ucast (PortSelector_GetNumber sel) :: 64 word)
           in if name = [] \<and> number = 0
              then appendErrors (validateSubsetName name) [ValidatePort number]
              else if number \<noteq> 0 then ValidatePort number
              else validateSubsetName name))"

definition validateDestination :: "env \<Rightarrow> Destination option \<Rightarrow> error option" where
  "validateDestination E destination =
     (case destination of
        None \<Rightarrow> None
      | Some d \<Rightarrow>
          (let errs = appendErrors None [validateHost E (Host d)];
               errs = (if Subset d \<noteq> [] then appendErrors errs [validateSubsetName (Subset d)]
                       else errs);
               errs = (if Destination_Port d \<noteq> None
                       then appendErrors errs [validatePortSelector (Destination_Port d)]
                       else errs)
           in errs))"

definition validateHTTPStatus :: "32 word \<Rightarrow> error option" where
  "validateHTTPStatus status =
     (if sint status < 0 \<or> sint status > 600
      then Some (Errorf ''HTTP status %d is not in range 0-600'' [I (sint status)])
      else None)"

definition Abort_GetHttpStatus :: "HTTPFaultInjection_Abort \<Rightarrow> 32 word" where
  "Abort_GetHttpStatus abort =
     (case ErrorType abort of Some (Abort_HttpStatus x) \<Rightarrow> x | _ \<Rightarrow> 0)"

text \<open>
  \<open>validateHTTPFaultInjectionAbort\<close> (lines 2058-2077): the type switch has three cases
  and no \<open>default\<close>.
\<close>

definition validateHTTPFaultInjectionAbort :: "HTTPFaultInjection_Abort option \<Rightarrow> error option" where
  "validateHTTPFaultInjectionAbort abort =
     (case abort of
        None \<Rightarrow> None
      | Some a \<Rightarrow>
          (let errs = appendErrors None [ValidatePercent (Abort_Percent a)]
           in case ErrorType a of
                Some (Abort_GrpcStatus _) \<Rightarrow>
                  Some (multierror_Append errs
                    [Some (errors_New ''gRPC abort fault injection not supported yet'')])
              | Some (Abort_Http2Error _) \<Rightarrow>
                  Some (multierror_Append errs
                    [Some (errors_New ''HTTP/2 abort fault injection not supported yet'')])
              | Some (Abort_HttpStatus _) \<Rightarrow>
                  appendErrors errs [validateHTTPStatus (Abort_GetHttpStatus a)]
              | None \<Rightarrow> errs))"

definition validateHTTPFaultInjectionDelay :: "env \<Rightarrow> HTTPFaultInjection_Delay option \<Rightarrow> error option" where
  "validateHTTPFaultInjectionDelay E delay =
     (case delay of
        None \<Rightarrow> None
      | Some d \<Rightarrow>
          (let errs = appendErrors None [ValidatePercent (Delay_Percent d)]
           in case HttpDelayType d of
                Some (Delay_FixedDelay v) \<Rightarrow> appendErrors errs [ValidateDurationGogo E v]
              | Some (Delay_ExponentialDelay v) \<Rightarrow>
                  Some (multierror_Append (appendErrors errs [ValidateDurationGogo E v])
                    [Some (Errorf ''exponentialDelay not supported yet'' [])])
              | None \<Rightarrow> errs))"

definition validateHTTPFaultInjection :: "env \<Rightarrow> HTTPFaultInjection option \<Rightarrow> error option" where
  "validateHTTPFaultInjection E fault =
     (case fault of
        None \<Rightarrow> None
      | Some f \<Rightarrow>
          (let errs = (if Abort f = None \<and> Delay f = None
                       then Some (multierror_Append None
                         [Some (errors_New ''HTTP fault injection must have an abort and/or a delay'')])
                       else None);
               errs = appendErrors errs [validateHTTPFaultInjectionAbort (Abort f)];
               errs = appendErrors errs [validateHTTPFaultInjectionDelay E (Delay f)]
           in errs))"

definition validateCORSPolicy :: "env \<Rightarrow> CorsPolicy option \<Rightarrow> error option" where
  "validateCORSPolicy E policy =
     (case policy of
        None \<Rightarrow> None
      | Some p \<Rightarrow>
          (let errs = foldl (\<lambda>errs method. appendErrors errs [validateHTTPMethod method])
                        None (AllowMethods p);
               errs = foldl (\<lambda>errs name. appendErrors errs [ValidateHTTPHeaderName E name])
                        errs (AllowHeaders p);
               errs = foldl (\<lambda>errs name. appendErrors errs [ValidateHTTPHeaderName E name])
                        errs (ExposeHeaders p)
           in case MaxAge p of
                None \<Rightarrow> errs
              | Some maxAge \<Rightarrow>
                  (let errs = appendErrors errs [ValidateDurationGogo E (MaxAge p)]
                   in if sint (Nanos maxAge) > 0
                      then Some (multierror_Append errs
                        [Some (errors_New ''max_age duration is accurate only to seconds precision'')])
                      else errs)))"

definition validateHTTPRetry :: "env \<Rightarrow> HTTPRetry option \<Rightarrow> error option" where
  "validateHTTPRetry E retries =
     (case retries of
        None \<Rightarrow> None
      | Some r \<Rightarrow>
          (let errs = (if sint (Attempts r) \<le> 0
                       then Some (multierror_Append None [Some (errors_New ''attempts must be positive'')])
                       else None)
           in if PerTryTimeout r \<noteq> None
              then appendErrors errs [ValidateDurationGogo E (PerTryTimeout r)]
              else errs))"

definition validateHTTPRedirect :: "HTTPRedirect option \<Rightarrow> error option" where
  "validateHTTPRedirect redirect =
     (case redirect of
        None \<Rightarrow> None
      | Some r \<Rightarrow>
          if Redirect_Uri r = [] \<and> Redirect_Authority r = []
          then Some (errors_New ''redirect must specify URI, authority, or both'')
          else None)"

definition validateHTTPRewrite :: "HTTPRewrite option \<Rightarrow> error option" where
  "validateHTTPRewrite rewrite =
     (case rewrite of
        None \<Rightarrow> None
      | Some r \<Rightarrow>
          if Rewrite_Uri r = [] \<and> Rewrite_Authority r = []
          then Some (errors_New ''rewrite must specify URI, authority, or both'')
          else None)"

text \<open>
  \<open>validateHTTPRoute\<close> (lines 1946-2003).  The loop over \<open>http.Route\<close> carries \<open>errs\<close> and
  the \<open>int32\<close> variable \<open>totalWeight\<close>; \<open>+=\<close> on an \<open>int32\<close> wraps around.
\<close>

definition validateHTTPRoute_conflicts :: "HTTPRoute \<Rightarrow> error option" where
  "validateHTTPRoute_conflicts http =
     (if Redirect http \<noteq> None then
        (let errs = (if length (Route http) > 0
                     then appendErrors None
                       [Some (errors_New ''HTTP route cannot contain both route and redirect'')]
                     else None);
             errs = (if Fault http \<noteq> None
                     then appendErrors errs
                       [Some (errors_New ''HTTP route cannot contain both fault and redirect'')]
                     else errs);
             errs = (if Rewrite http \<noteq> None
                     then appendErrors errs
                       [Some (errors_New ''HTTP route rule cannot contain both rewrite and redirect'')]
                     else errs);
             errs = (if WebsocketUpgrade http
                     then appendErrors errs
                       [Some (errors_New ''WebSocket upgrade is not allowed on redirect rules'')]
                     else errs)
         in errs)
      else if length (Route http) = 0
      then appendErrors None [Some (errors_New ''HTTP route or redirect is required'')]
      else None)"

definition validateHTTPRoute_match :: "env \<Rightarrow> error option \<Rightarrow> HTTPMatchRequest \<Rightarrow> error option" where
  "validateHTTPRoute_match E errs match =
     (let errs = foldl (\<lambda>errs kv. appendErrors errs [ValidateHTTPHeaderName E (fst kv)])
                   errs (Match_Headers match)
      in appendErrors errs [Labels_Validate (SourceLabels match)])"

definition validateHTTPRoute_route ::
    "env \<Rightarrow> error option \<times> 32 word \<Rightarrow> HTTPRouteDestination \<Rightarrow> error option \<times> 32 word" where
  "validateHTTPRoute_route E st route =
     (let errs = fst st; totalWeight = snd st;
          errs = (if Route_Destination route = None
                  then Some (multierror_Append errs [Some (errors_New ''destination is required'')])
                  else errs);
          errs = appendErrors errs [validateDestination E (Route_Destination route)];
          errs = appendErrors errs [ValidatePercent (Route_Weight route)]
      in (errs, totalWeight + Route_Weight route))"

definition validateHTTPRoute :: "env \<Rightarrow> HTTPRoute \<Rightarrow> error option" where
  "validateHTTPRoute E http =
     (let errs = validateHTTPRoute_conflicts http;
          errs = foldl (\<lambda>errs kv. appendErrors errs [ValidateHTTPHeaderName E (fst kv)])
                   errs (AppendHeaders http);
          errs = appendErrors errs [validateCORSPolicy E (HTTPRoute_CorsPolicy http)];
          errs = appendErrors errs [validateHTTPFaultInjection E (Fault http)];
          errs = foldl (validateHTTPRoute_match E) errs (Match http);
          errs = appendErrors errs [validateDestination E (Mirror http)];
          errs = appendErrors errs [validateHTTPRedirect (Redirect http)];
          errs = appendErrors errs [validateHTTPRetry E (Retries http)];
          errs = appendErrors errs [validateHTTPRewrite (Rewrite http)];
          st = foldl (validateHTTPRoute_route E) (errs, 0) (Route http);
          errs = fst st; totalWeight = snd st;
          errs = (if length (Route http) > 1 \<and> sint totalWeight > 100
                  then appendErrors errs
                    [Some (Errorf ''total destination weight %v > 100'' [I (sint totalWeight)])]
                  else errs);
          errs = (if Timeout http \<noteq> None
                  then appendErrors errs [ValidateDurationGogo E (Timeout http)]
                  else errs)
      in errs)"

section \<open>Loops that can panic\<close>

text \<open>
  A \<open>for ... range\<close> loop whose body can panic: the loop stops at the first panic, otherwise
  the next iteration starts from the state the body returns.
\<close>

fun foldlP :: "('a \<Rightarrow> 'b \<Rightarrow> panic + 'a) \<Rightarrow> 'a \<Rightarrow> 'b list \<Rightarrow> panic + 'a" where
  "foldlP f a [] = Inr a"
| "foldlP f a (x # xs) = (case f a x of Inl p \<Rightarrow> Inl p | Inr a' \<Rightarrow> foldlP f a' xs)"

text \<open>Sequencing: what follows a call that panicked does not run.\<close>

definition bindP :: "panic + 'a \<Rightarrow> ('a \<Rightarrow> panic + 'b) \<Rightarrow> panic + 'b" where
  "bindP r f = (case r of Inl p \<Rightarrow> Inl p | Inr a \<Rightarrow> f a)"

section \<open>Gateways (lines 888-969)\<close>

text \<open>
  The messages of a gateway.  An enumeration of protobuf is an \<open>int32\<close>: besides the
  constants that the source names, a field can hold any other number.
\<close>

record Port =
  Port_Number :: "32 word"
  Port_Protocol :: string
  Port_Name :: string

datatype Server_TLSOptions_TLSmode =
    Server_TLSOptions_SIMPLE
  | Server_TLSOptions_MUTUAL
  | Server_TLSOptions_other int

record Server_TLSOptions =
  Mode :: Server_TLSOptions_TLSmode
  ServerCertificate :: string
  CaCertificates :: string

record Server =
  Server_Port :: "Port option"
  Server_Hosts :: "string list"
  Tls :: "Server_TLSOptions option"

record Gateway =
  Servers :: "Server list"

definition validateServerPort :: "env \<Rightarrow> Port option \<Rightarrow> error option" where
  "validateServerPort E port =
     (case port of
        None \<Rightarrow> appendErrors None [Some (Errorf ''port is required'' [])]
      | Some p \<Rightarrow>
          (let errs = (if ParseProtocol E (Port_Protocol p) = ProtocolUnsupported
                       then appendErrors None
                         [Some (Errorf ''invalid protocol %q, supported protocols are HTTP, HTTP2, GRPC, MONGO, REDIS, TCP''
                                  [S (Port_Protocol p)])]
                       else None);
               errs = (if 0 < uint (Port_Number p)
                       then appendErrors errs [ValidatePort (ucast (Port_Number p))]
                       else errs);
               errs = (if Port_Name p = []
                       then appendErrors errs [Some (Errorf ''port name must be set: %v'' [Obj])]
                       else errs)
           in errs))"

definition validateTLSOptions :: "Server_TLSOptions option \<Rightarrow> error option" where
  "validateTLSOptions tls =
     (case tls of
        None \<Rightarrow> None
      | Some t \<Rightarrow>
          if Mode t = Server_TLSOptions_SIMPLE then
            (if ServerCertificate t = []
             then appendErrors None [Some (Errorf ''SIMPLE TLS requires a server certificate'' [])]
             else None)
          else if Mode t = Server_TLSOptions_MUTUAL then
            (let errs = (if ServerCertificate t = []
                         then appendErrors None
                           [Some (Errorf ''MUTUAL TLS requires a server certificate'' [])]
                         else None)
             in if CaCertificates t = []
                then appendErrors errs [Some (Errorf ''MUTUAL TLS requires a client CA bundle'' [])]
                else errs)
          else None)"

definition validateServer_host :: "env \<Rightarrow> error option \<Rightarrow> string \<Rightarrow> error option" where
  "validateServer_host E errs host =
     (case ValidateWildcardDomain host of
        Some err \<Rightarrow>
          (case ValidateIPv4Subnet E host of
             Some err2 \<Rightarrow> appendErrors errs [Some err, Some err2]
           | None \<Rightarrow> errs)
      | None \<Rightarrow> errs)"

definition validateServer :: "env \<Rightarrow> Server \<Rightarrow> error option" where
  "validateServer E server =
     (let errs = (if length (Server_Hosts server) = 0
                  then appendErrors None
                    [Some (Errorf ''server config must contain at least one host'' [])]
                  else foldl (validateServer_host E) None (Server_Hosts server))
      in appendErrors errs [validateTLSOptions (Tls server), validateServerPort E (Server_Port server)])"

text \<open>
  The second loop of \<open>ValidateGateway\<close> reads \<open>s.Port.Name\<close> without a test of \<open>s.Port\<close>.
  The map \<open>portNames\<close> is the function from a name to its entry, \<open>False\<close> where absent.
\<close>

definition ValidateGateway_portName ::
    "error option \<times> (string \<Rightarrow> bool) \<Rightarrow> Server \<Rightarrow> panic + error option \<times> (string \<Rightarrow> bool)" where
  "ValidateGateway_portName st s =
     (case Server_Port s of
        None \<Rightarrow> Inl NilDereference
      | Some port \<Rightarrow>
          (let errs = fst st; portNames = snd st;
               errs = (if portNames (Port_Name port)
                       then appendErrors errs
                         [Some (Errorf ''port names in servers must be unique: duplicate name %s''
                                  [S (Port_Name port)])]
                       else errs)
           in Inr (errs, portNames (Port_Name port := True))))"

definition ValidateGateway_body :: "env \<Rightarrow> Gateway \<Rightarrow> panic + error option" where
  "ValidateGateway_body E v =
     (let errs = (if length (Servers v) = 0
                  then appendErrors None [Some (Errorf ''gateway must have at least one server'' [])]
                  else foldl (\<lambda>errs server. appendErrors errs [validateServer E server])
                         None (Servers v))
      in case foldlP ValidateGateway_portName (errs, \<lambda>n. False) (Servers v) of
           Inl p \<Rightarrow> Inl p
         | Inr st \<Rightarrow> Inr (fst st))"

section \<open>Service entries (lines 2190-2311)\<close>

datatype ServiceEntry_Resolution =
    ServiceEntry_NONE
  | ServiceEntry_STATIC
  | ServiceEntry_DNS
  | ServiceEntry_other int

record ServiceEntry_Endpoint =
  Endpoint_Address :: string
  Endpoint_Ports :: "(string \<times> 32 word) list"
  Endpoint_Labels :: "(string \<times> string) list"

record ServiceEntry =
  ServiceEntry_Hosts :: "string list"
  Addresses :: "string list"
  ServiceEntry_Ports :: "Port list"
  Resolution :: ServiceEntry_Resolution
  Endpoints :: "ServiceEntry_Endpoint list"

definition UnixAddressPrefix :: string where
  "UnixAddressPrefix = ''unix://''"

definition validatePortName :: "string \<Rightarrow> error option" where
  "validatePortName name =
     (if \<not> IsDNS1123Label name then Some (Errorf ''invalid port name: %s'' [S name]) else None)"

definition validateProtocol :: "env \<Rightarrow> string \<Rightarrow> error option" where
  "validateProtocol E protocol =
     (if ParseProtocol E protocol = ProtocolUnsupported
      then Some (Errorf ''unsupported protocol: %s'' [S protocol])
      else None)"

definition ValidateServiceEntry_host :: "error option \<Rightarrow> string \<Rightarrow> error option" where
  "ValidateServiceEntry_host errs host =
     (if host = ''*'' \<or> \<not> strings_Contains host CHR ''.''
      then appendErrors errs [Some (Errorf ''invalid host %s'' [S host])]
      else appendErrors errs [ValidateWildcardDomain host])"

text \<open>
  The loop over the ports fills the maps \<open>servicePorts\<close> (names) and \<open>servicePortNumbers\<close>.
\<close>

definition ValidateServiceEntry_port ::
    "error option \<times> (string \<Rightarrow> bool) \<times> (32 word \<Rightarrow> bool) \<Rightarrow> Port
      \<Rightarrow> error option \<times> (string \<Rightarrow> bool) \<times> (32 word \<Rightarrow> bool)" where
  "ValidateServiceEntry_port st port =
     (let errs = fst st; servicePorts = fst (snd st); servicePortNumbers = snd (snd st);
          errs = (if servicePorts (Port_Name port)
                  then appendErrors errs
                    [Some (Errorf ''service entry port name %q already defined'' [S (Port_Name port)])]
                  else errs);
          servicePorts = servicePorts (Port_Name port := True);
          errs = (if servicePortNumbers (Port_Number port)
                  then appendErrors errs
                    [Some (Errorf ''service entry port %d already defined'' [I (uint (Port_Number port))])]
                  else errs);
          servicePortNumbers = servicePortNumbers (Port_Number port := True)
      in (errs, servicePorts, servicePortNumbers))"

definition ValidateServiceEntry_endpointPort ::
    "(string \<Rightarrow> bool) \<Rightarrow> error option \<Rightarrow> string \<times> 32 word \<Rightarrow> error option" where
  "ValidateServiceEntry_endpointPort servicePorts errs np =
     (if \<not> servicePorts (fst np)
      then appendErrors errs
        [Some (Errorf ''endpoint port %v is not defined by the service entry'' [I (uint (snd np))])]
      else errs)"

definition ValidateServiceEntry_static ::
    "env \<Rightarrow> (string \<Rightarrow> bool) \<Rightarrow> error option \<times> bool \<Rightarrow> ServiceEntry_Endpoint
      \<Rightarrow> error option \<times> bool" where
  "ValidateServiceEntry_static E servicePorts st endpoint =
     (let errs = fst st; unixEndpoint = snd st;
          addr = Endpoint_Address endpoint
      in if strings_HasPrefix addr UnixAddressPrefix then
           (let errs = appendErrors errs
                  [ValidateUnixAddress (strings_TrimPrefix addr UnixAddressPrefix)];
                errs = (if length (Endpoint_Ports endpoint) \<noteq> 0
                        then appendErrors errs
                          [Some (Errorf ''unix endpoint %s must not include ports'' [S addr])]
                        else errs)
            in (appendErrors errs [Labels_Validate (Endpoint_Labels endpoint)], True))
         else
           (let errs = appendErrors errs [ValidateIPv4Address E addr];
                errs = foldl (ValidateServiceEntry_endpointPort servicePorts) errs
                         (Endpoint_Ports endpoint)
            in (appendErrors errs [Labels_Validate (Endpoint_Labels endpoint)], unixEndpoint)))"

definition ValidateServiceEntry_dnsPort ::
    "(string \<Rightarrow> bool) \<Rightarrow> error option \<Rightarrow> string \<times> 32 word \<Rightarrow> error option" where
  "ValidateServiceEntry_dnsPort servicePorts errs np =
     (let errs = (if \<not> servicePorts (fst np)
                  then appendErrors errs
                    [Some (Errorf ''endpoint port %v is not defined by the service entry''
                             [I (uint (snd np))])]
                  else errs)
      in appendErrors errs [validatePortName (fst np), ValidatePort (ucast (snd np))])"

definition ValidateServiceEntry_dns ::
    "(string \<Rightarrow> bool) \<Rightarrow> error option \<Rightarrow> ServiceEntry_Endpoint \<Rightarrow> error option" where
  "ValidateServiceEntry_dns servicePorts errs endpoint =
     (let errs = appendErrors errs
            [ValidateFQDN (Endpoint_Address endpoint), Labels_Validate (Endpoint_Labels endpoint)]
      in foldl (ValidateServiceEntry_dnsPort servicePorts) errs (Endpoint_Ports endpoint))"

definition ValidateServiceEntry_resolution ::
    "env \<Rightarrow> ServiceEntry \<Rightarrow> (string \<Rightarrow> bool) \<Rightarrow> error option \<Rightarrow> error option" where
  "ValidateServiceEntry_resolution E serviceEntry servicePorts errs =
     (case Resolution serviceEntry of
        ServiceEntry_NONE \<Rightarrow>
          (if length (Endpoints serviceEntry) \<noteq> 0
           then appendErrors errs
             [Some (Errorf ''no endpoints should be provided for discovery type none'' [])]
           else errs)
      | ServiceEntry_STATIC \<Rightarrow>
          (let errs = (if length (Endpoints serviceEntry) = 0
                       then appendErrors errs
                         [Some (Errorf ''endpoints must be provided if service entry discovery mode is static'' [])]
                       else errs);
               st = foldl (ValidateServiceEntry_static E servicePorts) (errs, False)
                      (Endpoints serviceEntry);
               errs = fst st; unixEndpoint = snd st
           in if unixEndpoint \<and> length (ServiceEntry_Ports serviceEntry) \<noteq> 1
              then appendErrors errs
                [Some (errors_New ''exactly 1 service port required for unix endpoints'')]
              else errs)
      | ServiceEntry_DNS \<Rightarrow>
          (let errs = (if length (Endpoints serviceEntry) = 0
                       then foldl (\<lambda>errs host.
                              if ValidateFQDN host \<noteq> None
                              then appendErrors errs
                                [Some (Errorf ''hosts must be FQDN if no endpoints are provided for discovery mode DNS'' [])]
                              else errs)
                            errs (ServiceEntry_Hosts serviceEntry)
                       else errs)
           in foldl (ValidateServiceEntry_dns servicePorts) errs (Endpoints serviceEntry))
      | ServiceEntry_other n \<Rightarrow>
          appendErrors errs [Some (Errorf ''unsupported resolution type %s'' [Obj])])"

definition ValidateServiceEntry_body :: "env \<Rightarrow> ServiceEntry \<Rightarrow> error option" where
  "ValidateServiceEntry_body E serviceEntry =
     (let errs = (if length (ServiceEntry_Hosts serviceEntry) = 0
                  then appendErrors None
                    [Some (Errorf ''service entry must have at least one host'' [])]
                  else None);
          errs = foldl ValidateServiceEntry_host errs (ServiceEntry_Hosts serviceEntry);
          errs = foldl (\<lambda>errs address. appendErrors errs [validateCIDR E address])
                   errs (Addresses serviceEntry);
          st = foldl ValidateServiceEntry_port (errs, \<lambda>n. False, \<lambda>n. False)
                 (ServiceEntry_Ports serviceEntry);
          errs = fst st; servicePorts = fst (snd st);
          errs = ValidateServiceEntry_resolution E serviceEntry servicePorts errs
      in foldl (\<lambda>errs port. appendErrors errs
                  [validatePortName (Port_Name port), validateProtocol E (Port_Protocol port),
                   ValidatePort (ucast (Port_Number port))])
           errs (ServiceEntry_Ports serviceEntry))"

section \<open>Authentication policies (lines 1695-1747, 1823-1871, 2145-2160)\<close>

text \<open>
  The messages of \<open>authentication/v1alpha1\<close>.  Its port selector has the shape of the one
  of \<open>networking/v1alpha3\<close> and shares its model.  \<open>validateAuthNPolicyTarget\<close> and
  \<open>validateAuthNPortSelector\<close> test their argument against \<open>nil\<close>: the elements of
  \<open>Targets\<close> and of \<open>Ports\<close> are options.
\<close>

record TargetSelector =
  Target_Name :: string
  Target_Ports :: "PortSelector option list"

record Jwt =
  Issuer :: string
  Audiences :: "string list"
  JwksUri :: string
  JwtHeaders :: "string list"
  JwtParams :: "string list"

datatype PeerAuthenticationMethod_Params = Peer_Mtls | Peer_Jwt "Jwt option"

record PeerAuthenticationMethod =
  Params :: "PeerAuthenticationMethod_Params option"

record OriginAuthenticationMethod =
  Origin_Jwt :: "Jwt option"

record Policy =
  Targets :: "TargetSelector option list"
  Peers :: "PeerAuthenticationMethod list"
  Origins :: "OriginAuthenticationMethod list"

definition validateAuthNPortSelector :: "PortSelector option \<Rightarrow> error option" where
  "validateAuthNPortSelector selector =
     (case selector of
        None \<Rightarrow> None
      | Some sel \<Rightarrow>
          (let name = PortSelector_GetName sel;
               number = (ucast (PortSelector_GetNumber sel) :: 64 word)
           in if name = [] \<and> number = 0
              then appendErrors (validateSubsetName name) [ValidatePort number]
              else if number \<noteq> 0 then ValidatePort number
              else validateSubsetName name))"

definition validateAuthNPolicyTarget :: "TargetSelector option \<Rightarrow> error option" where
  "validateAuthNPolicyTarget target =
     (case target of
        None \<Rightarrow> None
      | Some t \<Rightarrow>
          (let errs = (if \<not> IsDNS1123Label (Target_Name t)
                       then Some (multierror_Append None
                         [Some (Errorf ''target name %q must be a valid label'' [S (Target_Name t)])])
                       else None)
           in foldl (\<lambda>errs port. appendErrors errs [validateAuthNPortSelector port])
                errs (Target_Ports t)))"

definition validateJwt :: "env \<Rightarrow> Jwt option \<Rightarrow> error option" where
  "validateJwt E jwt =
     (case jwt of
        None \<Rightarrow> None
      | Some j \<Rightarrow>
          (let errs = (if Issuer j = []
                       then Some (multierror_Append None [Some (errors_New ''issuer must be set'')])
                       else None);
               errs = foldl (\<lambda>errs audience.
                        if audience = []
                        then Some (multierror_Append errs
                          [Some (errors_New ''audience must be non-empty string'')])
                        else errs) errs (Audiences j);
               errs = (if JwksUri j \<noteq> []
                       then (case ParseJwksURI E (JwksUri j) of
                               Some err \<Rightarrow> Some (multierror_Append errs [Some (Opaque err)])
                             | None \<Rightarrow> errs)
                       else errs);
               errs = foldl (\<lambda>errs location.
                        if location = []
                        then Some (multierror_Append errs
                          [Some (errors_New ''location header must be non-empty string'')])
                        else errs) errs (JwtHeaders j);
               errs = foldl (\<lambda>errs location.
                        if location = []
                        then Some (multierror_Append errs
                          [Some (errors_New ''location query must be non-empty string'')])
                        else errs) errs (JwtParams j)
           in errs))"

text \<open>\<open>method.GetJwt()\<close> of a peer method: its JWT when the oneof holds one, else \<open>nil\<close>.\<close>

definition Peer_GetJwt :: "PeerAuthenticationMethod \<Rightarrow> Jwt option" where
  "Peer_GetJwt method = (case Params method of Some (Peer_Jwt j) \<Rightarrow> j | _ \<Rightarrow> None)"

definition ValidateAuthenticationPolicy_peer ::
    "env \<Rightarrow> error option \<times> (string \<Rightarrow> bool) \<Rightarrow> PeerAuthenticationMethod
      \<Rightarrow> error option \<times> (string \<Rightarrow> bool)" where
  "ValidateAuthenticationPolicy_peer E st method =
     (case Peer_GetJwt method of
        None \<Rightarrow> st
      | Some jwt \<Rightarrow>
          (let errs = fst st; jwtIssuers = snd st;
               errs' = (if jwtIssuers (Issuer jwt)
                        then appendErrors errs
                          [Some (Errorf ''jwt with issuer %q already defined'' [S (Issuer jwt)])]
                        else errs);
               jwtIssuers = jwtIssuers (Issuer jwt := True)
           in (appendErrors errs' [validateJwt E (Some jwt)], jwtIssuers)))"

text \<open>
  The loop over \<open>in.Origins\<close> reads \<open>method.Jwt.Issuer\<close> without a test of \<open>method.Jwt\<close>.
\<close>

definition ValidateAuthenticationPolicy_origin ::
    "env \<Rightarrow> error option \<times> (string \<Rightarrow> bool) \<Rightarrow> OriginAuthenticationMethod
      \<Rightarrow> panic + error option \<times> (string \<Rightarrow> bool)" where
  "ValidateAuthenticationPolicy_origin E st method =
     (case Origin_Jwt method of
        None \<Rightarrow> Inl NilDereference
      | Some jwt \<Rightarrow>
          (let errs = fst st; jwtIssuers = snd st;
               errs' = (if jwtIssuers (Issuer jwt)
                        then appendErrors errs
                          [Some (Errorf ''jwt with issuer %q already defined'' [S (Issuer jwt)])]
                        else errs);
               jwtIssuers = jwtIssuers (Issuer jwt := True)
           in Inr (appendErrors errs' [validateJwt E (Origin_Jwt method)], jwtIssuers)))"

definition ValidateAuthenticationPolicy_body ::
    "env \<Rightarrow> string \<Rightarrow> string \<Rightarrow> Policy \<Rightarrow> panic + error option" where
  "ValidateAuthenticationPolicy_body E name namespace v =
     (let clusterScoped = (namespace = []);
          errs =
            (if \<not> clusterScoped then
               (let errs = (if length (Targets v) = 0 \<and> name \<noteq> DefaultAuthenticationPolicyName E
                            then appendErrors None
                              [Some (Errorf ''authentication policy with no target rules  must be named %q, found %q''
                                       [S (DefaultAuthenticationPolicyName E), S name])]
                            else None);
                    errs = (if length (Targets v) > 0 \<and> name = DefaultAuthenticationPolicyName E
                            then appendErrors errs
                              [Some (Errorf ''authentication policy with name %q must not have any target rules''
                                       [S name])]
                            else errs)
                in foldl (\<lambda>errs target. appendErrors errs [validateAuthNPolicyTarget target])
                     errs (Targets v))
             else
               (let errs = (if name \<noteq> DefaultAuthenticationPolicyName E
                            then appendErrors None
                              [Some (Errorf ''cluster-scoped authentication policy name must be %q, found %q''
                                       [S (DefaultAuthenticationPolicyName E), S name])]
                            else None)
                in if length (Targets v) > 0
                   then appendErrors errs
                     [Some (Errorf ''cluster-scoped authentication policy must not have targets'' [])]
                   else errs));
          st = foldl (ValidateAuthenticationPolicy_peer E) (errs, \<lambda>i. False) (Peers v)
      in case foldlP (ValidateAuthenticationPolicy_origin E) st (Origins v) of
           Inl p \<Rightarrow> Inl p
         | Inr st \<Rightarrow> Inr (fst st))"

section \<open>Mixer attributes and HTTP API specifications (lines 1488-1588)\<close>

text \<open>
  The values of a Mixer attribute: the variants of the oneof \<open>Value\<close>.  \<open>Entries\<close> of a
  string map is \<open>None\<close> for the \<open>nil\<close> map.  The payload of a double is never read.
\<close>

record StringMap =
  Entries :: "(string \<times> string) list option"

datatype AttributeValue =
    StringValue string
  | Int64Value "64 word"
  | DoubleValue
  | BoolValue bool
  | BytesValue "8 word list"
  | TimestampValue "Timestamp option"
  | DurationValue "Duration option"
  | StringMapValue "StringMap option"

record Attributes =
  Attributes_Attributes :: "(string \<times> AttributeValue option) list"

datatype HTTPAPISpecPattern_Pattern =
    HTTPAPISpecPattern_UriTemplate string
  | HTTPAPISpecPattern_Regex string

record HTTPAPISpecPattern =
  HttpMethod :: string
  Pattern :: "HTTPAPISpecPattern_Pattern option"

datatype APIKey_Key = APIKey_Query string | APIKey_Header string | APIKey_Cookie string

record APIKey =
  Key :: "APIKey_Key option"

record HTTPAPISpec =
  HTTPAPISpec_Attributes :: "Attributes option"
  Patterns :: "HTTPAPISpecPattern list"
  ApiKeys :: "APIKey list"

section \<open>Route rules and ingress rules (lines 274-368, 416-501, 562-647, 724-886, 1049-1081)\<close>

text \<open>
  A \<open>float32\<close> or \<open>float64\<close> field, as far as the comparisons of the validators see it.
  A comparison with a NaN is false.
\<close>

datatype float = Finite real | PosInf | NegInf | NaN

definition float_less :: "float \<Rightarrow> real \<Rightarrow> bool" where
  "float_less x c = (case x of Finite r \<Rightarrow> r < c | NegInf \<Rightarrow> True | _ \<Rightarrow> False)"

definition float_greater :: "float \<Rightarrow> real \<Rightarrow> bool" where
  "float_greater x c = (case x of Finite r \<Rightarrow> r > c | PosInf \<Rightarrow> True | _ \<Rightarrow> False)"

text \<open>
  The messages of \<open>routing/v1alpha1\<close>, with the fields that the validators read.
  \<open>ValidateRouteRule\<close> compares the slice \<open>value.Route\<close> with \<open>nil\<close>: the field is an
  option, \<open>None\<close> for the \<open>nil\<close> slice, whose length is 0.
\<close>

record IstioService =
  IstioService_Name :: string
  IstioService_Namespace :: string
  IstioService_Domain :: string
  IstioService_Service :: string
  IstioService_Labels :: "(string \<times> string) list"

record L4MatchAttributes =
  SourceSubnet :: "string list"
  DestinationSubnet :: "string list"

record MatchRequest =
  MatchRequest_Headers :: "(string \<times> StringMatch) list"

record MatchCondition =
  Source :: "IstioService option"
  Tcp :: "L4MatchAttributes option"
  Udp :: "L4MatchAttributes option"
  Request :: "MatchRequest option"

record RouteRule_HTTPRedirect =
  RouteRule_Redirect_Uri :: string
  RouteRule_Redirect_Authority :: string

record RouteRule_HTTPRewrite =
  RouteRule_Rewrite_Uri :: string
  RouteRule_Rewrite_Authority :: string

record SimpleTimeoutPolicy =
  SimpleTimeout_Timeout :: "Duration option"

datatype HTTPTimeout_TimeoutPolicy =
    HTTPTimeout_SimpleTimeout "SimpleTimeoutPolicy option"
  | HTTPTimeout_Custom string

record HTTPTimeout =
  TimeoutPolicy :: "HTTPTimeout_TimeoutPolicy option"

record SimpleRetryPolicy =
  SimpleRetry_Attempts :: "32 word"
  SimpleRetry_PerTryTimeout :: "Duration option"

datatype HTTPRetry_RetryPolicy =
    HTTPRetry_SimpleRetry "SimpleRetryPolicy option"
  | HTTPRetry_Custom string

record RouteRule_HTTPRetry =
  RetryPolicy :: "HTTPRetry_RetryPolicy option"

datatype RouteRule_Delay_HttpDelayType =
    RouteRule_Delay_FixedDelay "Duration option"
  | RouteRule_Delay_ExponentialDelay "Duration option"

record RouteRule_Delay =
  RouteRule_Delay_Percent :: float
  RouteRule_HttpDelayType :: "RouteRule_Delay_HttpDelayType option"

datatype RouteRule_Abort_ErrorType =
    RouteRule_Abort_GrpcStatus string
  | RouteRule_Abort_Http2Error string
  | RouteRule_Abort_HttpStatus "32 word"

record RouteRule_Abort =
  RouteRule_Abort_Percent :: float
  RouteRule_ErrorType :: "RouteRule_Abort_ErrorType option"

record RouteRule_HTTPFaultInjection =
  RouteRule_Delay :: "RouteRule_Delay option"
  RouteRule_Abort :: "RouteRule_Abort option"

record L4FaultInjection_Terminate =
  Terminate_Percent :: float

datatype Throttle_ThrottleAfter =
    Throttle_ThrottleAfterPeriod "Duration option"
  | Throttle_ThrottleAfterBytes float

record L4FaultInjection_Throttle =
  Throttle_Percent :: float
  DownstreamLimitBps :: "64 word"
  UpstreamLimitBps :: "64 word"
  ThrottleAfter :: "Throttle_ThrottleAfter option"

record L4FaultInjection =
  Throttle :: "L4FaultInjection_Throttle option"
  Terminate :: "L4FaultInjection_Terminate option"

record RouteRule_CorsPolicy =
  RouteRule_AllowMethods :: "string list"
  RouteRule_AllowHeaders :: "string list"
  RouteRule_ExposeHeaders :: "string list"
  RouteRule_MaxAge :: "Duration option"

record RouteRule =
  RouteRule_Destination :: "IstioService option"
  RouteRule_Match :: "MatchCondition option"
  RouteRule_Route :: "DestinationWeight list option"
  RouteRule_Redirect :: "RouteRule_HTTPRedirect option"
  RouteRule_Rewrite :: "RouteRule_HTTPRewrite option"
  RouteRule_WebsocketUpgrade :: bool
  HttpReqTimeout :: "HTTPTimeout option"
  HttpReqRetries :: "RouteRule_HTTPRetry option"
  HttpFault :: "RouteRule_HTTPFaultInjection option"
  L4Fault :: "L4FaultInjection option"
  RouteRule_Mirror :: "IstioService option"
  RouteRule_CorsPolicy :: "RouteRule_CorsPolicy option"
  RouteRule_AppendHeaders :: "(string \<times> string) list"

record IngressRule =
  IngressRule_Destination :: "IstioService option"

text \<open>\<open>ValidateFloatPercent\<close> (lines 417-422).\<close>

definition ValidateFloatPercent :: "float \<Rightarrow> error option" where
  "ValidateFloatPercent val =
     (if float_less val 0 \<or> float_greater val 100
      then Some (Errorf ''percentage %v is not in range 0..100'' [Obj])
      else None)"

text \<open>
  \<open>ValidateEgressRuleDomain\<close> and \<open>ValidateEgressRuleService\<close> (lines 1052-1081): a leading
  \<open>*\<close>, and a \<open>.\<close> or \<open>-\<close> after it, are cut off before the rest is checked as an FQDN.
\<close>

definition ValidateEgressRuleDomain :: "string \<Rightarrow> error option" where
  "ValidateEgressRuleDomain domain =
     (if length domain < 1 then Some (Errorf ''domain must not be empty string'' [])
      else if hd domain = CHR ''*'' then
        (let domain = tl domain
         in if length domain = 0 then None
            else if hd domain = CHR ''.'' \<or> hd domain = CHR ''-'' then ValidateFQDN (tl domain)
            else ValidateFQDN domain)
      else ValidateFQDN domain)"

definition ValidateEgressRuleService :: "env \<Rightarrow> string \<Rightarrow> error option" where
  "ValidateEgressRuleService E service =
     (if strings_Count service CHR ''/'' = 1 then validateCIDR E service
      else ValidateEgressRuleDomain service)"

definition ValidateIstioService :: "env \<Rightarrow> IstioService \<Rightarrow> error option" where
  "ValidateIstioService E svc =
     (let errs =
            (if IstioService_Name svc = [] \<and> IstioService_Service svc = [] then
               Some (multierror_Append None
                 [Some (errors_New ''name or service is mandatory for a service reference'')])
             else if IstioService_Service svc \<noteq> [] \<and> IstioService_Name svc \<noteq> [] then
               Some (multierror_Append None
                 [Some (errors_New ''specify either name or service, not both'')])
             else if IstioService_Service svc \<noteq> [] then
               (let errs = appendIfErr None (ValidateEgressRuleService E (IstioService_Service svc));
                    errs = (if IstioService_Namespace svc \<noteq> []
                            then Some (multierror_Append errs
                              [Some (errors_New ''namespace is not valid when service is provided'')])
                            else errs)
                in if IstioService_Domain svc \<noteq> []
                   then Some (multierror_Append errs
                     [Some (errors_New ''domain is not valid when service is provided'')])
                   else errs)
             else if IstioService_Name svc \<noteq> [] then
               (if \<not> IsDNS1123Label (IstioService_Name svc)
                then Some (multierror_Append None
                  [Some (Errorf ''name %q must be a valid label'' [S (IstioService_Name svc)])])
                else None)
             else None);
          errs = (if IstioService_Namespace svc \<noteq> [] \<and> \<not> IsDNS1123Label (IstioService_Namespace svc)
                  then Some (multierror_Append errs
                    [Some (Errorf ''namespace %q must be a valid label'' [S (IstioService_Namespace svc)])])
                  else errs);
          errs = (if IstioService_Domain svc \<noteq> []
                  then appendIfErr errs (ValidateFQDN (IstioService_Domain svc))
                  else errs)
      in appendIfErr errs (Labels_Validate (IstioService_Labels svc)))"

definition ValidateSubnet :: "env \<Rightarrow> string \<Rightarrow> error option" where
  "ValidateSubnet E subnet = ValidateIPv4Subnet E subnet"

definition ValidateL4MatchAttributes :: "env \<Rightarrow> L4MatchAttributes \<Rightarrow> error option" where
  "ValidateL4MatchAttributes E ma =
     (let errs = foldl (\<lambda>errs subnet. appendIfErr errs (ValidateSubnet E subnet))
                   None (SourceSubnet ma)
      in foldl (\<lambda>errs subnet. appendIfErr errs (ValidateSubnet E subnet))
           errs (DestinationSubnet ma))"

text \<open>The body of the loop over the headers of a match request (lines 336-364).\<close>

definition ValidateMatchCondition_header ::
    "env \<Rightarrow> error option \<Rightarrow> string \<times> StringMatch \<Rightarrow> error option" where
  "ValidateMatchCondition_header E errs nv =
     (let name = fst nv; v = snd nv;
          errs = appendIfErr errs
                   (multierror_Prefix (ValidateHTTPHeaderName E name)
                      ''header name %q invalid: '' [S name]);
          errs = appendIfErr errs
                   (multierror_Prefix (ValidateStringMatch v)
                      ''header %q value invalid: '' [S name])
      in if name = HeaderURI E then
           (case MatchType v of
              Some (StringMatch_Exact x) \<Rightarrow>
                if x = []
                then Some (multierror_Append errs
                  [Some (Errorf ''exact header value for %q must be non-empty'' [S (HeaderURI E)])])
                else errs
            | Some (StringMatch_Prefix x) \<Rightarrow>
                if x = []
                then Some (multierror_Append errs
                  [Some (Errorf ''prefix header value for %q must be non-empty'' [S (HeaderURI E)])])
                else errs
            | Some (StringMatch_Regex x) \<Rightarrow>
                if x = []
                then Some (multierror_Append errs
                  [Some (Errorf ''regex header value for %q must be non-empty'' [S (HeaderURI E)])])
                else errs
            | None \<Rightarrow> errs)
         else errs)"

definition ValidateMatchCondition :: "env \<Rightarrow> MatchCondition \<Rightarrow> error option" where
  "ValidateMatchCondition E mc =
     (let errs = (case Source mc of
                    Some src \<Rightarrow> appendIfErr None (ValidateIstioService E src)
                  | None \<Rightarrow> None);
          errs = (case Tcp mc of
                    Some tcp \<Rightarrow> appendIfErr errs (ValidateL4MatchAttributes E tcp)
                  | None \<Rightarrow> errs);
          errs = (case Udp mc of
                    Some udp \<Rightarrow>
                      Some (multierror_Append
                        (appendIfErr errs (ValidateL4MatchAttributes E udp))
                        [Some (Errorf ''UDP protocol not supported yet'' [])])
                  | None \<Rightarrow> errs)
      in case Request mc of
           Some req \<Rightarrow>
             foldl (ValidateMatchCondition_header E) errs (MatchRequest_Headers req)
         | None \<Rightarrow> errs)"

definition ValidateDestinationWeight :: "DestinationWeight \<Rightarrow> error option" where
  "ValidateDestinationWeight dw =
     (let errs = appendIfErr None (Labels_Validate (DestinationWeight_Labels dw))
      in appendIfErr errs (multierror_Prefix (ValidatePercent (Weight dw)) ''weight invalid: '' []))"

text \<open>
  The getters of a oneof return \<open>nil\<close> unless the oneof holds the variant asked for.
\<close>

definition GetSimpleTimeout :: "HTTPTimeout \<Rightarrow> SimpleTimeoutPolicy option" where
  "GetSimpleTimeout timeout =
     (case TimeoutPolicy timeout of Some (HTTPTimeout_SimpleTimeout s) \<Rightarrow> s | _ \<Rightarrow> None)"

definition ValidateHTTPTimeout :: "env \<Rightarrow> HTTPTimeout \<Rightarrow> error option" where
  "ValidateHTTPTimeout E timeout =
     (case GetSimpleTimeout timeout of
        Some simple \<Rightarrow>
          appendIfErr None
            (multierror_Prefix (ValidateDuration E (SimpleTimeout_Timeout simple))
               ''httpTimeout invalid: '' [])
      | None \<Rightarrow> None)"

definition GetSimpleRetry :: "RouteRule_HTTPRetry \<Rightarrow> SimpleRetryPolicy option" where
  "GetSimpleRetry retry =
     (case RetryPolicy retry of Some (HTTPRetry_SimpleRetry s) \<Rightarrow> s | _ \<Rightarrow> None)"

definition ValidateHTTPRetries :: "env \<Rightarrow> RouteRule_HTTPRetry \<Rightarrow> error option" where
  "ValidateHTTPRetries E retry =
     (case GetSimpleRetry retry of
        Some simple \<Rightarrow>
          (let errs = (if sint (SimpleRetry_Attempts simple) < 0
                       then Some (multierror_Append None
                         [Some (Errorf ''attempts must be in range [0..]'' [])])
                       else None)
           in appendIfErr errs
                (multierror_Prefix (ValidateDuration E (SimpleRetry_PerTryTimeout simple))
                   ''perTryTimeout invalid: '' []))
      | None \<Rightarrow> None)"

definition GetFixedDelay :: "RouteRule_Delay \<Rightarrow> Duration option" where
  "GetFixedDelay delay =
     (case RouteRule_HttpDelayType delay of Some (RouteRule_Delay_FixedDelay d) \<Rightarrow> d | _ \<Rightarrow> None)"

definition GetExponentialDelay :: "RouteRule_Delay \<Rightarrow> Duration option" where
  "GetExponentialDelay delay =
     (case RouteRule_HttpDelayType delay of
        Some (RouteRule_Delay_ExponentialDelay d) \<Rightarrow> d | _ \<Rightarrow> None)"

definition ValidateDelay :: "env \<Rightarrow> RouteRule_Delay \<Rightarrow> error option" where
  "ValidateDelay E delay =
     (let errs = appendIfErr None
                   (multierror_Prefix (ValidateFloatPercent (RouteRule_Delay_Percent delay))
                      ''percent invalid: '' []);
          errs = appendIfErr errs
                   (multierror_Prefix (ValidateDuration E (GetFixedDelay delay))
                      ''fixedDelay invalid:'' [])
      in if GetExponentialDelay delay \<noteq> None
         then Some (multierror_Append
                (appendIfErr errs
                   (multierror_Prefix (ValidateDuration E (GetExponentialDelay delay))
                      ''exponentialDelay invalid: '' []))
                [Some (Errorf ''exponentialDelay not supported yet'' [])])
         else errs)"

definition ValidateAbortHTTPStatus :: "32 word \<Rightarrow> error option" where
  "ValidateAbortHTTPStatus httpStatus =
     (if sint httpStatus < 0 \<or> sint httpStatus > 600
      then Some (multierror_Append None
        [Some (Errorf ''invalid abort http status %v'' [I (sint httpStatus)])])
      else None)"

definition ValidateAbort :: "RouteRule_Abort \<Rightarrow> error option" where
  "ValidateAbort abort =
     (let errs = appendIfErr None
                   (multierror_Prefix (ValidateFloatPercent (RouteRule_Abort_Percent abort))
                      ''percent invalid: '' [])
      in case RouteRule_ErrorType abort of
           Some (RouteRule_Abort_GrpcStatus _) \<Rightarrow>
             Some (multierror_Append errs
               [Some (Errorf ''gRPC fault injection not supported yet'' [])])
         | Some (RouteRule_Abort_Http2Error _) \<Rightarrow> errs
         | Some (RouteRule_Abort_HttpStatus s) \<Rightarrow> appendIfErr errs (ValidateAbortHTTPStatus s)
         | None \<Rightarrow> errs)"

definition ValidateHTTPFault :: "env \<Rightarrow> RouteRule_HTTPFaultInjection \<Rightarrow> error option" where
  "ValidateHTTPFault E fault =
     (let errs = (case RouteRule_Delay fault of
                    Some delay \<Rightarrow> appendIfErr None (ValidateDelay E delay)
                  | None \<Rightarrow> None)
      in case RouteRule_Abort fault of
           Some abort \<Rightarrow> appendIfErr errs (ValidateAbort abort)
         | None \<Rightarrow> errs)"

definition ValidateTerminate :: "L4FaultInjection_Terminate \<Rightarrow> error option" where
  "ValidateTerminate terminate =
     appendIfErr None
       (multierror_Prefix (ValidateFloatPercent (Terminate_Percent terminate))
          ''terminate percent invalid: '' [])"

definition GetThrottleAfterPeriod :: "L4FaultInjection_Throttle \<Rightarrow> Duration option" where
  "GetThrottleAfterPeriod throttle =
     (case ThrottleAfter throttle of Some (Throttle_ThrottleAfterPeriod d) \<Rightarrow> d | _ \<Rightarrow> None)"

definition GetThrottleAfterBytes :: "L4FaultInjection_Throttle \<Rightarrow> float" where
  "GetThrottleAfterBytes throttle =
     (case ThrottleAfter throttle of Some (Throttle_ThrottleAfterBytes b) \<Rightarrow> b | _ \<Rightarrow> Finite 0)"

definition ValidateThrottle :: "env \<Rightarrow> L4FaultInjection_Throttle \<Rightarrow> error option" where
  "ValidateThrottle E throttle =
     (let errs = appendIfErr None
                   (multierror_Prefix (ValidateFloatPercent (Throttle_Percent throttle))
                      ''throttle percent invalid: '' []);
          errs = (if sint (DownstreamLimitBps throttle) < 0
                  then Some (multierror_Append errs [Some (Errorf ''downstreamLimitBps invalid'' [])])
                  else errs);
          errs = (if sint (UpstreamLimitBps throttle) < 0
                  then Some (multierror_Append errs [Some (Errorf ''upstreamLimitBps invalid'' [])])
                  else errs);
          errs = (if ValidateDuration E (GetThrottleAfterPeriod throttle) \<noteq> None
                  then Some (multierror_Append errs [Some (Errorf ''throttleAfterPeriod invalid'' [])])
                  else errs)
      in if float_less (GetThrottleAfterBytes throttle) 0
         then Some (multierror_Append errs [Some (Errorf ''throttleAfterBytes invalid'' [])])
         else errs)"

definition ValidateL4Fault :: "env \<Rightarrow> L4FaultInjection \<Rightarrow> error option" where
  "ValidateL4Fault E fault =
     (let errs = (case Terminate fault of
                    Some terminate \<Rightarrow>
                      Some (multierror_Append (appendIfErr None (ValidateTerminate terminate))
                        [Some (Errorf ''the terminate fault not supported yet'' [])])
                  | None \<Rightarrow> None)
      in case Throttle fault of
           Some throttle \<Rightarrow> appendIfErr errs (ValidateThrottle E throttle)
         | None \<Rightarrow> errs)"


text \<open>
  \<open>ValidateRouteRule\<close> (lines 725-863), block by block: each block takes the errors
  collected so far and returns them with its own failures appended.
\<close>

definition ValidateRouteRule_destination :: "env \<Rightarrow> RouteRule \<Rightarrow> error option \<Rightarrow> error option" where
  "ValidateRouteRule_destination E v errs =
     (case RouteRule_Destination v of
        None \<Rightarrow>
          Some (multierror_Append errs
            [Some (Errorf ''route rule must have a destination service'' [])])
      | Some d \<Rightarrow>
          (let errs = appendIfErr errs (ValidateIstioService E d)
           in if length (IstioService_Labels d) > 0
              then Some (multierror_Append errs
                [Some (errors_New ''route rule destination labels must be empty'')])
              else errs))"

definition ValidateRouteRule_match :: "env \<Rightarrow> RouteRule \<Rightarrow> error option \<Rightarrow> error option" where
  "ValidateRouteRule_match E v errs =
     (case RouteRule_Match v of
        Some m \<Rightarrow> appendIfErr errs (ValidateMatchCondition E m)
      | None \<Rightarrow> errs)"

definition ValidateRouteRule_rewrite :: "RouteRule \<Rightarrow> error option \<Rightarrow> error option" where
  "ValidateRouteRule_rewrite v errs =
     (case RouteRule_Rewrite v of
        Some rw \<Rightarrow>
          if RouteRule_Rewrite_Uri rw = [] \<and> RouteRule_Rewrite_Authority rw = []
          then Some (multierror_Append errs
            [Some (errors_New ''rewrite must specify path, host, or both'')])
          else errs
      | None \<Rightarrow> errs)"

definition ValidateRouteRule_redirect :: "RouteRule \<Rightarrow> error option \<Rightarrow> error option" where
  "ValidateRouteRule_redirect v errs =
     (case RouteRule_Redirect v of
        Some rd \<Rightarrow>
          (let errs = (if length (case RouteRule_Route v of None \<Rightarrow> [] | Some r \<Rightarrow> r) > 0
                       then Some (multierror_Append errs
                         [Some (errors_New ''rule cannot contain both route and redirect'')])
                       else errs);
               errs = (if HttpFault v \<noteq> None
                       then Some (multierror_Append errs
                         [Some (errors_New ''rule cannot contain both fault and redirect'')])
                       else errs);
               errs = (if RouteRule_Redirect_Authority rd = [] \<and> RouteRule_Redirect_Uri rd = []
                       then Some (multierror_Append errs
                         [Some (errors_New ''redirect must specify path, host, or both'')])
                       else errs)
           in if RouteRule_WebsocketUpgrade v
              then Some (multierror_Append errs
                [Some (errors_New ''WebSocket upgrade is not allowed on redirect rules'')])
              else errs)
      | None \<Rightarrow> errs)"

definition ValidateRouteRule_both :: "RouteRule \<Rightarrow> error option \<Rightarrow> error option" where
  "ValidateRouteRule_both v errs =
     (if RouteRule_Redirect v \<noteq> None \<and> RouteRule_Rewrite v \<noteq> None
      then Some (multierror_Append errs
        [Some (errors_New ''rule cannot contain both rewrite and redirect'')])
      else errs)"

definition ValidateRouteRule_route :: "RouteRule \<Rightarrow> error option \<Rightarrow> error option" where
  "ValidateRouteRule_route v errs =
     (case RouteRule_Route v of
        Some route \<Rightarrow>
          (let errs = foldl (\<lambda>errs destWeight. appendIfErr errs (ValidateDestinationWeight destWeight))
                        errs route
           in appendIfErr errs (ValidateWeights route))
      | None \<Rightarrow> errs)"

definition ValidateRouteRule_mirror :: "env \<Rightarrow> RouteRule \<Rightarrow> error option \<Rightarrow> error option" where
  "ValidateRouteRule_mirror E v errs =
     (case RouteRule_Mirror v of
        Some m \<Rightarrow> appendIfErr errs (ValidateIstioService E m)
      | None \<Rightarrow> errs)"

definition ValidateRouteRule_appendHeader ::
    "env \<Rightarrow> error option \<Rightarrow> string \<times> string \<Rightarrow> error option" where
  "ValidateRouteRule_appendHeader E errs nv =
     (let errs = appendIfErr errs (ValidateHTTPHeaderName E (fst nv))
      in if snd nv = []
         then Some (multierror_Append errs
           [Some (Errorf ''appended header %q must have a non-empty value'' [S (fst nv)])])
         else errs)"

definition ValidateRouteRule_appendHeaders :: "env \<Rightarrow> RouteRule \<Rightarrow> error option \<Rightarrow> error option" where
  "ValidateRouteRule_appendHeaders E v errs =
     foldl (ValidateRouteRule_appendHeader E) errs (RouteRule_AppendHeaders v)"

definition ValidateRouteRule_cors :: "env \<Rightarrow> RouteRule \<Rightarrow> error option \<Rightarrow> error option" where
  "ValidateRouteRule_cors E v errs =
     (case RouteRule_CorsPolicy v of
        Some cors \<Rightarrow>
          (let errs = (case RouteRule_MaxAge cors of
                         Some maxAge \<Rightarrow>
                           (let errs = appendIfErr errs (ValidateDuration E (RouteRule_MaxAge cors))
                            in if sint (Nanos maxAge) > 0
                               then Some (multierror_Append errs
                                 [Some (errors_New ''max_age duration is accurate only to seconds precision'')])
                               else errs)
                       | None \<Rightarrow> errs);
               errs = foldl (\<lambda>errs name. appendIfErr errs (ValidateHTTPHeaderName E name))
                        errs (RouteRule_AllowHeaders cors);
               errs = foldl (\<lambda>errs name. appendIfErr errs (ValidateHTTPHeaderName E name))
                        errs (RouteRule_ExposeHeaders cors)
           in foldl (\<lambda>errs method.
                       if \<not> supportedMethods method
                       then Some (multierror_Append errs
                         [Some (Errorf ''%q is not a supported HTTP method'' [S method])])
                       else errs)
                errs (RouteRule_AllowMethods cors))
      | None \<Rightarrow> errs)"

definition ValidateRouteRule_timeout :: "env \<Rightarrow> RouteRule \<Rightarrow> error option \<Rightarrow> error option" where
  "ValidateRouteRule_timeout E v errs =
     (case HttpReqTimeout v of
        Some t \<Rightarrow> appendIfErr errs (ValidateHTTPTimeout E t)
      | None \<Rightarrow> errs)"

definition ValidateRouteRule_retries :: "env \<Rightarrow> RouteRule \<Rightarrow> error option \<Rightarrow> error option" where
  "ValidateRouteRule_retries E v errs =
     (case HttpReqRetries v of
        Some r \<Rightarrow> appendIfErr errs (ValidateHTTPRetries E r)
      | None \<Rightarrow> errs)"

definition ValidateRouteRule_fault :: "env \<Rightarrow> RouteRule \<Rightarrow> error option \<Rightarrow> error option" where
  "ValidateRouteRule_fault E v errs =
     (case HttpFault v of
        Some f \<Rightarrow> appendIfErr errs (ValidateHTTPFault E f)
      | None \<Rightarrow> errs)"

definition ValidateRouteRule_l4fault :: "env \<Rightarrow> RouteRule \<Rightarrow> error option \<Rightarrow> error option" where
  "ValidateRouteRule_l4fault E v errs =
     (case L4Fault v of
        Some f \<Rightarrow>
          Some (multierror_Append (appendIfErr errs (ValidateL4Fault E f))
            [Some (Errorf ''L4 faults are not implemented'' [])])
      | None \<Rightarrow> errs)"

definition ValidateRouteRule_body :: "env \<Rightarrow> RouteRule \<Rightarrow> error option" where
  "ValidateRouteRule_body E v =
     (let errs = ValidateRouteRule_destination E v None;
          errs = ValidateRouteRule_match E v errs;
          errs = ValidateRouteRule_rewrite v errs;
          errs = ValidateRouteRule_redirect v errs;
          errs = ValidateRouteRule_both v errs;
          errs = ValidateRouteRule_route v errs;
          errs = ValidateRouteRule_mirror E v errs;
          errs = ValidateRouteRule_appendHeaders E v errs;
          errs = ValidateRouteRule_cors E v errs;
          errs = ValidateRouteRule_timeout E v errs;
          errs = ValidateRouteRule_retries E v errs;
          errs = ValidateRouteRule_fault E v errs;
          errs = ValidateRouteRule_l4fault E v errs
      in errs)"

text \<open>\<open>ValidateIngressRule\<close> (lines 866-886).\<close>

definition ValidateIngressRule_body :: "env \<Rightarrow> IngressRule \<Rightarrow> error option" where
  "ValidateIngressRule_body E v =
     (case IngressRule_Destination v of
        None \<Rightarrow>
          Some (multierror_Append None
            [Some (Errorf ''ingress rule must have a destination service'' [])])
      | Some d \<Rightarrow>
          (let errs = appendIfErr None (ValidateIstioService E d)
           in if length (IstioService_Labels d) > 0
              then Some (multierror_Append errs
                [Some (errors_New ''ingress rule destination labels must be empty'')])
              else errs))"

definition ValidateMixerAttributes_attr ::
    "env \<Rightarrow> error option \<Rightarrow> string \<times> AttributeValue option \<Rightarrow> panic + error option" where
  "ValidateMixerAttributes_attr E errs kv =
     (case snd kv of
        Some (StringValue s) \<Rightarrow>
          Inr (if s = []
               then Some (multierror_Append errs
                 [Some (Errorf ''string attribute for %q should not be empty'' [S (fst kv)])])
               else errs)
      | Some (DurationValue d) \<Rightarrow>
          (let errs = (if d = None
                       then Some (multierror_Append errs
                         [Some (Errorf ''duration attribute for %q should not be nil'' [S (fst kv)])])
                       else errs)
           in bindP (ValidateGogoDuration E d) (\<lambda>err. Inr (appendIfErr errs err)))
      | Some (BytesValue b) \<Rightarrow>
          Inr (if length b = 0
               then Some (multierror_Append errs
                 [Some (Errorf ''bytes attribute for %q should not be '' [S (fst kv)])])
               else errs)
      | Some (TimestampValue t) \<Rightarrow>
          (let errs = (if t = None
                       then Some (multierror_Append errs
                         [Some (Errorf ''timestamp attribute for %q should not be nil'' [S (fst kv)])])
                       else errs)
           in case types_TimestampFromProto E t of
                Some err \<Rightarrow> Inr (Some (multierror_Append errs [Some (Opaque err)]))
              | None \<Rightarrow> Inr errs)
      | Some (StringMapValue m) \<Rightarrow>
          Inr (if (case m of None \<Rightarrow> True | Some sm \<Rightarrow> Entries sm = None)
               then Some (multierror_Append errs
                 [Some (Errorf ''stringmap attribute for %q should not be nil'' [S (fst kv)])])
               else errs)
      | _ \<Rightarrow> Inr errs)"

section \<open>Messages and the validators of the resource kinds\<close>

text \<open>
  A \<open>proto.Message\<close> is a pointer to a message of some type; a validator asserts the type
  it expects.  \<open>ValidateHTTPAPISpec\<close> hands the field \<open>in.Attributes\<close> to
  \<open>ValidateMixerAttributes\<close> also when it is \<open>nil\<close>, so a message of type \<open>*mpb.Attributes\<close>
  can be the \<open>nil\<close> pointer of that type.  \<open>Msg_other\<close> is a message of a type that no
  validator of the model expects.
\<close>

datatype Message =
    Msg_RouteRule RouteRule
  | Msg_IngressRule IngressRule
  | Msg_Gateway Gateway
  | Msg_ServiceEntry ServiceEntry
  | Msg_Policy Policy
  | Msg_HTTPAPISpec HTTPAPISpec
  | Msg_Attributes "Attributes option"
  | Msg_other string

definition ValidateRouteRule :: "env \<Rightarrow> string \<Rightarrow> string \<Rightarrow> Message \<Rightarrow> error option" where
  "ValidateRouteRule E name namespace msg =
     (case msg of
        Msg_RouteRule v \<Rightarrow> ValidateRouteRule_body E v
      | _ \<Rightarrow> Some (Errorf ''cannot cast to routing rule'' []))"

definition ValidateIngressRule :: "env \<Rightarrow> string \<Rightarrow> string \<Rightarrow> Message \<Rightarrow> error option" where
  "ValidateIngressRule E name namespace msg =
     (case msg of
        Msg_IngressRule v \<Rightarrow> ValidateIngressRule_body E v
      | _ \<Rightarrow> Some (Errorf ''cannot cast to ingress rule'' []))"

definition ValidateGateway :: "env \<Rightarrow> string \<Rightarrow> string \<Rightarrow> Message \<Rightarrow> panic + error option" where
  "ValidateGateway E name namespace msg =
     (case msg of
        Msg_Gateway v \<Rightarrow> ValidateGateway_body E v
      | _ \<Rightarrow> Inr (appendErrors None [Some (Errorf ''cannot cast to gateway: %#v'' [Obj])]))"

definition ValidateServiceEntry :: "env \<Rightarrow> string \<Rightarrow> string \<Rightarrow> Message \<Rightarrow> error option" where
  "ValidateServiceEntry E name namespace config =
     (case config of
        Msg_ServiceEntry serviceEntry \<Rightarrow> ValidateServiceEntry_body E serviceEntry
      | _ \<Rightarrow> Some (Errorf ''cannot cast to service entry'' []))"

definition ValidateAuthenticationPolicy ::
    "env \<Rightarrow> string \<Rightarrow> string \<Rightarrow> Message \<Rightarrow> panic + error option" where
  "ValidateAuthenticationPolicy E name namespace msg =
     (case msg of
        Msg_Policy v \<Rightarrow> ValidateAuthenticationPolicy_body E name namespace v
      | _ \<Rightarrow> Inr (Some (errors_New ''cannot cast to AuthenticationPolicy'')))"

definition ValidateMixerAttributes :: "env \<Rightarrow> Message \<Rightarrow> panic + error option" where
  "ValidateMixerAttributes E msg =
     (case msg of
        Msg_Attributes v \<Rightarrow>
          (case v of
             None \<Rightarrow> Inr (Some (errors_New ''list of attributes is nil/empty''))
           | Some a \<Rightarrow>
               if length (Attributes_Attributes a) = 0
               then Inr (Some (errors_New ''list of attributes is nil/empty''))
               else foldlP (ValidateMixerAttributes_attr E) None (Attributes_Attributes a))
      | _ \<Rightarrow> Inr (Some (errors_New ''cannot case to attributes'')))"

text \<open>
  \<open>ValidateHTTPAPISpec\<close> (lines 1538-1588).  The loop over the patterns validates
  \<open>in.Attributes\<close>, the attributes of the specification, once for each pattern.
\<close>

definition ValidateHTTPAPISpec_pattern ::
    "env \<Rightarrow> HTTPAPISpec \<Rightarrow> error option \<Rightarrow> HTTPAPISpecPattern \<Rightarrow> panic + error option" where
  "ValidateHTTPAPISpec_pattern E v errs pattern =
     bindP (ValidateMixerAttributes E (Msg_Attributes (HTTPAPISpec_Attributes v)))
       (\<lambda>err.
          let errs = appendIfErr errs err;
              errs = (if HttpMethod pattern = []
                      then Some (multierror_Append errs [Some (errors_New ''http_method cannot be empty'')])
                      else errs)
          in Inr (case Pattern pattern of
                    Some (HTTPAPISpecPattern_UriTemplate t) \<Rightarrow>
                      if t = []
                      then Some (multierror_Append errs [Some (errors_New ''uri_template cannot be empty'')])
                      else errs
                  | Some (HTTPAPISpecPattern_Regex r) \<Rightarrow>
                      if r = []
                      then Some (multierror_Append errs [Some (errors_New ''regex cannot be empty'')])
                      else errs
                  | None \<Rightarrow> errs))"

definition ValidateHTTPAPISpec_key :: "error option \<Rightarrow> APIKey \<Rightarrow> error option" where
  "ValidateHTTPAPISpec_key errs key =
     (case Key key of
        Some (APIKey_Query q) \<Rightarrow>
          if q = [] then Some (multierror_Append errs [Some (errors_New ''query cannot be empty'')])
          else errs
      | Some (APIKey_Header h) \<Rightarrow>
          if h = [] then Some (multierror_Append errs [Some (errors_New ''header cannot be empty'')])
          else errs
      | Some (APIKey_Cookie c) \<Rightarrow>
          if c = [] then Some (multierror_Append errs [Some (errors_New ''cookie cannot be empty'')])
          else errs
      | None \<Rightarrow> errs)"

definition ValidateHTTPAPISpec_body :: "env \<Rightarrow> HTTPAPISpec \<Rightarrow> panic + error option" where
  "ValidateHTTPAPISpec_body E v =
     bindP (if HTTPAPISpec_Attributes v \<noteq> None
            then bindP (ValidateMixerAttributes E (Msg_Attributes (HTTPAPISpec_Attributes v)))
                   (\<lambda>err. Inr (appendIfErr None err))
            else Inr None)
       (\<lambda>errs.
          let errs = (if length (Patterns v) = 0
                      then Some (multierror_Append errs
                        [Some (errors_New ''at least one pattern must be specified'')])
                      else errs)
          in bindP (foldlP (ValidateHTTPAPISpec_pattern E v) errs (Patterns v))
               (\<lambda>errs. Inr (foldl ValidateHTTPAPISpec_key errs (ApiKeys v))))"

definition ValidateHTTPAPISpec :: "env \<Rightarrow> string \<Rightarrow> string \<Rightarrow> Message \<Rightarrow> panic + error option" where
  "ValidateHTTPAPISpec E name namespace msg =
     (case msg of
        Msg_HTTPAPISpec v \<Rightarrow> ValidateHTTPAPISpec_body E v
      | _ \<Rightarrow> Inr (Some (errors_New ''cannot case to HTTPAPISpec'')))"

section \<open>Notions used in the statements and proofs\<close>

text \<open>The bytes that a match of a pattern can consume.\<close>

primrec allowed :: "regex \<Rightarrow> char \<Rightarrow> bool" where
  "allowed (Lit c) x = (x = c)"
| "allowed (Class rs) x = in_class rs x"
| "allowed (Cat a b) x = (allowed a x \<or> allowed b x)"
| "allowed (Alt a b) x = (allowed a x \<or> allowed b x)"
| "allowed (Opt a) x = allowed a x"
| "allowed (Star a) x = allowed a x"
| "allowed Bol x = False"
| "allowed Eol x = False"

text \<open>Positions \<open>i\<close> to \<open>j\<close> of \<open>s\<close> exist and hold bytes that satisfy \<open>Q\<close>.\<close>

definition span :: "(char \<Rightarrow> bool) \<Rightarrow> string \<Rightarrow> nat \<Rightarrow> nat \<Rightarrow> bool" where
  "span Q s i j = (i \<le> j \<and> (\<forall>k. i \<le> k \<and> k < j \<longrightarrow> k < length s \<and> Q (s ! k)))"

text \<open>The sum of the weights of a route rule, as a number.\<close>

definition weight_sum :: "DestinationWeight list \<Rightarrow> int" where
  "weight_sum routes = (\<Sum>r\<leftarrow>routes. sint (Weight r))"

text \<open>The format string of an error made by \<open>fmt.Errorf\<close> or \<open>errors.New\<close>.\<close>

fun error_format :: "error \<Rightarrow> string" where
  "error_format (Errorf f as) = f"
| "error_format e = []"

text \<open>
  The failures of a service entry that depend on its resolution mode, and when
  \<open>ValidateServiceEntry\<close> reports each of them.
\<close>

definition serviceEntry_modeFormats :: "string list" where
  "serviceEntry_modeFormats =
     [''no endpoints should be provided for discovery type none'',
      ''endpoints must be provided if service entry discovery mode is static'',
      ''exactly 1 service port required for unix endpoints'',
      ''unix endpoint %s must not include ports'']"

definition isUnix :: "ServiceEntry_Endpoint \<Rightarrow> bool" where
  "isUnix ep = strings_HasPrefix (Endpoint_Address ep) UnixAddressPrefix"

definition serviceEntry_modeFailure :: "ServiceEntry \<Rightarrow> error \<Rightarrow> bool" where
  "serviceEntry_modeFailure se t =
     (case Resolution se of
        ServiceEntry_NONE \<Rightarrow>
          Endpoints se \<noteq> []
          \<and> t = Errorf ''no endpoints should be provided for discovery type none'' []
      | ServiceEntry_STATIC \<Rightarrow>
          (Endpoints se = []
           \<and> t = Errorf ''endpoints must be provided if service entry discovery mode is static'' [])
          \<or> (\<exists>ep \<in> set (Endpoints se). isUnix ep \<and> Endpoint_Ports ep \<noteq> []
               \<and> t = Errorf ''unix endpoint %s must not include ports'' [S (Endpoint_Address ep)])
          \<or> ((\<exists>ep \<in> set (Endpoints se). isUnix ep) \<and> length (ServiceEntry_Ports se) \<noteq> 1
               \<and> t = errors_New ''exactly 1 service port required for unix endpoints'')
      | ServiceEntry_DNS \<Rightarrow> False
      | ServiceEntry_other n \<Rightarrow> False)"

text \<open>
  The service entry of the end-to-end scenario: resolution \<open>STATIC\<close>, one endpoint at
  \<open>unix:///var/run/sock\<close>, two service ports that are valid.
\<close>

definition unixExample :: ServiceEntry where
  "unixExample =
     \<lparr>ServiceEntry_Hosts = [''foo.example.com''], Addresses = [],
      ServiceEntry_Ports = [\<lparr>Port_Number = 80, Port_Protocol = ''HTTP'', Port_Name = ''http''\<rparr>,
                            \<lparr>Port_Number = 8080, Port_Protocol = ''HTTP'', Port_Name = ''http-alt''\<rparr>],
      Resolution = ServiceEntry_STATIC,
      Endpoints = [\<lparr>Endpoint_Address = ''unix:///var/run/sock'', Endpoint_Ports = [],
                    Endpoint_Labels = []\<rparr>]\<rparr>"

text \<open>
  The total weight of the destinations of an HTTP route: \<open>totalWeight\<close> as the \<open>int32\<close>
  that \<open>validateHTTPRoute\<close> accumulates, \<open>route_weight_sum\<close> as the sum of the weights.
\<close>

definition totalWeightFormat :: string where
  "totalWeightFormat = ''total destination weight %v > 100''"

definition totalWeight :: "HTTPRoute \<Rightarrow> 32 word" where
  "totalWeight http = sum_list (map Route_Weight (Route http))"

definition route_weight_sum :: "HTTPRoute \<Rightarrow> int" where
  "route_weight_sum http = (\<Sum>r\<leftarrow>Route http. sint (Route_Weight r))"

text \<open>An HTTP route with two destinations of the given weights and nothing else.\<close>

definition exampleRoute :: "32 word \<Rightarrow> 32 word \<Rightarrow> HTTPRoute" where
  "exampleRoute w1 w2 =
     \<lparr>Match = [],
      Route = [\<lparr>Route_Destination = Some \<lparr>Host = ''a.example.com'', Subset = [],
                                             Destination_Port = None\<rparr>,
                 Route_Weight = w1\<rparr>,
               \<lparr>Route_Destination = Some \<lparr>Host = ''b.example.com'', Subset = [],
                                             Destination_Port = None\<rparr>,
                 Route_Weight = w2\<rparr>],
      Redirect = None, Rewrite = None, WebsocketUpgrade = False, Timeout = None, Retries = None,
      Fault = None, Mirror = None, HTTPRoute_CorsPolicy = None, AppendHeaders = []\<rparr>"

text \<open>
  A block of a validator takes the errors collected so far and returns the errors
  collected after it.  It \<open>accumulates\<close> when it returns what it was given followed by
  the failures that it reports on its own.
\<close>

definition accumulates :: "(error option \<Rightarrow> error option) \<Rightarrow> bool" where
  "accumulates c = (\<forall>errs. failures (c errs) = failures errs @ failures (c None))"

text \<open>The blocks of \<open>ValidateRouteRule\<close>, in the order of the source.\<close>

definition RouteRule_checks :: "env \<Rightarrow> RouteRule \<Rightarrow> (error option \<Rightarrow> error option) list" where
  "RouteRule_checks E v =
     [ValidateRouteRule_destination E v, ValidateRouteRule_match E v,
      ValidateRouteRule_rewrite v, ValidateRouteRule_redirect v, ValidateRouteRule_both v,
      ValidateRouteRule_route v, ValidateRouteRule_mirror E v,
      ValidateRouteRule_appendHeaders E v, ValidateRouteRule_cors E v,
      ValidateRouteRule_timeout E v, ValidateRouteRule_retries E v,
      ValidateRouteRule_fault E v, ValidateRouteRule_l4fault E v]"

text \<open>
  The failures of the two blocks of \<open>ValidateGateway\<close>, each on its own: those of the
  servers, and those of the loop that looks for duplicate port names.
\<close>

definition Gateway_serverFailures :: "env \<Rightarrow> Gateway \<Rightarrow> error list" where
  "Gateway_serverFailures E g =
     (if Servers g = [] then [Errorf ''gateway must have at least one server'' []]
      else concat (map (\<lambda>server. failures (validateServer E server)) (Servers g)))"

definition Gateway_portNameFailures :: "Gateway \<Rightarrow> error list" where
  "Gateway_portNameFailures g =
     (case foldlP ValidateGateway_portName (None, \<lambda>n. False) (Servers g) of
        Inl p \<Rightarrow> []
      | Inr st \<Rightarrow> failures (fst st))"

text \<open>
  Examples: a gateway with two valid servers whose ports are both named \<open>http\<close>, and a
  route rule that has no destination and an empty rewrite.
\<close>

definition duplicateNameGateway :: Gateway where
  "duplicateNameGateway =
     \<lparr>Servers =
        [\<lparr>Server_Port = Some \<lparr>Port_Number = 80, Port_Protocol = ''HTTP'', Port_Name = ''http''\<rparr>,
          Server_Hosts = [''foo.example.com''], Tls = None\<rparr>,
         \<lparr>Server_Port = Some \<lparr>Port_Number = 8080, Port_Protocol = ''HTTP'', Port_Name = ''http''\<rparr>,
          Server_Hosts = [''bar.example.com''], Tls = None\<rparr>]\<rparr>"

definition emptyRewriteRule :: RouteRule where
  "emptyRewriteRule =
     \<lparr>RouteRule_Destination = None, RouteRule_Match = None, RouteRule_Route = None,
      RouteRule_Redirect = None,
      RouteRule_Rewrite = Some \<lparr>RouteRule_Rewrite_Uri = [], RouteRule_Rewrite_Authority = []\<rparr>,
      RouteRule_WebsocketUpgrade = False, HttpReqTimeout = None, HttpReqRetries = None,
      HttpFault = None, L4Fault = None, RouteRule_Mirror = None, RouteRule_CorsPolicy = None,
      RouteRule_AppendHeaders = []\<rparr>"

text \<open>
  An environment for the examples.  It gives the functions from outside the source their
  values at the inputs that the examples use: \<open>decodeDuration\<close> is the span of a duration
  message whose seconds and nanoseconds are in range, \<open>ascii_ToLower\<close> is \<open>strings.ToLower\<close>
  on ASCII text.
\<close>

definition decodeDuration :: "Duration option \<Rightarrow> string + 64 word" where
  "decodeDuration pd =
     (case pd of
        None \<Rightarrow> Inl ''duration: nil Duration''
      | Some d \<Rightarrow> Inr (Seconds d * 1000000000 + scast (Nanos d)))"

definition ascii_ToLower :: "string \<Rightarrow> string" where
  "ascii_ToLower s =
     map (\<lambda>c. if (65 :: nat) \<le> of_char c \<and> (of_char c :: nat) \<le> 90
               then char_of (of_char c + (32 :: nat)) else c) s"

definition E0 :: env where
  "E0 = \<lparr> net_ParseIP = (\<lambda>s. if s = ''10.0.0.1'' then Some IPv4
                             else if s = ''::1'' then Some IPv6 else None),
           net_ParseCIDR = (\<lambda>s. if s = ''10.0.0.0/8'' then Some IPv4 else None),
           ParseProtocol = (\<lambda>s. if s = ''HTTP'' \<or> s = ''TCP'' then Protocol s
                               else ProtocolUnsupported),
           strings_ToLower = ascii_ToLower,
           ptypes_Duration = decodeDuration,
           types_DurationFromProto = decodeDuration,
           types_TimestampFromProto = (\<lambda>t. None),
           ParseJwksURI = (\<lambda>u. None),
           DefaultAuthenticationPolicyName = ''default'',
           HeaderURI = ''uri'' \<rparr>"

section \<open>Properties of the error accumulator\<close>

lemma failures_multierror_Append:
  "failures (Some (multierror_Append err errs)) = failures err @ concat (map failures errs)"
proof (cases err)
  case None
  then show ?thesis by (simp add: multierror_Append_def)
next
  case (Some e)
  then show ?thesis by (cases e) (simp_all add: multierror_Append_def)
qed

lemma multierror_Append_eq:
  "multierror_Append err errs = MultiError (failures err @ concat (map failures errs))"
proof (cases err)
  case None
  then show ?thesis by (simp add: multierror_Append_def)
next
  case (Some e)
  then show ?thesis by (cases e) (simp_all add: multierror_Append_def)
qed

lemma failures_appendError:
  "failures (appendError a b) = failures a @ failures b"
  by (simp add: appendError_def failures_multierror_Append)

lemma failures_appendIfErr:
  "failures (appendIfErr errs err) = failures errs @ failures err"
  by (simp add: appendIfErr_def failures_multierror_Append)

lemma failures_appendErrors:
  "failures (appendErrors err errs) = failures err @ concat (map failures errs)"
  unfolding appendErrors_def
  by (induction errs arbitrary: err) (simp_all add: failures_appendError)

lemma appendError_None_iff:
  "appendError a b = None \<longleftrightarrow> a = None \<and> b = None"
  by (auto simp: appendError_def)

lemma appendErrors_None_iff:
  "appendErrors err errs = None \<longleftrightarrow> err = None \<and> (\<forall>e \<in> set errs. e = None)"
  unfolding appendErrors_def
  by (induction errs arbitrary: err) (auto simp: appendError_None_iff)

lemma appendErrors_None_single: "appendErrors None [e] = e"
  by (simp add: appendErrors_def appendError_def)

lemma appendErrors_single_None: "appendErrors errs [None] = errs"
  by (simp add: appendErrors_def appendError_def)

lemma appendError_assoc:
  "appendError (appendError a b) c = appendError a (appendError b c)"
  by (cases a; cases b; cases c) (simp_all add: appendError_def multierror_Append_eq)

lemma appendErrors_append:
  "appendErrors (appendErrors err errs) errs' = appendErrors err (errs @ errs')"
  by (simp add: appendErrors_def)

text \<open>
  Claim C1.  \<open>appendErrors\<close> returns \<open>nil\<close> iff its first argument and every appended
  outcome are \<open>nil\<close>.  The failures enumerable in its result are those of the inputs, in
  order, each one an element of its own: so every input that is present contributes all
  its failures, and nothing else appears.  Whether the result is \<open>nil\<close> depends only on
  the set of inputs, not on their order or grouping; merging is associative.
\<close>

theorem C1_appendErrors_aggregation:
  "(appendErrors err errs = None \<longleftrightarrow> err = None \<and> (\<forall>e \<in> set errs. e = None))
   \<and> failures (appendErrors err errs) = failures err @ concat (map failures errs)
   \<and> (\<forall>e \<in> set (err # errs). set (failures e) \<subseteq> set (failures (appendErrors err errs)))
   \<and> (set (err # errs) = set (err' # errs') \<longrightarrow>
        (appendErrors err errs = None \<longleftrightarrow> appendErrors err' errs' = None))
   \<and> appendErrors (appendErrors err errs) errs' = appendErrors err (errs @ errs')
   \<and> appendErrors (appendErrors a [b]) [c] = appendErrors a [appendErrors b [c]]"
proof -
  have 1: "appendErrors err errs = None \<longleftrightarrow> err = None \<and> (\<forall>e \<in> set errs. e = None)"
    by (rule appendErrors_None_iff)
  have 2: "failures (appendErrors err errs) = failures err @ concat (map failures errs)"
    by (rule failures_appendErrors)
  have 3: "\<forall>e \<in> set (err # errs). set (failures e) \<subseteq> set (failures (appendErrors err errs))"
    unfolding 2 by auto
  have 4: "set (err # errs) = set (err' # errs') \<longrightarrow>
        (appendErrors err errs = None \<longleftrightarrow> appendErrors err' errs' = None)"
  proof
    assume eq: "set (err # errs) = set (err' # errs')"
    have "appendErrors err errs = None \<longleftrightarrow> (\<forall>e \<in> set (err # errs). e = None)"
      by (simp add: appendErrors_None_iff)
    also have "\<dots> \<longleftrightarrow> (\<forall>e \<in> set (err' # errs'). e = None)"
      by (simp only: eq)
    also have "\<dots> \<longleftrightarrow> appendErrors err' errs' = None"
      by (simp add: appendErrors_None_iff)
    finally show "appendErrors err errs = None \<longleftrightarrow> appendErrors err' errs' = None" .
  qed
  have 5: "appendErrors (appendErrors err errs) errs' = appendErrors err (errs @ errs')"
    by (rule appendErrors_append)
  have 6: "appendErrors (appendErrors a [b]) [c] = appendErrors a [appendErrors b [c]]"
    by (simp add: appendErrors_def appendError_assoc)
  from 1 2 3 4 5 6 show ?thesis by blast
qed

theorem C1_appendErrors_aggregation_witness:
  "appendErrors None [None, None] = None
   \<and> appendErrors None [Some (errors_New ''a''), None, Some (errors_New ''b'')] \<noteq> None
   \<and> failures (appendErrors None [Some (errors_New ''a''), None, Some (errors_New ''b'')])
       = [errors_New ''a'', errors_New ''b'']
   \<and> errors_New ''b''
       \<in> set (failures (appendErrors None [Some (errors_New ''a''), None, Some (errors_New ''b'')]))"
  using C1_appendErrors_aggregation [of None "[None, None]" None "[None]" None None None]
    C1_appendErrors_aggregation [of None "[Some (errors_New ''a''), None, Some (errors_New ''b'')]"
      None "[Some (errors_New ''a''), None, Some (errors_New ''b'')]" None None None]
  by simp

section \<open>Wildcard domains\<close>

lemma span_refl: "span Q s i i"
  by (auto simp: span_def)

lemma span_trans: "span Q s i j \<Longrightarrow> span Q s j k \<Longrightarrow> span Q s i k"
  unfolding span_def by (metis le_trans not_le)

lemma span_mono: "span Q s i j \<Longrightarrow> (\<And>c. Q c \<Longrightarrow> R c) \<Longrightarrow> span R s i j"
  unfolding span_def by blast

lemma star_from_span:
  assumes "\<And>i j. j \<in> set (f i) \<Longrightarrow> span Q s i j"
  shows "j \<in> set (star_from f n i) \<Longrightarrow> span Q s i j"
proof (induction n arbitrary: i j)
  case 0
  then show ?case by (simp add: span_refl)
next
  case (Suc n)
  from Suc.prems have "j = i \<or> (\<exists>m \<in> set (f i). j \<in> set (star_from f n m))"
    by auto
  then show ?case
  proof
    assume "j = i"
    then show ?thesis by (simp add: span_refl)
  next
    assume "\<exists>m \<in> set (f i). j \<in> set (star_from f n m)"
    then obtain m where m: "m \<in> set (f i)" "j \<in> set (star_from f n m)" by blast
    from assms [OF m(1)] Suc.IH [OF m(2)] show ?thesis by (rule span_trans)
  qed
qed

text \<open>A match consumes only bytes that the pattern allows.\<close>

lemma ends_span: "j \<in> set (ends r s i) \<Longrightarrow> span (allowed r) s i j"
proof (induction r arbitrary: i j)
  case (Lit c)
  then show ?case by (auto simp: span_def split: if_splits dest: le_antisym)
next
  case (Class rs)
  then show ?case by (auto simp: span_def split: if_splits dest: le_antisym)
next
  case (Cat a b)
  from Cat.prems obtain m where m: "m \<in> set (ends a s i)" "j \<in> set (ends b s m)" by auto
  have "span (allowed (Cat a b)) s i m"
    using Cat.IH(1) [OF m(1)] by (rule span_mono) simp
  moreover have "span (allowed (Cat a b)) s m j"
    using Cat.IH(2) [OF m(2)] by (rule span_mono) simp
  ultimately show ?case by (rule span_trans)
next
  case (Alt a b)
  from Alt.prems have "j \<in> set (ends a s i) \<or> j \<in> set (ends b s i)" by auto
  then show ?case
  proof
    assume "j \<in> set (ends a s i)"
    from Alt.IH(1) [OF this] show ?thesis by (rule span_mono) simp
  next
    assume "j \<in> set (ends b s i)"
    from Alt.IH(2) [OF this] show ?thesis by (rule span_mono) simp
  qed
next
  case (Opt a)
  from Opt.prems have "j = i \<or> j \<in> set (ends a s i)" by auto
  then show ?case
  proof
    assume "j = i"
    then show ?thesis by (simp add: span_refl)
  next
    assume "j \<in> set (ends a s i)"
    from Opt.IH [OF this] show ?thesis by (rule span_mono) simp
  qed
next
  case (Star a)
  have "span (allowed a) s i j"
    by (rule star_from_span [where f = "ends a s" and n = "length s - i"])
       (use Star in auto)
  then show ?case by (rule span_mono) simp
next
  case Bol
  then show ?case by (auto simp: span_def split: if_splits)
next
  case Eol
  then show ?case by (auto simp: span_def split: if_splits)
qed

text \<open>A pattern anchored on both sides matches only texts made of the bytes it allows.\<close>

lemma MatchString_anchored:
  assumes "MatchString (Cat Bol (Cat r Eol)) s"
  shows "\<forall>c \<in> set s. allowed r c"
proof -
  from assms obtain i where i: "ends (Cat Bol (Cat r Eol)) s i \<noteq> []"
    by (auto simp: MatchString_def list_ex_iff)
  then obtain j where "j \<in> set (ends (Cat Bol (Cat r Eol)) s i)"
    by (meson last_in_set)
  then have "length s \<in> set (ends r s 0)"
    by (auto split: if_splits)
  then have "span (allowed r) s 0 (length s)" by (rule ends_span)
  then show ?thesis by (auto simp: span_def in_set_conv_nth)
qed

lemma IsDNS1123Label_no_star: "IsDNS1123Label l \<Longrightarrow> CHR ''*'' \<notin> set l"
proof
  assume l: "IsDNS1123Label l" and "CHR ''*'' \<in> set l"
  then have "allowed dns1123LabelFmt CHR ''*''"
    using MatchString_anchored [of dns1123LabelFmt l]
    by (auto simp: IsDNS1123Label_def dns1123LabelRegexp_def)
  then show False by (simp add: dns1123LabelFmt_def in_class_def)
qed

lemma set_strings_Split: "set s \<subseteq> insert sep (\<Union> (set ` set (strings_Split s sep)))"
proof (induction s)
  case Nil
  then show ?case by simp
next
  case (Cons c cs)
  then show ?case by (cases "strings_Split cs sep") (auto split: if_splits)
qed

lemma validateDNS1123Labels_loop_None:
  "validateDNS1123Labels_loop d ls = None \<Longrightarrow> \<forall>l \<in> set ls. IsDNS1123Label l"
  by (induction ls) (auto split: if_splits)

lemma validateDNS1123Labels_no_star:
  "validateDNS1123Labels d = None \<Longrightarrow> CHR ''*'' \<notin> set d"
proof
  assume v: "validateDNS1123Labels d = None" and "CHR ''*'' \<in> set d"
  with set_strings_Split [of d "CHR ''.''"] obtain l where
    "l \<in> set (strings_Split d CHR ''.'')" "CHR ''*'' \<in> set l" by auto
  with validateDNS1123Labels_loop_None [OF v [unfolded validateDNS1123Labels_def]]
    IsDNS1123Label_no_star show False by blast
qed

lemma ValidateWildcardDomain_rest:
  "ValidateWildcardDomain d = None \<Longrightarrow>
     CHR ''*'' \<notin> set (tl (dropWhile (\<lambda>c. c \<noteq> CHR ''.'') d))"
proof (cases "CHR ''.'' \<in> set d")
  case False
  then have "dropWhile (\<lambda>c. c \<noteq> CHR ''.'') d = []" by auto
  then show ?thesis by (simp only: list.sel list.set empty_iff not_False_eq_True)
next
  case True
  assume "ValidateWildcardDomain d = None"
  with True have "validateDNS1123Labels (tl (dropWhile (\<lambda>c. c \<noteq> CHR ''.'') d)) = None"
    by (simp add: ValidateWildcardDomain_def strings_SplitN2_def Let_def
        split: option.splits if_splits)
  then show ?thesis by (rule validateDNS1123Labels_no_star)
qed




section \<open>Durations\<close>

lemma go_rem_ms:
  assumes "sint time_Millisecond \<le> sint d"
  shows "go_rem d time_Millisecond = 0 \<longleftrightarrow> 1000000 dvd sint d"
proof -
  have ms: "sint time_Millisecond = 1000000" by (simp add: time_Millisecond_def)
  with assms have pos: "0 < sint d" by simp
  let ?r = "sint d mod 1000000"
  have r: "0 \<le> ?r" "?r < 1000000" by simp_all
  have "go_rem d time_Millisecond = (word_of_int ?r :: 64 word)"
    using pos by (simp add: go_rem_def ms)
  moreover have "(word_of_int ?r :: 64 word) = 0 \<longleftrightarrow> ?r = 0"
  proof
    assume "(word_of_int ?r :: 64 word) = 0"
    then have "uint (word_of_int ?r :: 64 word) = 0" by simp
    moreover have "uint (word_of_int ?r :: 64 word) = ?r"
      using r by (simp add: uint_word_of_int take_bit_int_eq_self)
    ultimately show "?r = 0" by simp
  qed simp
  ultimately show ?thesis by (simp add: dvd_eq_mod_eq_0)
qed

text \<open>
  Claim C8.  \<open>ValidateDuration\<close> fails exactly when \<open>ptypes.Duration\<close> fails to decode the
  message, or the decoded span is below one millisecond (1000000 ns), or it is not a
  multiple of one millisecond.  A span of 500 microseconds fails as too short, one of 1500
  microseconds fails as too precise, one of 1500 milliseconds succeeds.
\<close>

theorem C8_ValidateDuration:
  "(ValidateDuration E pd \<noteq> None \<longleftrightarrow>
      (case ptypes_Duration E pd of
         Inl err \<Rightarrow> True
       | Inr dur \<Rightarrow> sint dur < 1000000 \<or> \<not> 1000000 dvd sint dur))
   \<and> (ptypes_Duration E pd = Inr 500000 \<longrightarrow>
        ValidateDuration E pd = Some (errors_New ''duration must be greater than 1ms''))
   \<and> (ptypes_Duration E pd = Inr 1500000 \<longrightarrow>
        ValidateDuration E pd = Some (errors_New ''only durations to ms precision are supported''))
   \<and> (ptypes_Duration E pd = Inr 1500000000 \<longrightarrow> ValidateDuration E pd = None)"
proof -
  have ms: "sint time_Millisecond = 1000000" by (simp add: time_Millisecond_def)
  have 1: "ValidateDuration E pd \<noteq> None \<longleftrightarrow>
      (case ptypes_Duration E pd of
         Inl err \<Rightarrow> True
       | Inr dur \<Rightarrow> sint dur < 1000000 \<or> \<not> 1000000 dvd sint dur)"
  proof (cases "ptypes_Duration E pd")
    case (Inl err)
    then show ?thesis by (simp add: ValidateDuration_def)
  next
    case (Inr dur)
    show ?thesis
    proof (cases "sint dur < 1000000")
      case True
      with Inr show ?thesis by (simp add: ValidateDuration_def ms)
    next
      case False
      then have "sint time_Millisecond \<le> sint dur" by (simp add: ms)
      from go_rem_ms [OF this] False Inr show ?thesis
        by (simp add: ValidateDuration_def ms)
    qed
  qed
  have 2: "ptypes_Duration E pd = Inr 500000 \<longrightarrow>
        ValidateDuration E pd = Some (errors_New ''duration must be greater than 1ms'')"
    by (simp add: ValidateDuration_def ms)
  have 3: "ptypes_Duration E pd = Inr 1500000 \<longrightarrow>
        ValidateDuration E pd = Some (errors_New ''only durations to ms precision are supported'')"
    using go_rem_ms [of 1500000] by (simp add: ValidateDuration_def ms)
  have 4: "ptypes_Duration E pd = Inr 1500000000 \<longrightarrow> ValidateDuration E pd = None"
    using go_rem_ms [of 1500000000] by (simp add: ValidateDuration_def ms)
  from 1 2 3 4 show ?thesis by blast
qed

theorem C8_ValidateDuration_witness:
  "ValidateDuration E0 (Some \<lparr>Seconds = 0, Nanos = 500000\<rparr>)
     = Some (errors_New ''duration must be greater than 1ms'')
   \<and> ValidateDuration E0 (Some \<lparr>Seconds = 0, Nanos = 1500000\<rparr>)
     = Some (errors_New ''only durations to ms precision are supported'')
   \<and> ValidateDuration E0 (Some \<lparr>Seconds = 1, Nanos = 500000000\<rparr>) = None
   \<and> ValidateDuration E0 None \<noteq> None"
  using C8_ValidateDuration [of E0 "Some \<lparr>Seconds = 0, Nanos = 500000\<rparr>"]
    C8_ValidateDuration [of E0 "Some \<lparr>Seconds = 0, Nanos = 1500000\<rparr>"]
    C8_ValidateDuration [of E0 "Some \<lparr>Seconds = 1, Nanos = 500000000\<rparr>"]
    C8_ValidateDuration [of E0 None]
  by (simp add: E0_def decodeDuration_def)

section \<open>Destination weights of a route rule\<close>

lemma foldl_weights:
  "foldl (\<lambda>sum destWeight. sum + (scast (Weight destWeight) :: 64 word)) a routes
     = a + word_of_int (weight_sum routes)"
proof (induction routes arbitrary: a)
  case Nil
  then show ?case by (simp add: weight_sum_def)
next
  case (Cons r rs)
  have "weight_sum (r # rs) = sint (Weight r) + weight_sum rs"
    by (simp add: weight_sum_def)
  then have "(word_of_int (weight_sum (r # rs)) :: 64 word)
      = scast (Weight r) + word_of_int (weight_sum rs)"
    by simp
  then show ?case
    by (simp only: foldl_Cons Cons.IH add.assoc)
qed

lemma sint32_bounds: "- 2147483648 \<le> sint (w :: 32 word) \<and> sint w \<le> 2147483647"
  using sint_ge [of w] sint_lt [of w] by simp

lemma weight_sum_bounds:
  "- (2147483648 * int (length routes)) \<le> weight_sum routes
   \<and> weight_sum routes \<le> 2147483647 * int (length routes)"
  unfolding weight_sum_def
proof (induction routes)
  case Nil
  then show ?case by simp
next
  case (Cons r rs)
  from sint32_bounds [of "Weight r"] Cons show ?case by (simp add: algebra_simps)
qed

lemma sint_weight_sum:
  assumes "length routes < 2 ^ 32"
  shows "sint (word_of_int (weight_sum routes) :: 64 word) = weight_sum routes"
proof -
  from assms have "int (length routes) < 4294967296"
    by simp
  with weight_sum_bounds [of routes]
  have "- (2 ^ 63) \<le> weight_sum routes" "weight_sum routes < 2 ^ 63"
    by simp_all
  then show ?thesis
    by (simp add: sint_sbintrunc' signed_take_bit_int_eq_self)
qed

text \<open>
  Claim C4.  \<open>ValidateWeights\<close> accepts a list of exactly one entry whose weight is 0; for
  every other list it reports the weight-sum error iff the weights do not sum to exactly
  100, and the error names the sum.  \<open>[{weight:100}]\<close> and \<open>[{weight:0}]\<close> succeed,
  \<open>[{weight:60},{weight:30}]\<close> fails with the sum 90.  The accumulator \<open>sum\<close> is a 64-bit
  \<open>int\<close>: it holds the sum of the \<open>int32\<close> weights of any slice of fewer than \<open>2^32\<close>
  entries, which is the premise.
\<close>

theorem C4_ValidateWeights:
  assumes "length routes < 2 ^ 32"
  shows "(ValidateWeights routes = None \<longleftrightarrow>
            (length routes = 1 \<and> Weight (hd routes) = 0) \<or> weight_sum routes = 100)
         \<and> (ValidateWeights routes \<noteq> None \<longrightarrow>
              ValidateWeights routes = Some (MultiError
                [Errorf ''route weights total %v (must total 100)'' [I (weight_sum routes)]]))"
proof -
  let ?sum = "word_of_int (weight_sum routes) :: 64 word"
  have s: "sint ?sum = weight_sum routes" by (rule sint_weight_sum [OF assms])
  have z: "?sum = 0 \<longleftrightarrow> weight_sum routes = 0"
    using s by (metis sint_0 word_of_int_0)
  have "sint (100 :: 64 word) = 100" by simp
  then have h: "?sum = 100 \<longleftrightarrow> weight_sum routes = 100"
    using s by (metis word_of_int_numeral)
  have one: "length routes = 1 \<Longrightarrow> weight_sum routes = sint (Weight (hd routes))"
    by (cases routes) (simp_all add: weight_sum_def)
  have w0: "sint (Weight (hd routes)) = 0 \<longleftrightarrow> Weight (hd routes) = 0"
  proof
    assume "sint (Weight (hd routes)) = 0"
    moreover have "(of_int (sint (Weight (hd routes))) :: 32 word) = Weight (hd routes)"
      by simp
    ultimately show "Weight (hd routes) = 0" by simp
  qed simp
  show ?thesis
    using one w0
    by (auto simp: ValidateWeights_def foldl_weights Let_def z h s multierror_Append_def)
qed

theorem C4_ValidateWeights_witness:
  "ValidateWeights [\<lparr>DestinationWeight_Labels = [], Weight = 100\<rparr>] = None
   \<and> ValidateWeights [\<lparr>DestinationWeight_Labels = [], Weight = 0\<rparr>] = None
   \<and> ValidateWeights [\<lparr>DestinationWeight_Labels = [], Weight = 60\<rparr>,
                      \<lparr>DestinationWeight_Labels = [], Weight = 30\<rparr>]
       = Some (MultiError [Errorf ''route weights total %v (must total 100)'' [I 90]])
   \<and> ValidateWeights [\<lparr>DestinationWeight_Labels = [], Weight = 0\<rparr>,
                      \<lparr>DestinationWeight_Labels = [], Weight = 0\<rparr>] \<noteq> None"
  using C4_ValidateWeights [of "[\<lparr>DestinationWeight_Labels = [], Weight = 100\<rparr>]"]
    C4_ValidateWeights [of "[\<lparr>DestinationWeight_Labels = [], Weight = 0\<rparr>]"]
    C4_ValidateWeights [of "[\<lparr>DestinationWeight_Labels = [], Weight = 60\<rparr>,
                      \<lparr>DestinationWeight_Labels = [], Weight = 30\<rparr>]"]
    C4_ValidateWeights [of "[\<lparr>DestinationWeight_Labels = [], Weight = 0\<rparr>,
                      \<lparr>DestinationWeight_Labels = [], Weight = 0\<rparr>]"]
  by (simp add: weight_sum_def)

section \<open>Oneof fields without a variant\<close>

text \<open>
  Claim C9, as stated, fails: an abort whose \<open>ErrorType\<close> is unset and whose percentage is
  in range is accepted without any error.
\<close>

theorem C9_abort_unset_counterexample:
  "validateHTTPFaultInjectionAbort (Some \<lparr>Abort_Percent = 50, ErrorType = None\<rparr>) = None"
  by (simp add: validateHTTPFaultInjectionAbort_def appendErrors_def appendError_def
      ValidatePercent_def)

text \<open>
  Claim C9, amended.  \<open>ValidateStringMatch\<close> rejects a \<open>StringMatch\<close> whose match type is
  unset and accepts every other one.  The type switches of
  \<open>validateHTTPFaultInjectionAbort\<close> and \<open>validateHTTPFaultInjectionDelay\<close> have no default
  branch: for an abort or a delay whose oneof is unset the only check made is the range of
  the percentage.
\<close>

theorem C9_oneof_unset:
  "(ValidateStringMatch m = None \<longleftrightarrow> MatchType m \<noteq> None)
   \<and> (MatchType m = None \<longrightarrow>
        ValidateStringMatch m = Some (Errorf ''unrecognized string match %q'' [Obj]))
   \<and> (ErrorType a = None \<longrightarrow>
        validateHTTPFaultInjectionAbort (Some a) = ValidatePercent (Abort_Percent a))
   \<and> (HttpDelayType d = None \<longrightarrow>
        validateHTTPFaultInjectionDelay E (Some d) = ValidatePercent (Delay_Percent d))"
proof -
  have 1: "ValidateStringMatch m = None \<longleftrightarrow> MatchType m \<noteq> None"
    by (simp add: ValidateStringMatch_def split: option.splits StringMatch_MatchType.splits)
  have 2: "MatchType m = None \<longrightarrow>
        ValidateStringMatch m = Some (Errorf ''unrecognized string match %q'' [Obj])"
    by (simp add: ValidateStringMatch_def)
  have 3: "ErrorType a = None \<longrightarrow>
        validateHTTPFaultInjectionAbort (Some a) = ValidatePercent (Abort_Percent a)"
    by (simp add: validateHTTPFaultInjectionAbort_def appendErrors_def appendError_def)
  have 4: "HttpDelayType d = None \<longrightarrow>
        validateHTTPFaultInjectionDelay E (Some d) = ValidatePercent (Delay_Percent d)"
    by (simp add: validateHTTPFaultInjectionDelay_def appendErrors_def appendError_def)
  from 1 2 3 4 show ?thesis by blast
qed

theorem C9_oneof_unset_witness:
  "ValidateStringMatch \<lparr>MatchType = None\<rparr> = Some (Errorf ''unrecognized string match %q'' [Obj])
   \<and> validateHTTPFaultInjectionAbort (Some \<lparr>Abort_Percent = 150, ErrorType = None\<rparr>)
       = Some (Errorf ''percentage %v is not in range 0..100'' [I 150])
   \<and> validateHTTPFaultInjectionDelay E0 (Some \<lparr>Delay_Percent = 10, HttpDelayType = None\<rparr>) = None"
  using C9_oneof_unset [of "\<lparr>MatchType = None\<rparr>" "\<lparr>Abort_Percent = 150, ErrorType = None\<rparr>"
      "\<lparr>Delay_Percent = 10, HttpDelayType = None\<rparr>" E0]
  by (simp add: ValidatePercent_def)

section \<open>HTTP API specifications without attributes\<close>

lemma ValidateHTTPAPISpec_pattern_nil:
  assumes "HTTPAPISpec_Attributes v = None"
  shows "\<exists>errs'. ValidateHTTPAPISpec_pattern E v errs p = Inr errs'
           \<and> count_list (failures errs') (errors_New ''list of attributes is nil/empty'')
               = Suc (count_list (failures errs) (errors_New ''list of attributes is nil/empty''))"
  using assms
  by (simp add: ValidateHTTPAPISpec_pattern_def ValidateMixerAttributes_def bindP_def Let_def
      failures_appendIfErr failures_multierror_Append
      split: option.splits HTTPAPISpecPattern_Pattern.splits)

lemma ValidateHTTPAPISpec_patterns_nil:
  assumes "HTTPAPISpec_Attributes v = None"
  shows "\<exists>errs'. foldlP (ValidateHTTPAPISpec_pattern E v) errs ps = Inr errs'
           \<and> count_list (failures errs') (errors_New ''list of attributes is nil/empty'')
               = count_list (failures errs) (errors_New ''list of attributes is nil/empty'')
                 + length ps"
proof (induction ps arbitrary: errs)
  case Nil
  then show ?case by simp
next
  case (Cons p ps)
  from ValidateHTTPAPISpec_pattern_nil [OF assms, of E errs p] obtain e1 where
    e1: "ValidateHTTPAPISpec_pattern E v errs p = Inr e1"
      "count_list (failures e1) (errors_New ''list of attributes is nil/empty'')
         = Suc (count_list (failures errs) (errors_New ''list of attributes is nil/empty''))"
    by blast
  from Cons.IH [of e1] obtain e2 where
    e2: "foldlP (ValidateHTTPAPISpec_pattern E v) e1 ps = Inr e2"
      "count_list (failures e2) (errors_New ''list of attributes is nil/empty'')
         = count_list (failures e1) (errors_New ''list of attributes is nil/empty'') + length ps"
    by blast
  from e1 e2 show ?case by simp
qed

lemma ValidateHTTPAPISpec_key_count:
  "count_list (failures (ValidateHTTPAPISpec_key errs k))
      (errors_New ''list of attributes is nil/empty'')
     = count_list (failures errs) (errors_New ''list of attributes is nil/empty'')"
  by (simp add: ValidateHTTPAPISpec_key_def failures_multierror_Append
      split: option.splits APIKey_Key.splits)

lemma ValidateHTTPAPISpec_keys_count:
  "count_list (failures (foldl ValidateHTTPAPISpec_key errs ks))
      (errors_New ''list of attributes is nil/empty'')
     = count_list (failures errs) (errors_New ''list of attributes is nil/empty'')"
  by (induction ks arbitrary: errs) (simp_all add: ValidateHTTPAPISpec_key_count)

text \<open>
  Claim C10.  For an \<open>HTTPAPISpec\<close> whose field \<open>Attributes\<close> is \<open>nil\<close>:
  \<open>ValidateMixerAttributes\<close>, given that \<open>nil\<close> pointer, passes its type assertion and
  returns "list of attributes is nil/empty"; \<open>ValidateHTTPAPISpec\<close> returns, and the
  failures of its result hold that error once for each pattern.  With no pattern the
  count is zero: the \<open>nil\<close> field alone gives no attributes error.
\<close>

theorem C10_HTTPAPISpec_nil_attributes:
  assumes "HTTPAPISpec_Attributes v = None"
  shows "ValidateMixerAttributes E (Msg_Attributes (HTTPAPISpec_Attributes v))
           = Inr (Some (errors_New ''list of attributes is nil/empty''))
         \<and> (\<exists>errs. ValidateHTTPAPISpec E name namespace (Msg_HTTPAPISpec v) = Inr errs
               \<and> count_list (failures errs) (errors_New ''list of attributes is nil/empty'')
                   = length (Patterns v))"
proof -
  let ?e0 = "if length (Patterns v) = 0
             then Some (multierror_Append None
                    [Some (errors_New ''at least one pattern must be specified'')])
             else None"
  have c0: "count_list (failures ?e0) (errors_New ''list of attributes is nil/empty'') = 0"
    by (simp add: failures_multierror_Append)
  from ValidateHTTPAPISpec_patterns_nil [OF assms, of E ?e0 "Patterns v"] obtain e1 where
    e1: "foldlP (ValidateHTTPAPISpec_pattern E v) ?e0 (Patterns v) = Inr e1"
      "count_list (failures e1) (errors_New ''list of attributes is nil/empty'')
         = count_list (failures ?e0) (errors_New ''list of attributes is nil/empty'')
           + length (Patterns v)"
    by blast
  have "ValidateHTTPAPISpec E name namespace (Msg_HTTPAPISpec v)
          = Inr (foldl ValidateHTTPAPISpec_key e1 (ApiKeys v))"
    using assms e1(1)
    by (simp add: ValidateHTTPAPISpec_def ValidateHTTPAPISpec_body_def bindP_def Let_def)
  moreover have "count_list (failures (foldl ValidateHTTPAPISpec_key e1 (ApiKeys v)))
      (errors_New ''list of attributes is nil/empty'') = length (Patterns v)"
    using e1(2) c0 by (simp add: ValidateHTTPAPISpec_keys_count)
  moreover have "ValidateMixerAttributes E (Msg_Attributes (HTTPAPISpec_Attributes v))
           = Inr (Some (errors_New ''list of attributes is nil/empty''))"
    using assms by (simp add: ValidateMixerAttributes_def)
  ultimately show ?thesis by blast
qed

theorem C10_HTTPAPISpec_nil_attributes_witness:
  "ValidateHTTPAPISpec E0 ''spec'' ''default''
      (Msg_HTTPAPISpec \<lparr>HTTPAPISpec_Attributes = None,
         Patterns = [\<lparr>HttpMethod = ''GET'', Pattern = Some (HTTPAPISpecPattern_UriTemplate ''/a'')\<rparr>,
                     \<lparr>HttpMethod = ''POST'', Pattern = Some (HTTPAPISpecPattern_Regex ''/b.*'')\<rparr>],
         ApiKeys = []\<rparr>)
     = Inr (Some (MultiError [errors_New ''list of attributes is nil/empty'',
                               errors_New ''list of attributes is nil/empty'']))
   \<and> ValidateHTTPAPISpec E0 ''spec'' ''default''
        (Msg_HTTPAPISpec \<lparr>HTTPAPISpec_Attributes = None, Patterns = [], ApiKeys = []\<rparr>)
     = Inr (Some (MultiError [errors_New ''at least one pattern must be specified'']))"
  using C10_HTTPAPISpec_nil_attributes [of "\<lparr>HTTPAPISpec_Attributes = None,
         Patterns = [\<lparr>HttpMethod = ''GET'', Pattern = Some (HTTPAPISpecPattern_UriTemplate ''/a'')\<rparr>,
                     \<lparr>HttpMethod = ''POST'', Pattern = Some (HTTPAPISpecPattern_Regex ''/b.*'')\<rparr>],
         ApiKeys = []\<rparr>" E0 "''spec''" "''default''"]
    C10_HTTPAPISpec_nil_attributes [of "\<lparr>HTTPAPISpec_Attributes = None, Patterns = [], ApiKeys = []\<rparr>"
      E0 "''spec''" "''default''"]
  by (simp add: ValidateHTTPAPISpec_def ValidateHTTPAPISpec_body_def ValidateHTTPAPISpec_pattern_def
      ValidateMixerAttributes_def bindP_def appendIfErr_def multierror_Append_def)

section \<open>Service entries: endpoints and the resolution mode\<close>

lemma in_failures_foldl:
  assumes "\<And>errs x. x \<in> set xs \<Longrightarrow>
             (t \<in> set (failures (step errs x)) \<longleftrightarrow> t \<in> set (failures errs) \<or> C x)"
  shows "t \<in> set (failures (foldl step errs xs)) \<longleftrightarrow>
           t \<in> set (failures errs) \<or> (\<exists>x \<in> set xs. C x)"
  using assms
proof (induction xs arbitrary: errs)
  case Nil
  then show ?case by simp
next
  case (Cons x xs)
  have "t \<in> set (failures (foldl step (step errs x) xs)) \<longleftrightarrow>
           t \<in> set (failures (step errs x)) \<or> (\<exists>x \<in> set xs. C x)"
    by (rule Cons.IH) (simp add: Cons.prems)
  then show ?case by (auto simp: Cons.prems)
qed

lemma in_failures_foldl_fst:
  assumes "\<And>st x. x \<in> set xs \<Longrightarrow>
             (t \<in> set (failures (fst (step st x))) \<longleftrightarrow> t \<in> set (failures (fst st)) \<or> C x)"
  shows "t \<in> set (failures (fst (foldl step st xs))) \<longleftrightarrow>
           t \<in> set (failures (fst st)) \<or> (\<exists>x \<in> set xs. C x)"
  using assms
proof (induction xs arbitrary: st)
  case Nil
  then show ?case by simp
next
  case (Cons x xs)
  have "t \<in> set (failures (fst (foldl step (step st x) xs))) \<longleftrightarrow>
           t \<in> set (failures (fst (step st x))) \<or> (\<exists>x \<in> set xs. C x)"
    by (rule Cons.IH) (simp add: Cons.prems)
  then show ?case by (auto simp: Cons.prems)
qed


lemma failures_Some_Errorf [simp]: "failures (Some (Errorf f as)) = [Errorf f as]"
  by simp

lemma modeFormat_loop:
  "e \<in> set (failures (validateDNS1123Labels_loop d ls)) \<Longrightarrow>
     error_format e = ''domain name %q invalid (label %q invalid)''"
  by (induction ls) (auto split: if_splits)

lemma modeFormat_ValidateWildcardDomain:
  "e \<in> set (failures (ValidateWildcardDomain d)) \<Longrightarrow>
     error_format e \<notin> set serviceEntry_modeFormats"
  by (auto simp: ValidateWildcardDomain_def checkDNS1123Preconditions_def Let_def
      validateDNS1123Labels_def serviceEntry_modeFormats_def
      split: if_splits option.splits dest!: modeFormat_loop)

lemma modeFormat_ValidateFQDN:
  "e \<in> set (failures (ValidateFQDN d)) \<Longrightarrow> error_format e \<notin> set serviceEntry_modeFormats"
  by (auto simp: ValidateFQDN_def failures_appendErrors checkDNS1123Preconditions_def
      validateDNS1123Labels_def serviceEntry_modeFormats_def
      split: if_splits dest!: modeFormat_loop)

lemma modeFormat_validateCIDR:
  "e \<in> set (failures (validateCIDR E c)) \<Longrightarrow> error_format e \<notin> set serviceEntry_modeFormats"
  by (auto simp: validateCIDR_def serviceEntry_modeFormats_def split: option.splits if_splits)

lemma modeFormat_ValidateIPv4Address:
  "e \<in> set (failures (ValidateIPv4Address E c)) \<Longrightarrow>
     error_format e \<notin> set serviceEntry_modeFormats"
  by (auto simp: ValidateIPv4Address_def serviceEntry_modeFormats_def
      split: option.splits if_splits)

lemma modeFormat_ValidateUnixAddress:
  "e \<in> set (failures (ValidateUnixAddress a)) \<Longrightarrow>
     error_format e \<notin> set serviceEntry_modeFormats"
  by (auto simp: ValidateUnixAddress_def serviceEntry_modeFormats_def split: if_splits)

lemma modeFormat_validatePortName:
  "e \<in> set (failures (validatePortName a)) \<Longrightarrow> error_format e \<notin> set serviceEntry_modeFormats"
  by (auto simp: validatePortName_def serviceEntry_modeFormats_def split: if_splits)

lemma modeFormat_validateProtocol:
  "e \<in> set (failures (validateProtocol E a)) \<Longrightarrow>
     error_format e \<notin> set serviceEntry_modeFormats"
  by (auto simp: validateProtocol_def serviceEntry_modeFormats_def split: if_splits)

lemma modeFormat_ValidatePort:
  "e \<in> set (failures (ValidatePort a)) \<Longrightarrow> error_format e \<notin> set serviceEntry_modeFormats"
  by (auto simp: ValidatePort_def serviceEntry_modeFormats_def split: if_splits)

lemma modeFormat_Labels_Validate_step:
  "e \<in> set (failures (Labels_Validate_step errs kv)) \<Longrightarrow>
     e \<in> set (failures errs) \<or> error_format e \<notin> set serviceEntry_modeFormats"
  by (auto simp: Labels_Validate_step_def Let_def failures_multierror_Append
      serviceEntry_modeFormats_def split: if_splits)

lemma modeFormat_Labels_Validate_loop:
  "e \<in> set (failures (foldl Labels_Validate_step errs l)) \<Longrightarrow>
     e \<in> set (failures errs) \<or> error_format e \<notin> set serviceEntry_modeFormats"
proof (induction l arbitrary: errs)
  case Nil
  then show ?case by simp
next
  case (Cons kv l)
  from Cons.IH [of "Labels_Validate_step errs kv"] Cons.prems
    modeFormat_Labels_Validate_step [of e errs kv]
  show ?case by auto
qed

lemma modeFormat_Labels_Validate:
  "e \<in> set (failures (Labels_Validate l)) \<Longrightarrow> error_format e \<notin> set serviceEntry_modeFormats"
  using modeFormat_Labels_Validate_loop [of e None l] by (simp add: Labels_Validate_def)


lemma ServiceEntry_step_host:
  assumes "error_format t \<in> set serviceEntry_modeFormats"
  shows "t \<in> set (failures (ValidateServiceEntry_host errs h)) \<longleftrightarrow> t \<in> set (failures errs)"
  using assms modeFormat_ValidateWildcardDomain [of t h]
  by (auto simp: ValidateServiceEntry_host_def failures_appendErrors serviceEntry_modeFormats_def)

lemma ServiceEntry_step_port:
  assumes "error_format t \<in> set serviceEntry_modeFormats"
  shows "t \<in> set (failures (fst (ValidateServiceEntry_port st p))) \<longleftrightarrow>
           t \<in> set (failures (fst st))"
  using assms
  by (auto simp: ValidateServiceEntry_port_def Let_def failures_appendErrors
      serviceEntry_modeFormats_def)

lemma ServiceEntry_step_endpointPort:
  assumes "error_format t \<in> set serviceEntry_modeFormats"
  shows "t \<in> set (failures (ValidateServiceEntry_endpointPort sp errs np)) \<longleftrightarrow>
           t \<in> set (failures errs)"
  using assms
  by (auto simp: ValidateServiceEntry_endpointPort_def failures_appendErrors
      serviceEntry_modeFormats_def)

lemma ServiceEntry_step_dnsPort:
  assumes "error_format t \<in> set serviceEntry_modeFormats"
  shows "t \<in> set (failures (ValidateServiceEntry_dnsPort sp errs np)) \<longleftrightarrow>
           t \<in> set (failures errs)"
  using assms modeFormat_validatePortName [of t "fst np"] modeFormat_ValidatePort [of t "ucast (snd np)"]
  by (auto simp: ValidateServiceEntry_dnsPort_def Let_def failures_appendErrors
      serviceEntry_modeFormats_def)

lemma ServiceEntry_step_dns:
  assumes "error_format t \<in> set serviceEntry_modeFormats"
  shows "t \<in> set (failures (ValidateServiceEntry_dns sp errs ep)) \<longleftrightarrow>
           t \<in> set (failures errs)"
  unfolding ValidateServiceEntry_dns_def Let_def
  using assms modeFormat_ValidateFQDN [of t "Endpoint_Address ep"]
    modeFormat_Labels_Validate [of t "Endpoint_Labels ep"]
  by (subst in_failures_foldl [where C = "\<lambda>x. False"])
     (auto simp: ServiceEntry_step_dnsPort failures_appendErrors)

lemma ServiceEntry_step_finalPort:
  assumes "error_format t \<in> set serviceEntry_modeFormats"
  shows "t \<in> set (failures (appendErrors errs
            [validatePortName (Port_Name port), validateProtocol E (Port_Protocol port),
             ValidatePort (ucast (Port_Number port))])) \<longleftrightarrow> t \<in> set (failures errs)"
  using assms modeFormat_validatePortName [of t "Port_Name port"]
    modeFormat_validateProtocol [of t E "Port_Protocol port"]
    modeFormat_ValidatePort [of t "ucast (Port_Number port)"]
  by (auto simp: failures_appendErrors)

lemma ServiceEntry_step_static_flag:
  "snd (ValidateServiceEntry_static E sp st ep) \<longleftrightarrow> snd st \<or> isUnix ep"
  by (simp add: ValidateServiceEntry_static_def Let_def isUnix_def)

lemma ServiceEntry_loop_static_flag:
  "snd (foldl (ValidateServiceEntry_static E sp) st eps) \<longleftrightarrow> snd st \<or> (\<exists>ep \<in> set eps. isUnix ep)"
  by (induction eps arbitrary: st) (auto simp: ServiceEntry_step_static_flag)

lemma ServiceEntry_step_static:
  assumes "error_format t \<in> set serviceEntry_modeFormats"
  shows "t \<in> set (failures (fst (ValidateServiceEntry_static E sp st ep))) \<longleftrightarrow>
           t \<in> set (failures (fst st))
           \<or> (isUnix ep \<and> Endpoint_Ports ep \<noteq> []
               \<and> t = Errorf ''unix endpoint %s must not include ports'' [S (Endpoint_Address ep)])"
proof (cases "isUnix ep")
  case True
  with assms modeFormat_ValidateUnixAddress [of t "strings_TrimPrefix (Endpoint_Address ep) UnixAddressPrefix"]
    modeFormat_Labels_Validate [of t "Endpoint_Labels ep"]
  show ?thesis
    by (auto simp: ValidateServiceEntry_static_def Let_def isUnix_def failures_appendErrors)
next
  case False
  have "t \<in> set (failures (foldl (ValidateServiceEntry_endpointPort sp)
            (appendErrors (fst st) [ValidateIPv4Address E (Endpoint_Address ep)])
            (Endpoint_Ports ep))) \<longleftrightarrow> t \<in> set (failures (fst st))"
    using assms modeFormat_ValidateIPv4Address [of t E "Endpoint_Address ep"]
    by (subst in_failures_foldl [where C = "\<lambda>x. False"])
       (auto simp: ServiceEntry_step_endpointPort failures_appendErrors)
  with False assms modeFormat_Labels_Validate [of t "Endpoint_Labels ep"]
  show ?thesis
    by (auto simp: ValidateServiceEntry_static_def Let_def isUnix_def failures_appendErrors)
qed


lemma ServiceEntry_loop_static:
  assumes "error_format t \<in> set serviceEntry_modeFormats"
  shows "t \<in> set (failures (fst (foldl (ValidateServiceEntry_static E sp) st eps))) \<longleftrightarrow>
           t \<in> set (failures (fst st))
           \<or> (\<exists>ep \<in> set eps. isUnix ep \<and> Endpoint_Ports ep \<noteq> []
               \<and> t = Errorf ''unix endpoint %s must not include ports'' [S (Endpoint_Address ep)])"
  by (rule in_failures_foldl_fst) (rule ServiceEntry_step_static [OF assms])

lemma ServiceEntry_resolution_failures:
  assumes "error_format t \<in> set serviceEntry_modeFormats"
  shows "t \<in> set (failures (ValidateServiceEntry_resolution E se sp errs)) \<longleftrightarrow>
           t \<in> set (failures errs) \<or> serviceEntry_modeFailure se t"
proof (cases "Resolution se")
  case ServiceEntry_NONE
  with assms show ?thesis
    by (auto simp: ValidateServiceEntry_resolution_def serviceEntry_modeFailure_def
        failures_appendErrors)
next
  case ServiceEntry_STATIC
  with assms show ?thesis
    by (auto simp: ValidateServiceEntry_resolution_def serviceEntry_modeFailure_def Let_def
        failures_appendErrors ServiceEntry_loop_static ServiceEntry_loop_static_flag)
next
  case ServiceEntry_DNS
  have hosts: "t \<in> set (failures (foldl (\<lambda>errs host.
                  if P host
                  then appendErrors errs
                    [Some (Errorf ''hosts must be FQDN if no endpoints are provided for discovery mode DNS'' [])]
                  else errs) errs hs)) \<longleftrightarrow> t \<in> set (failures errs)"
    for hs :: "string list" and P
    using assms
    by (subst in_failures_foldl [where C = "\<lambda>x. False"])
       (auto simp: failures_appendErrors serviceEntry_modeFormats_def)
  have eps: "t \<in> set (failures (foldl (ValidateServiceEntry_dns sp) e0 es))
               \<longleftrightarrow> t \<in> set (failures e0)" for e0 es
    by (subst in_failures_foldl [where C = "\<lambda>x. False"]) (auto simp: ServiceEntry_step_dns [OF assms])
  from ServiceEntry_DNS show ?thesis
    by (simp add: ValidateServiceEntry_resolution_def serviceEntry_modeFailure_def Let_def
        eps hosts)
next
  case (ServiceEntry_other n)
  with assms show ?thesis
    by (auto simp: ValidateServiceEntry_resolution_def serviceEntry_modeFailure_def
        failures_appendErrors serviceEntry_modeFormats_def)
qed

lemma ServiceEntry_body_failures:
  assumes "error_format t \<in> set serviceEntry_modeFormats"
  shows "t \<in> set (failures (ValidateServiceEntry_body E se)) \<longleftrightarrow> serviceEntry_modeFailure se t"
proof -
  let ?e0 = "if length (ServiceEntry_Hosts se) = 0
             then appendErrors None [Some (Errorf ''service entry must have at least one host'' [])]
             else None"
  let ?e1 = "foldl ValidateServiceEntry_host ?e0 (ServiceEntry_Hosts se)"
  let ?e2 = "foldl (\<lambda>errs address. appendErrors errs [validateCIDR E address]) ?e1 (Addresses se)"
  let ?st = "foldl ValidateServiceEntry_port (?e2, \<lambda>n. False, \<lambda>n. False) (ServiceEntry_Ports se)"
  let ?e4 = "ValidateServiceEntry_resolution E se (fst (snd ?st)) (fst ?st)"
  have 0: "t \<notin> set (failures ?e0)"
    using assms by (auto simp: failures_appendErrors serviceEntry_modeFormats_def)
  have 1: "t \<notin> set (failures ?e1)"
    using 0 by (subst in_failures_foldl [where C = "\<lambda>x. False"]) (auto simp: ServiceEntry_step_host [OF assms])
  have 2: "t \<notin> set (failures ?e2)"
    using 1 modeFormat_validateCIDR [of t E] assms
    by (subst in_failures_foldl [where C = "\<lambda>x. False"]) (auto simp: failures_appendErrors)
  have 3: "t \<notin> set (failures (fst ?st))"
    using 2
    by (subst in_failures_foldl_fst [where C = "\<lambda>x. False"]) (auto simp: ServiceEntry_step_port [OF assms])
  have 4: "t \<in> set (failures ?e4) \<longleftrightarrow> serviceEntry_modeFailure se t"
    using 3 by (simp add: ServiceEntry_resolution_failures [OF assms])
  have "t \<in> set (failures (ValidateServiceEntry_body E se)) \<longleftrightarrow> t \<in> set (failures ?e4)"
    unfolding ValidateServiceEntry_body_def Let_def
    by (subst in_failures_foldl [where C = "\<lambda>x. False"])
       (auto simp: ServiceEntry_step_finalPort [OF assms])
  with 4 show ?thesis by simp
qed


lemma unixExample_hosts: "foldl ValidateServiceEntry_host None [''foo.example.com''] = None"
  by code_simp

lemma unixExample_name1: "validatePortName ''http'' = None" by code_simp
lemma unixExample_name2: "validatePortName ''http-alt'' = None" by code_simp
lemma unixExample_port1: "ValidatePort (ucast (80 :: 32 word)) = None" by code_simp
lemma unixExample_port2: "ValidatePort (ucast (8080 :: 32 word)) = None" by code_simp

lemma unixExample_ports:
  "fst (foldl ValidateServiceEntry_port (None, \<lambda>n. False, \<lambda>n. False)
       [\<lparr>Port_Number = 80, Port_Protocol = ''HTTP'', Port_Name = ''http''\<rparr>,
        \<lparr>Port_Number = 8080, Port_Protocol = ''HTTP'', Port_Name = ''http-alt''\<rparr>]) = None"
  by (simp add: ValidateServiceEntry_port_def)

lemma unixExample_static:
  "foldl (ValidateServiceEntry_static E sp) (None, False)
     [\<lparr>Endpoint_Address = ''unix:///var/run/sock'', Endpoint_Ports = [], Endpoint_Labels = []\<rparr>]
   = (None, True)"
proof -
  have u: "strings_HasPrefix ''unix:///var/run/sock'' UnixAddressPrefix" by code_simp
  have tr: "strings_TrimPrefix ''unix:///var/run/sock'' UnixAddressPrefix = ''/var/run/sock''"
    by code_simp
  have ua: "ValidateUnixAddress ''/var/run/sock'' = None" by code_simp
  have l: "Labels_Validate [] = None" by (simp add: Labels_Validate_def)
  show ?thesis
    by (simp add: ValidateServiceEntry_static_def u tr ua l appendErrors_def appendError_def)
qed


lemma unixExample_final:
  assumes "ParseProtocol E ''HTTP'' \<noteq> ProtocolUnsupported"
  shows "foldl (\<lambda>errs port. appendErrors errs
                  [validatePortName (Port_Name port), validateProtocol E (Port_Protocol port),
                   ValidatePort (ucast (Port_Number port))])
           errs
           [\<lparr>Port_Number = 80, Port_Protocol = ''HTTP'', Port_Name = ''http''\<rparr>,
            \<lparr>Port_Number = 8080, Port_Protocol = ''HTTP'', Port_Name = ''http-alt''\<rparr>] = errs"
proof -
  have "appendErrors e [validatePortName ''http'', validateProtocol E ''HTTP'',
          ValidatePort (ucast (80 :: 32 word))] = e" for e
    using assms
    by (simp only: unixExample_name1 unixExample_port1 validateProtocol_def if_False appendErrors_def foldl.simps
        appendError_def if_True split: if_splits) simp
  moreover have "appendErrors e [validatePortName ''http-alt'', validateProtocol E ''HTTP'',
          ValidatePort (ucast (8080 :: 32 word))] = e" for e
    using assms
    by (simp only: unixExample_name2 unixExample_port2 validateProtocol_def if_False appendErrors_def foldl.simps
        appendError_def if_True split: if_splits) simp
  ultimately show ?thesis
    by (simp only: foldl.simps Port.simps)
qed

lemma unixExample_result:
  assumes "ParseProtocol E ''HTTP'' \<noteq> ProtocolUnsupported"
  shows "ValidateServiceEntry E name namespace (Msg_ServiceEntry unixExample)
           = Some (errors_New ''exactly 1 service port required for unix endpoints'')"
proof -
  have r: "ValidateServiceEntry_resolution E unixExample sp None
             = Some (errors_New ''exactly 1 service port required for unix endpoints'')" for sp
    by (simp add: ValidateServiceEntry_resolution_def unixExample_def Let_def unixExample_static
        appendErrors_None_single del: foldl_Cons foldl_Nil)
  show ?thesis
    unfolding ValidateServiceEntry_def ValidateServiceEntry_body_def Let_def
    using r [unfolded unixExample_def]
    by (simp add: unixExample_def unixExample_hosts unixExample_ports unixExample_final [OF assms]
          del: foldl_Cons)
qed
text \<open>
  Claim C3.  \<open>ValidateServiceEntry\<close> gates the endpoints by the resolution mode.  In
  mode \<open>NONE\<close> it reports "no endpoints should be provided ..." iff the list of endpoints
  is not empty.  In mode \<open>STATIC\<close> it reports "endpoints must be provided ..." iff the
  list is empty; it reports "exactly 1 service port required for unix endpoints" iff some
  endpoint address has the prefix \<open>unix://\<close> and the number of service ports is not one;
  and it reports "unix endpoint ... must not include ports" for an address iff an endpoint
  with that address has the prefix and declares ports.  The service entry \<open>unixExample\<close>
  (mode \<open>STATIC\<close>, one endpoint at \<open>unix:///var/run/sock\<close>, two valid service ports of
  a protocol that \<open>ParseProtocol\<close> knows) fails with that single failure.
\<close>

theorem C3_ValidateServiceEntry_resolution:
  "(Resolution se = ServiceEntry_NONE \<longrightarrow>
      (Errorf ''no endpoints should be provided for discovery type none'' []
         \<in> set (failures (ValidateServiceEntry E name namespace (Msg_ServiceEntry se)))
       \<longleftrightarrow> Endpoints se \<noteq> []))
   \<and> (Resolution se = ServiceEntry_STATIC \<longrightarrow>
        (Errorf ''endpoints must be provided if service entry discovery mode is static'' []
           \<in> set (failures (ValidateServiceEntry E name namespace (Msg_ServiceEntry se)))
         \<longleftrightarrow> Endpoints se = [])
        \<and> (errors_New ''exactly 1 service port required for unix endpoints''
             \<in> set (failures (ValidateServiceEntry E name namespace (Msg_ServiceEntry se)))
           \<longleftrightarrow> (\<exists>ep \<in> set (Endpoints se). isUnix ep) \<and> length (ServiceEntry_Ports se) \<noteq> 1)
        \<and> (Errorf ''unix endpoint %s must not include ports'' [S a]
             \<in> set (failures (ValidateServiceEntry E name namespace (Msg_ServiceEntry se)))
           \<longleftrightarrow> (\<exists>ep \<in> set (Endpoints se).
                  isUnix ep \<and> Endpoint_Address ep = a \<and> Endpoint_Ports ep \<noteq> [])))
   \<and> (ParseProtocol E ''HTTP'' \<noteq> ProtocolUnsupported \<longrightarrow>
        ValidateServiceEntry E name namespace (Msg_ServiceEntry unixExample)
          = Some (errors_New ''exactly 1 service port required for unix endpoints''))"
proof -
  have v: "ValidateServiceEntry E name namespace (Msg_ServiceEntry se)
             = ValidateServiceEntry_body E se"
    by (simp add: ValidateServiceEntry_def)
  have f: "error_format (Errorf ''no endpoints should be provided for discovery type none'' [])
             \<in> set serviceEntry_modeFormats"
     "error_format (Errorf ''endpoints must be provided if service entry discovery mode is static'' [])
             \<in> set serviceEntry_modeFormats"
     "error_format (errors_New ''exactly 1 service port required for unix endpoints'')
             \<in> set serviceEntry_modeFormats"
     "error_format (Errorf ''unix endpoint %s must not include ports'' [S a])
             \<in> set serviceEntry_modeFormats"
    by (simp_all add: serviceEntry_modeFormats_def)
  show ?thesis
    unfolding v ServiceEntry_body_failures [OF f(1)] ServiceEntry_body_failures [OF f(2)] ServiceEntry_body_failures [OF f(3)]
      ServiceEntry_body_failures [OF f(4)]
    using unixExample_result [of E name namespace]
    by (auto simp: serviceEntry_modeFailure_def)
qed


theorem C3_ValidateServiceEntry_resolution_witness:
  "ValidateServiceEntry E0 ''se'' ''default'' (Msg_ServiceEntry unixExample)
     = Some (errors_New ''exactly 1 service port required for unix endpoints'')
   \<and> Errorf ''no endpoints should be provided for discovery type none'' []
       \<in> set (failures (ValidateServiceEntry E0 ''se'' ''default''
            (Msg_ServiceEntry (unixExample\<lparr>Resolution := ServiceEntry_NONE\<rparr>))))
   \<and> Errorf ''endpoints must be provided if service entry discovery mode is static'' []
       \<in> set (failures (ValidateServiceEntry E0 ''se'' ''default''
            (Msg_ServiceEntry (unixExample\<lparr>Endpoints := []\<rparr>))))"
  using C3_ValidateServiceEntry_resolution [of unixExample E0 "''se''" "''default''" "[]"]
    C3_ValidateServiceEntry_resolution [of "unixExample\<lparr>Resolution := ServiceEntry_NONE\<rparr>"
      E0 "''se''" "''default''" "[]"]
    C3_ValidateServiceEntry_resolution [of "unixExample\<lparr>Endpoints := []\<rparr>"
      E0 "''se''" "''default''" "[]"]
  by (simp add: E0_def unixExample_def)

section \<open>Validators that return and validators that panic\<close>

lemma ValidateGateway_portNames_returns:
  assumes "\<forall>s \<in> set servers. Server_Port s \<noteq> None"
  shows "\<exists>st'. foldlP ValidateGateway_portName st servers = Inr st'"
  using assms
proof (induction servers arbitrary: st)
  case Nil
  then show ?case by simp
next
  case (Cons s servers)
  then obtain port where "Server_Port s = Some port" by auto
  then obtain st1 where "ValidateGateway_portName st s = Inr st1"
    by (simp add: ValidateGateway_portName_def Let_def)
  with Cons show ?case by simp
qed

lemma ValidateAuthenticationPolicy_origins_returns:
  assumes "\<forall>m \<in> set origins. Origin_Jwt m \<noteq> None"
  shows "\<exists>st'. foldlP (ValidateAuthenticationPolicy_origin E) st origins = Inr st'"
  using assms
proof (induction origins arbitrary: st)
  case Nil
  then show ?case by simp
next
  case (Cons m origins)
  then obtain jwt where "Origin_Jwt m = Some jwt" by auto
  then obtain st1 where "ValidateAuthenticationPolicy_origin E st m = Inr st1"
    by (simp add: ValidateAuthenticationPolicy_origin_def Let_def)
  with Cons show ?case by simp
qed

text \<open>
  Claim C7, as stated, fails at each of the three inputs it names:
  \<open>ValidateNetworkEndpointAddress\<close> panics for a family that is neither TCP nor Unix (its
  \<open>default\<close> branch calls \<open>panic\<close>), \<open>ValidateGateway\<close> panics on a server whose port is
  \<open>nil\<close>, \<open>ValidateAuthenticationPolicy\<close> panics on an origin method whose JWT is \<open>nil\<close>.
\<close>

theorem C7_validators_panic_counterexample:
  "ValidateNetworkEndpointAddress E0 \<lparr>Family = AddressFamilyOther 7, Address = ''10.0.0.1''\<rparr>
     = Inl UnhandledFamily
   \<and> ValidateGateway E0 ''gw'' ''default''
       (Msg_Gateway \<lparr>Servers = [\<lparr>Server_Port = None, Server_Hosts = [''*''], Tls = None\<rparr>]\<rparr>)
     = Inl NilDereference
   \<and> ValidateAuthenticationPolicy E0 ''default'' ''ns''
       (Msg_Policy \<lparr>Targets = [], Peers = [], Origins = [\<lparr>Origin_Jwt = None\<rparr>]\<rparr>)
     = Inl NilDereference"
  by code_simp

lemma returns_fst:
  "\<exists>st'. X = Inr st' \<Longrightarrow> \<exists>r. (case X of Inl p \<Rightarrow> Inl p | Inr st \<Rightarrow> Inr (fst st)) = Inr r"
  by auto

text \<open>
  Claim C7, amended.  \<open>ValidateNetworkEndpointAddress\<close> returns exactly for the families
  TCP and Unix and panics, as written, for every other family.  \<open>ValidateGateway\<close> returns
  an aggregated result for every gateway all of whose servers have a port, and
  \<open>ValidateAuthenticationPolicy\<close> for every policy all of whose origin methods have a JWT.
\<close>

theorem C7_validators_return:
  "((\<exists>r. ValidateNetworkEndpointAddress E n = Inr r)
      \<longleftrightarrow> Family n = AddressFamilyTCP \<or> Family n = AddressFamilyUnix)
   \<and> ((\<forall>s \<in> set (Servers g). Server_Port s \<noteq> None) \<longrightarrow>
        (\<exists>r. ValidateGateway E name namespace (Msg_Gateway g) = Inr r))
   \<and> ((\<forall>m \<in> set (Origins p). Origin_Jwt m \<noteq> None) \<longrightarrow>
        (\<exists>r. ValidateAuthenticationPolicy E name namespace (Msg_Policy p) = Inr r))"
proof -
  have 1: "(\<exists>r. ValidateNetworkEndpointAddress E n = Inr r)
      \<longleftrightarrow> Family n = AddressFamilyTCP \<or> Family n = AddressFamilyUnix"
    by (cases "Family n")
       (auto simp: ValidateNetworkEndpointAddress_def split: option.splits)
  have 2: "\<exists>r. ValidateGateway E name namespace (Msg_Gateway g) = Inr r"
    if ports: "\<forall>s \<in> set (Servers g). Server_Port s \<noteq> None"
  proof -
    have "\<exists>r. ValidateGateway_body E g = Inr r"
      unfolding ValidateGateway_body_def Let_def
      by (rule returns_fst) (rule ValidateGateway_portNames_returns [OF ports])
    then show ?thesis by (simp add: ValidateGateway_def)
  qed
  have 3: "\<exists>r. ValidateAuthenticationPolicy E name namespace (Msg_Policy p) = Inr r"
    if jwts: "\<forall>m \<in> set (Origins p). Origin_Jwt m \<noteq> None"
  proof -
    have "\<exists>r. ValidateAuthenticationPolicy_body E name namespace p = Inr r"
      unfolding ValidateAuthenticationPolicy_body_def Let_def
      by (rule returns_fst) (rule ValidateAuthenticationPolicy_origins_returns [OF jwts])
    then show ?thesis by (simp add: ValidateAuthenticationPolicy_def)
  qed
  from 1 2 3 show ?thesis by blast
qed

theorem C7_validators_return_witness:
  "ValidateNetworkEndpointAddress E0 \<lparr>Family = AddressFamilyTCP, Address = ''10.0.0.1''\<rparr> = Inr None
   \<and> ValidateNetworkEndpointAddress E0 \<lparr>Family = AddressFamilyUnix, Address = ''/var/run/sock''\<rparr>
       = Inr None
   \<and> (\<exists>r. ValidateGateway E0 ''default'' ''ns''
          (Msg_Gateway \<lparr>Servers = [\<lparr>Server_Port = Some \<lparr>Port_Number = 80, Port_Protocol = ''HTTP'',
                                                        Port_Name = ''http''\<rparr>,
                                    Server_Hosts = [''*''], Tls = None\<rparr>]\<rparr>) = Inr r)
   \<and> (\<exists>r. ValidateAuthenticationPolicy E0 ''default'' ''ns''
          (Msg_Policy \<lparr>Targets = [], Peers = [],
             Origins = [\<lparr>Origin_Jwt = Some \<lparr>Issuer = ''issuer'', Audiences = [], JwksUri = [],
                                              JwtHeaders = [], JwtParams = []\<rparr>\<rparr>]\<rparr>) = Inr r)"
proof -
  note t = C7_validators_return [of E0 "\<lparr>Family = AddressFamilyTCP, Address = ''10.0.0.1''\<rparr>"
      "\<lparr>Servers = [\<lparr>Server_Port = Some \<lparr>Port_Number = 80, Port_Protocol = ''HTTP'',
                                                        Port_Name = ''http''\<rparr>,
                                    Server_Hosts = [''*''], Tls = None\<rparr>]\<rparr>"
      "''default''" "''ns''"
      "\<lparr>Targets = [], Peers = [],
             Origins = [\<lparr>Origin_Jwt = Some \<lparr>Issuer = ''issuer'', Audiences = [], JwksUri = [],
                                              JwtHeaders = [], JwtParams = []\<rparr>\<rparr>]\<rparr>"]
  have 1: "ValidateNetworkEndpointAddress E0 \<lparr>Family = AddressFamilyTCP, Address = ''10.0.0.1''\<rparr>
             = Inr None"
    using t by (simp add: ValidateNetworkEndpointAddress_def E0_def)
  have 2: "ValidateNetworkEndpointAddress E0
             \<lparr>Family = AddressFamilyUnix, Address = ''/var/run/sock''\<rparr> = Inr None"
    by (simp add: ValidateNetworkEndpointAddress_def ValidateUnixAddress_def path_IsAbs_def)
  from t have 3: "\<exists>r. ValidateGateway E0 ''default'' ''ns''
          (Msg_Gateway \<lparr>Servers = [\<lparr>Server_Port = Some \<lparr>Port_Number = 80, Port_Protocol = ''HTTP'',
                                                        Port_Name = ''http''\<rparr>,
                                    Server_Hosts = [''*''], Tls = None\<rparr>]\<rparr>) = Inr r"
    by simp
  from t have 4: "\<exists>r. ValidateAuthenticationPolicy E0 ''default'' ''ns''
          (Msg_Policy \<lparr>Targets = [], Peers = [],
             Origins = [\<lparr>Origin_Jwt = Some \<lparr>Issuer = ''issuer'', Audiences = [], JwksUri = [],
                                              JwtHeaders = [], JwtParams = []\<rparr>\<rparr>]\<rparr>) = Inr r"
    by simp
  from 1 2 3 4 show ?thesis by blast
qed

section \<open>The total weight of an HTTP route\<close>

lemma totalWeightFormat_ValidateHTTPHeaderName:
  "t \<in> set (failures (ValidateHTTPHeaderName E n)) \<Longrightarrow> error_format t \<noteq> totalWeightFormat"
  by (auto simp: ValidateHTTPHeaderName_def totalWeightFormat_def split: if_splits)

lemma totalWeightFormat_ValidatePercent:
  "t \<in> set (failures (ValidatePercent v)) \<Longrightarrow> error_format t \<noteq> totalWeightFormat"
  by (auto simp: ValidatePercent_def totalWeightFormat_def split: if_splits)

lemma totalWeightFormat_ValidatePort:
  "t \<in> set (failures (ValidatePort v)) \<Longrightarrow> error_format t \<noteq> totalWeightFormat"
  by (auto simp: ValidatePort_def totalWeightFormat_def split: if_splits)

lemma totalWeightFormat_ValidateDurationGogo:
  "t \<in> set (failures (ValidateDurationGogo E d)) \<Longrightarrow> error_format t \<noteq> totalWeightFormat"
  by (auto simp: ValidateDurationGogo_def totalWeightFormat_def split: if_splits sum.splits)

lemma totalWeightFormat_validateHTTPMethod:
  "t \<in> set (failures (validateHTTPMethod m)) \<Longrightarrow> error_format t \<noteq> totalWeightFormat"
  by (auto simp: validateHTTPMethod_def totalWeightFormat_def split: if_splits)

lemma totalWeightFormat_validateHTTPRedirect:
  "t \<in> set (failures (validateHTTPRedirect r)) \<Longrightarrow> error_format t \<noteq> totalWeightFormat"
  by (auto simp: validateHTTPRedirect_def totalWeightFormat_def split: if_splits option.splits)

lemma totalWeightFormat_validateHTTPRewrite:
  "t \<in> set (failures (validateHTTPRewrite r)) \<Longrightarrow> error_format t \<noteq> totalWeightFormat"
  by (auto simp: validateHTTPRewrite_def totalWeightFormat_def split: if_splits option.splits)

lemma totalWeightFormat_validateHTTPStatus:
  "t \<in> set (failures (validateHTTPStatus r)) \<Longrightarrow> error_format t \<noteq> totalWeightFormat"
  by (auto simp: validateHTTPStatus_def totalWeightFormat_def split: if_splits)

lemma totalWeightFormat_validateSubsetName:
  "t \<in> set (failures (validateSubsetName r)) \<Longrightarrow> error_format t \<noteq> totalWeightFormat"
  by (auto simp: validateSubsetName_def totalWeightFormat_def split: if_splits)

lemma totalWeightFormat_loop:
  "e \<in> set (failures (validateDNS1123Labels_loop d ls)) \<Longrightarrow>
     error_format e \<noteq> totalWeightFormat"
  by (induction ls) (auto simp: totalWeightFormat_def split: if_splits)

lemma totalWeightFormat_ValidateWildcardDomain:
  "e \<in> set (failures (ValidateWildcardDomain d)) \<Longrightarrow> error_format e \<noteq> totalWeightFormat"
  by (auto simp: ValidateWildcardDomain_def checkDNS1123Preconditions_def Let_def
      validateDNS1123Labels_def totalWeightFormat_def
      split: if_splits option.splits dest!: totalWeightFormat_loop)

lemma totalWeightFormat_validateCIDR:
  "e \<in> set (failures (validateCIDR E c)) \<Longrightarrow> error_format e \<noteq> totalWeightFormat"
  by (auto simp: validateCIDR_def totalWeightFormat_def split: option.splits if_splits)

lemma totalWeightFormat_ValidateIPv4Address:
  "e \<in> set (failures (ValidateIPv4Address E c)) \<Longrightarrow> error_format e \<noteq> totalWeightFormat"
  by (auto simp: ValidateIPv4Address_def totalWeightFormat_def split: option.splits if_splits)

lemma totalWeightFormat_ValidateIPv4Subnet:
  "e \<in> set (failures (ValidateIPv4Subnet E c)) \<Longrightarrow> error_format e \<noteq> totalWeightFormat"
  by (auto simp: ValidateIPv4Subnet_def split: if_splits
      dest: totalWeightFormat_validateCIDR totalWeightFormat_ValidateIPv4Address)

lemma totalWeightFormat_validateHost:
  "e \<in> set (failures (validateHost E h)) \<Longrightarrow> error_format e \<noteq> totalWeightFormat"
proof -
  assume e: "e \<in> set (failures (validateHost E h))"
  show ?thesis
  proof (cases "ValidateWildcardDomain h")
    case None
    with e show ?thesis by (simp add: validateHost_def)
  next
    case (Some err)
    note w = this
    show ?thesis
    proof (cases "ValidateIPv4Subnet E h")
      case None
      with e w show ?thesis by (simp add: validateHost_def)
    next
      case (Some err2)
      with e w have "e \<in> set (failures (ValidateWildcardDomain h))
          \<or> e \<in> set (failures (ValidateIPv4Subnet E h))"
        by (auto simp: validateHost_def failures_appendErrors)
      then show ?thesis using totalWeightFormat_ValidateWildcardDomain totalWeightFormat_ValidateIPv4Subnet by blast
    qed
  qed
qed

lemma totalWeightFormat_validatePortSelector:
  "e \<in> set (failures (validatePortSelector s)) \<Longrightarrow> error_format e \<noteq> totalWeightFormat"
  by (auto simp: validatePortSelector_def Let_def failures_appendErrors
      split: option.splits if_splits dest: totalWeightFormat_validateSubsetName totalWeightFormat_ValidatePort)

lemma totalWeightFormat_validateDestination:
  "e \<in> set (failures (validateDestination E d)) \<Longrightarrow> error_format e \<noteq> totalWeightFormat"
  by (auto simp: validateDestination_def Let_def failures_appendErrors
      split: option.splits if_splits
      dest: totalWeightFormat_validateSubsetName totalWeightFormat_validateHost totalWeightFormat_validatePortSelector)


lemma totalWeightFormat_Abort:
  "e \<in> set (failures (validateHTTPFaultInjectionAbort a)) \<Longrightarrow>
     error_format e \<noteq> totalWeightFormat"
  by (auto simp: validateHTTPFaultInjectionAbort_def Let_def failures_appendErrors
      failures_multierror_Append totalWeightFormat_def
      split: option.splits Abort_ErrorType.splits
      dest: totalWeightFormat_ValidatePercent [unfolded totalWeightFormat_def]
        totalWeightFormat_validateHTTPStatus [unfolded totalWeightFormat_def])

lemma totalWeightFormat_Delay:
  "e \<in> set (failures (validateHTTPFaultInjectionDelay E a)) \<Longrightarrow>
     error_format e \<noteq> totalWeightFormat"
  by (auto simp: validateHTTPFaultInjectionDelay_def Let_def failures_appendErrors
      failures_multierror_Append totalWeightFormat_def
      split: option.splits Delay_HttpDelayType.splits
      dest: totalWeightFormat_ValidatePercent [unfolded totalWeightFormat_def]
        totalWeightFormat_ValidateDurationGogo [unfolded totalWeightFormat_def])

lemma totalWeightFormat_Fault:
  "e \<in> set (failures (validateHTTPFaultInjection E f)) \<Longrightarrow>
     error_format e \<noteq> totalWeightFormat"
  by (auto simp: validateHTTPFaultInjection_def Let_def failures_appendErrors
      failures_multierror_Append totalWeightFormat_def
      split: option.splits if_splits
      dest: totalWeightFormat_Abort [unfolded totalWeightFormat_def] totalWeightFormat_Delay [unfolded totalWeightFormat_def])

lemma totalWeightFormat_Retry:
  "e \<in> set (failures (validateHTTPRetry E f)) \<Longrightarrow> error_format e \<noteq> totalWeightFormat"
  by (auto simp: validateHTTPRetry_def Let_def failures_appendErrors
      failures_multierror_Append totalWeightFormat_def
      split: option.splits if_splits
      dest: totalWeightFormat_ValidateDurationGogo [unfolded totalWeightFormat_def])

lemma totalWeightFormat_Labels_step:
  "e \<in> set (failures (Labels_Validate_step errs kv)) \<Longrightarrow>
     e \<in> set (failures errs) \<or> error_format e \<noteq> totalWeightFormat"
  by (auto simp: Labels_Validate_step_def Let_def failures_multierror_Append
      totalWeightFormat_def split: if_splits)

lemma totalWeightFormat_Labels_loop:
  "e \<in> set (failures (foldl Labels_Validate_step errs l)) \<Longrightarrow>
     e \<in> set (failures errs) \<or> error_format e \<noteq> totalWeightFormat"
proof (induction l arbitrary: errs)
  case Nil
  then show ?case by simp
next
  case (Cons kv l)
  from Cons.IH [of "Labels_Validate_step errs kv"] Cons.prems totalWeightFormat_Labels_step [of e errs kv]
  show ?case by auto
qed

lemma totalWeightFormat_Labels:
  "e \<in> set (failures (Labels_Validate l)) \<Longrightarrow> error_format e \<noteq> totalWeightFormat"
  using totalWeightFormat_Labels_loop [of e None l] by (simp add: Labels_Validate_def)

lemma totalWeightFormat_headers_loop:
  assumes "error_format t = totalWeightFormat"
  shows "t \<in> set (failures (foldl (\<lambda>errs x. appendErrors errs [ValidateHTTPHeaderName E (f x)])
            errs xs)) \<longleftrightarrow> t \<in> set (failures errs)"
  using assms totalWeightFormat_ValidateHTTPHeaderName [of t E]
  by (subst in_failures_foldl [where C = "\<lambda>x. False"]) (auto simp: failures_appendErrors)

lemma totalWeightFormat_methods_loop:
  assumes "error_format t = totalWeightFormat"
  shows "t \<in> set (failures (foldl (\<lambda>errs x. appendErrors errs [validateHTTPMethod x])
            errs xs)) \<longleftrightarrow> t \<in> set (failures errs)"
  using assms totalWeightFormat_validateHTTPMethod [of t]
  by (subst in_failures_foldl [where C = "\<lambda>x. False"]) (auto simp: failures_appendErrors)

lemma totalWeightFormat_CORS:
  assumes "error_format t = totalWeightFormat"
  shows "t \<notin> set (failures (validateCORSPolicy E p))"
proof (cases p)
  case None
  then show ?thesis by (simp add: validateCORSPolicy_def)
next
  case (Some c)
  let ?e = "foldl (\<lambda>errs name. appendErrors errs [ValidateHTTPHeaderName E name])
              (foldl (\<lambda>errs name. appendErrors errs [ValidateHTTPHeaderName E name])
                (foldl (\<lambda>errs method. appendErrors errs [validateHTTPMethod method]) None
                  (AllowMethods c)) (AllowHeaders c)) (ExposeHeaders c)"
  have e: "t \<notin> set (failures ?e)"
    by (simp add: totalWeightFormat_headers_loop [OF assms, where f = "\<lambda>x. x"] totalWeightFormat_methods_loop [OF assms])
  show ?thesis
  proof (cases "MaxAge c")
    case None
    with Some e show ?thesis by (simp add: validateCORSPolicy_def Let_def)
  next
    case (Some maxAge)
    with \<open>p = Some c\<close> e assms totalWeightFormat_ValidateDurationGogo [of t E "Some maxAge"]
    show ?thesis
      by (auto simp: validateCORSPolicy_def Let_def failures_appendErrors
          failures_multierror_Append totalWeightFormat_def)
  qed
qed

lemma totalWeightFormat_conflicts:
  assumes "error_format t = totalWeightFormat"
  shows "t \<notin> set (failures (validateHTTPRoute_conflicts http))"
  using assms
  by (auto simp: validateHTTPRoute_conflicts_def Let_def failures_appendErrors
      totalWeightFormat_def split: if_splits)

lemma totalWeightFormat_match:
  assumes "error_format t = totalWeightFormat"
  shows "t \<in> set (failures (validateHTTPRoute_match E errs m)) \<longleftrightarrow> t \<in> set (failures errs)"
  using assms totalWeightFormat_Labels [of t "SourceLabels m"]
  by (auto simp: validateHTTPRoute_match_def Let_def failures_appendErrors
      totalWeightFormat_headers_loop [OF assms, where f = fst])

lemma totalWeightFormat_route:
  assumes "error_format t = totalWeightFormat"
  shows "t \<in> set (failures (fst (validateHTTPRoute_route E st r))) \<longleftrightarrow>
           t \<in> set (failures (fst st))"
  using assms totalWeightFormat_validateDestination [of t E "Route_Destination r"]
    totalWeightFormat_ValidatePercent [of t "Route_Weight r"]
  by (auto simp: validateHTTPRoute_route_def Let_def failures_appendErrors
      failures_multierror_Append totalWeightFormat_def)

lemma validateHTTPRoute_route_total:
  "snd (foldl (validateHTTPRoute_route E) st rs) = snd st + sum_list (map Route_Weight rs)"
  by (induction rs arbitrary: st)
     (simp_all add: validateHTTPRoute_route_def Let_def add.assoc)


lemma validateHTTPRoute_totalWeight:
  assumes "error_format t = totalWeightFormat"
  shows "t \<in> set (failures (validateHTTPRoute E http)) \<longleftrightarrow>
           length (Route http) > 1 \<and> sint (totalWeight http) > 100
           \<and> t = Errorf ''total destination weight %v > 100'' [I (sint (totalWeight http))]"
proof -
  let ?e1 = "foldl (\<lambda>errs kv. appendErrors errs [ValidateHTTPHeaderName E (fst kv)])
               (validateHTTPRoute_conflicts http) (AppendHeaders http)"
  let ?e2 = "appendErrors (appendErrors ?e1 [validateCORSPolicy E (HTTPRoute_CorsPolicy http)])
               [validateHTTPFaultInjection E (Fault http)]"
  let ?e3 = "foldl (validateHTTPRoute_match E) ?e2 (Match http)"
  let ?e4 = "appendErrors (appendErrors (appendErrors (appendErrors ?e3
               [validateDestination E (Mirror http)]) [validateHTTPRedirect (Redirect http)])
               [validateHTTPRetry E (Retries http)]) [validateHTTPRewrite (Rewrite http)]"
  let ?st = "foldl (validateHTTPRoute_route E) (?e4, 0) (Route http)"
  have 1: "t \<notin> set (failures ?e1)"
    by (simp add: totalWeightFormat_headers_loop [OF assms, where f = fst] totalWeightFormat_conflicts [OF assms])
  have 2: "t \<notin> set (failures ?e2)"
    using 1 totalWeightFormat_CORS [OF assms] totalWeightFormat_Fault [of t E "Fault http"] assms
    by (auto simp: failures_appendErrors)
  have 3: "t \<notin> set (failures ?e3)"
    using 2 by (subst in_failures_foldl [where C = "\<lambda>x. False"]) (auto simp: totalWeightFormat_match [OF assms])
  have 4: "t \<notin> set (failures ?e4)"
    using 3 assms totalWeightFormat_validateDestination [of t E "Mirror http"]
      totalWeightFormat_validateHTTPRedirect [of t "Redirect http"] totalWeightFormat_Retry [of t E "Retries http"]
      totalWeightFormat_validateHTTPRewrite [of t "Rewrite http"]
    by (auto simp: failures_appendErrors)
  have 5: "t \<notin> set (failures (fst ?st))"
    using 4 by (subst in_failures_foldl_fst [where C = "\<lambda>x. False"])
      (auto simp: totalWeightFormat_route [OF assms])
  have tot: "snd ?st = totalWeight http"
    by (simp add: validateHTTPRoute_route_total totalWeight_def)
  show ?thesis
    unfolding validateHTTPRoute_def Let_def tot
    using 5 assms totalWeightFormat_ValidateDurationGogo [of t E "Timeout http"]
    by (auto simp: failures_appendErrors totalWeightFormat_def)
qed

lemma totalWeight_of_int:
  "totalWeight http = word_of_int (route_weight_sum http)"
proof -
  have "sum_list (map Route_Weight rs) = (word_of_int (\<Sum>r\<leftarrow>rs. sint (Route_Weight r)) :: 32 word)"
    for rs :: "HTTPRouteDestination list"
    by (induction rs) simp_all
  then show ?thesis by (simp add: totalWeight_def route_weight_sum_def)
qed

lemma sint_totalWeight:
  assumes "- (2 ^ 31) \<le> route_weight_sum http" "route_weight_sum http < 2 ^ 31"
  shows "sint (totalWeight http) = route_weight_sum http"
  using assms by (simp add: totalWeight_of_int sint_sbintrunc' signed_take_bit_int_eq_self)

lemma route_weight_sum_percent:
  assumes "\<forall>r \<in> set (Route http). 0 \<le> sint (Route_Weight r) \<and> sint (Route_Weight r) \<le> 100"
  shows "0 \<le> route_weight_sum http \<and> route_weight_sum http \<le> 100 * int (length (Route http))"
proof -
  have "(\<forall>r \<in> set rs. 0 \<le> sint (Route_Weight r) \<and> sint (Route_Weight r) \<le> 100) \<Longrightarrow>
      0 \<le> (\<Sum>r\<leftarrow>rs. sint (Route_Weight r))
      \<and> (\<Sum>r\<leftarrow>rs. sint (Route_Weight r)) \<le> 100 * int (length rs)"
    for rs :: "HTTPRouteDestination list"
    by (induction rs) auto
  from this [OF assms] show ?thesis by (simp add: route_weight_sum_def)
qed

text \<open>
  Claim C5, as stated, fails: a route with two destinations of weight 2147483647 each has
  more than one destination and weights that sum to more than 100, and
  \<open>validateHTTPRoute\<close> reports no total-weight failure for it (it reports the two weights
  as percentages out of range): the \<open>int32\<close> variable \<open>totalWeight\<close> wraps around to -2.
\<close>

theorem C5_total_weight_wraps_counterexample:
  "length (Route (exampleRoute 2147483647 2147483647)) > 1
   \<and> route_weight_sum (exampleRoute 2147483647 2147483647) > 100
   \<and> validateHTTPRoute E0 (exampleRoute 2147483647 2147483647)
       = Some (MultiError [Errorf ''percentage %v is not in range 0..100'' [I 2147483647],
                           Errorf ''percentage %v is not in range 0..100'' [I 2147483647]])"
  by code_simp

text \<open>
  Claim C5, amended.  \<open>validateHTTPRoute\<close> caps the destination weights at 100 and does
  not require exactly 100: it reports a total-weight failure iff the route has more than
  one destination and the total of their weights in \<open>int32\<close> arithmetic exceeds 100.  For
  every route whose weights have a sum within the range of \<open>int32\<close> that total is the sum:
  the failure is reported iff there is more than one destination and the sum exceeds 100.
  This is so for every route of fewer than \<open>2^24\<close> destinations whose weights are all
  within 0..100.
  The rule does not depend on the exactly-100 rule of the legacy route rule
  (\<open>ValidateWeights\<close>): the weights 60 and 30 pass here and fail there.
\<close>

theorem C5_validateHTTPRoute_total_weight:
  "((\<exists>t \<in> set (failures (validateHTTPRoute E http)).
        error_format t = ''total destination weight %v > 100'')
      \<longleftrightarrow> length (Route http) > 1 \<and> sint (totalWeight http) > 100)
   \<and> (- (2 ^ 31) \<le> route_weight_sum http \<and> route_weight_sum http < 2 ^ 31 \<longrightarrow>
        ((\<exists>t \<in> set (failures (validateHTTPRoute E http)).
            error_format t = ''total destination weight %v > 100'')
         \<longleftrightarrow> length (Route http) > 1 \<and> route_weight_sum http > 100))
   \<and> ((\<forall>r \<in> set (Route http). 0 \<le> sint (Route_Weight r) \<and> sint (Route_Weight r) \<le> 100)
        \<and> length (Route http) < 2 ^ 24 \<longrightarrow>
        ((\<exists>t \<in> set (failures (validateHTTPRoute E http)).
            error_format t = ''total destination weight %v > 100'')
         \<longleftrightarrow> length (Route http) > 1 \<and> route_weight_sum http > 100))
   \<and> validateHTTPRoute E0 (exampleRoute 60 30) = None
   \<and> ValidateWeights [\<lparr>DestinationWeight_Labels = [], Weight = 60\<rparr>,
                      \<lparr>DestinationWeight_Labels = [], Weight = 30\<rparr>] \<noteq> None"
proof -
  have 1: "(\<exists>t \<in> set (failures (validateHTTPRoute E http)).
        error_format t = ''total destination weight %v > 100'')
      \<longleftrightarrow> length (Route http) > 1 \<and> sint (totalWeight http) > 100"
  proof
    assume "\<exists>t \<in> set (failures (validateHTTPRoute E http)).
        error_format t = ''total destination weight %v > 100''"
    then obtain t where "t \<in> set (failures (validateHTTPRoute E http))"
      "error_format t = totalWeightFormat"
      by (auto simp: totalWeightFormat_def)
    with validateHTTPRoute_totalWeight [of t E http]
    show "length (Route http) > 1 \<and> sint (totalWeight http) > 100" by simp
  next
    let ?t = "Errorf ''total destination weight %v > 100'' [I (sint (totalWeight http))]"
    assume "length (Route http) > 1 \<and> sint (totalWeight http) > 100"
    with validateHTTPRoute_totalWeight [of ?t E http]
    have "?t \<in> set (failures (validateHTTPRoute E http))"
      by (simp add: totalWeightFormat_def)
    moreover have "error_format ?t = ''total destination weight %v > 100''" by simp
    ultimately show "\<exists>t \<in> set (failures (validateHTTPRoute E http)).
        error_format t = ''total destination weight %v > 100''" by blast
  qed
  have 2: "validateHTTPRoute E0 (exampleRoute 60 30) = None" by code_simp
  have 3: "ValidateWeights [\<lparr>DestinationWeight_Labels = [], Weight = 60\<rparr>,
                      \<lparr>DestinationWeight_Labels = [], Weight = 30\<rparr>] \<noteq> None"
    by code_simp
  have 4: "sint (totalWeight http) = route_weight_sum http"
    if "- (2 ^ 31) \<le> route_weight_sum http \<and> route_weight_sum http < 2 ^ 31"
    using that sint_totalWeight [of http] by simp
  have 5: "- (2 ^ 31) \<le> route_weight_sum http \<and> route_weight_sum http < 2 ^ 31"
    if p: "\<forall>r \<in> set (Route http). 0 \<le> sint (Route_Weight r) \<and> sint (Route_Weight r) \<le> 100"
      and l: "length (Route http) < 2 ^ 24"
  proof -
    from l have "int (length (Route http)) < 16777216" by simp
    with route_weight_sum_percent [OF p] show ?thesis by simp
  qed
  show ?thesis
    unfolding 1 using 2 3 4 5 by auto
qed

theorem C5_validateHTTPRoute_total_weight_witness:
  "validateHTTPRoute E0 (exampleRoute 60 50)
     = Some (Errorf ''total destination weight %v > 100'' [I 110])
   \<and> (\<exists>t \<in> set (failures (validateHTTPRoute E0 (exampleRoute 60 50))).
         error_format t = ''total destination weight %v > 100'')
   \<and> validateHTTPRoute E0 (exampleRoute 60 30) = None"
proof -
  have s: "route_weight_sum (exampleRoute 60 50) = 110"
    by (simp add: route_weight_sum_def exampleRoute_def)
  have r: "validateHTTPRoute E0 (exampleRoute 60 50)
     = Some (Errorf ''total destination weight %v > 100'' [I 110])"
    by code_simp
  from C5_validateHTTPRoute_total_weight [of E0 "exampleRoute 60 50"] s r
  show ?thesis by (simp add: exampleRoute_def)
qed


section \<open>The cast is fatal, every other failure is collected\<close>

lemma accumulatesI:
  assumes "\<And>errs. failures (c errs) = failures errs @ K"
  shows "accumulates c"
proof -
  have "failures (c None) = K" using assms [of None] by simp
  with assms show ?thesis unfolding accumulates_def by metis
qed

lemma accumulatesD:
  "accumulates c \<Longrightarrow> failures (c errs) = failures errs @ failures (c None)"
  unfolding accumulates_def by blast

lemma accumulates_id: "accumulates (\<lambda>errs. errs)"
  unfolding accumulates_def by simp

lemma accumulates_Append:
  assumes "accumulates f"
  shows "accumulates (\<lambda>errs. Some (multierror_Append (f errs) es))"
proof (rule accumulatesI)
  fix errs
  show "failures (Some (multierror_Append (f errs) es))
      = failures errs @ (failures (f None) @ concat (map failures es))"
    by (simp add: failures_multierror_Append accumulatesD [OF assms, of errs])
qed

lemma accumulates_appendIfErr:
  assumes "accumulates f"
  shows "accumulates (\<lambda>errs. appendIfErr (f errs) e)"
proof (rule accumulatesI)
  fix errs
  show "failures (appendIfErr (f errs) e) = failures errs @ (failures (f None) @ failures e)"
    by (simp add: failures_appendIfErr accumulatesD [OF assms, of errs])
qed

lemma accumulates_appendErrors:
  assumes "accumulates f"
  shows "accumulates (\<lambda>errs. appendErrors (f errs) es)"
proof (rule accumulatesI)
  fix errs
  show "failures (appendErrors (f errs) es)
      = failures errs @ (failures (f None) @ concat (map failures es))"
    by (simp add: failures_appendErrors accumulatesD [OF assms, of errs])
qed

lemma accumulates_if:
  assumes "accumulates f" "accumulates g"
  shows "accumulates (\<lambda>errs. if b then f errs else g errs)"
  using assms by (cases b) simp_all

lemma accumulates_case_option:
  assumes "\<And>x. accumulates (\<lambda>errs. f x errs)" "accumulates g"
  shows "accumulates (\<lambda>errs. case opt of None \<Rightarrow> g errs | Some x \<Rightarrow> f x errs)"
  using assms by (cases opt) simp_all

lemma failures_foldl_step:
  assumes "\<And>errs x. failures (step errs x) = failures errs @ g x"
  shows "failures (foldl step errs xs) = failures errs @ concat (map g xs)"
  by (induction xs arbitrary: errs) (simp_all add: assms)

lemma accumulates_foldl:
  assumes "\<And>x. accumulates (\<lambda>errs. step errs x)" "accumulates f"
  shows "accumulates (\<lambda>errs. foldl step (f errs) xs)"
proof (rule accumulatesI)
  fix errs
  have "failures (step errs x) = failures errs @ failures (step None x)" for errs x
    using assms(1) [of x] unfolding accumulates_def by blast
  then have "failures (foldl step (f errs) xs)
      = failures (f errs) @ concat (map (\<lambda>x. failures (step None x)) xs)"
    by (rule failures_foldl_step)
  then show "failures (foldl step (f errs) xs)
      = failures errs @ (failures (f None) @ concat (map (\<lambda>x. failures (step None x)) xs))"
    by (simp add: accumulatesD [OF assms(2), of errs])
qed

lemma accumulates_comp:
  assumes "accumulates f" "accumulates g"
  shows "accumulates (\<lambda>errs. g (f errs))"
proof (rule accumulatesI)
  fix errs
  show "failures (g (f errs)) = failures errs @ (failures (f None) @ failures (g None))"
    by (simp add: accumulatesD [OF assms(2), of "f errs"] accumulatesD [OF assms(1), of errs])
qed

lemmas accumulates_intros = accumulates_Append accumulates_appendIfErr accumulates_appendErrors accumulates_if accumulates_case_option accumulates_foldl accumulates_id

lemma accumulates_destination: "accumulates (ValidateRouteRule_destination E v)"
  unfolding ValidateRouteRule_destination_def Let_def by (intro accumulates_intros)

lemma accumulates_match: "accumulates (ValidateRouteRule_match E v)"
  unfolding ValidateRouteRule_match_def Let_def by (intro accumulates_intros)

lemma accumulates_rewrite: "accumulates (ValidateRouteRule_rewrite v)"
  unfolding ValidateRouteRule_rewrite_def Let_def by (intro accumulates_intros)

lemma accumulates_redirect: "accumulates (ValidateRouteRule_redirect v)"
  unfolding ValidateRouteRule_redirect_def Let_def by (intro accumulates_intros)

lemma accumulates_both: "accumulates (ValidateRouteRule_both v)"
  unfolding ValidateRouteRule_both_def Let_def by (intro accumulates_intros)

lemma accumulates_route: "accumulates (ValidateRouteRule_route v)"
  unfolding ValidateRouteRule_route_def Let_def by (intro accumulates_intros)

lemma accumulates_mirror: "accumulates (ValidateRouteRule_mirror E v)"
  unfolding ValidateRouteRule_mirror_def Let_def by (intro accumulates_intros)

lemma accumulates_appendHeaders: "accumulates (ValidateRouteRule_appendHeaders E v)"
  unfolding ValidateRouteRule_appendHeaders_def ValidateRouteRule_appendHeader_def Let_def
  by (intro accumulates_intros)

lemma accumulates_cors: "accumulates (ValidateRouteRule_cors E v)"
  unfolding ValidateRouteRule_cors_def Let_def by (intro accumulates_intros)

lemma accumulates_timeout: "accumulates (ValidateRouteRule_timeout E v)"
  unfolding ValidateRouteRule_timeout_def Let_def by (intro accumulates_intros)

lemma accumulates_retries: "accumulates (ValidateRouteRule_retries E v)"
  unfolding ValidateRouteRule_retries_def Let_def by (intro accumulates_intros)

lemma accumulates_fault: "accumulates (ValidateRouteRule_fault E v)"
  unfolding ValidateRouteRule_fault_def Let_def by (intro accumulates_intros)

lemma accumulates_l4fault: "accumulates (ValidateRouteRule_l4fault E v)"
  unfolding ValidateRouteRule_l4fault_def Let_def by (intro accumulates_intros)


lemma RouteRule_body_failures:
  "failures (ValidateRouteRule_body E v)
     = concat (map (\<lambda>check. failures (check None)) (RouteRule_checks E v))"
  unfolding ValidateRouteRule_body_def Let_def RouteRule_checks_def
  by (simp add: accumulatesD [OF accumulates_l4fault, of _ _ "ValidateRouteRule_fault E v x" for x]
      accumulatesD [OF accumulates_fault, of _ _ "ValidateRouteRule_retries E v x" for x]
      accumulatesD [OF accumulates_retries, of _ _ "ValidateRouteRule_timeout E v x" for x]
      accumulatesD [OF accumulates_timeout, of _ _ "ValidateRouteRule_cors E v x" for x]
      accumulatesD [OF accumulates_cors, of _ _ "ValidateRouteRule_appendHeaders E v x" for x]
      accumulatesD [OF accumulates_appendHeaders, of _ _ "ValidateRouteRule_mirror E v x" for x]
      accumulatesD [OF accumulates_mirror, of _ _ "ValidateRouteRule_route v x" for x]
      accumulatesD [OF accumulates_route, of _ "ValidateRouteRule_both v x" for x]
      accumulatesD [OF accumulates_both, of _ "ValidateRouteRule_redirect v x" for x]
      accumulatesD [OF accumulates_redirect, of _ "ValidateRouteRule_rewrite v x" for x]
      accumulatesD [OF accumulates_rewrite, of _ "ValidateRouteRule_match E v x" for x]
      accumulatesD [OF accumulates_match, of _ _ "ValidateRouteRule_destination E v x" for x])

lemma ValidateGateway_portName_step:
  assumes "ValidateGateway_portName (e1, m) s = Inr t1"
  shows "\<exists>k. failures (fst t1) = failures e1 @ k
           \<and> (\<forall>e2. \<exists>x2. ValidateGateway_portName (e2, m) s = Inr (x2, snd t1)
                  \<and> failures x2 = failures e2 @ k)"
proof (cases "Server_Port s")
  case None
  with assms show ?thesis by (simp add: ValidateGateway_portName_def)
next
  case (Some port)
  show ?thesis
  proof (cases "m (Port_Name port)")
    case True
    with Some assms show ?thesis
      by (auto simp: ValidateGateway_portName_def Let_def failures_appendErrors)
  next
    case False
    with Some assms show ?thesis
      by (auto simp: ValidateGateway_portName_def Let_def)
  qed
qed

lemma ValidateGateway_portName_loop:
  assumes "foldlP ValidateGateway_portName (e1, m) servers = Inr s1"
  shows "\<exists>K. failures (fst s1) = failures e1 @ K
           \<and> (\<forall>e2. \<exists>x2. foldlP ValidateGateway_portName (e2, m) servers = Inr (x2, snd s1)
                  \<and> failures x2 = failures e2 @ K)"
  using assms
proof (induction servers arbitrary: e1 m s1)
  case Nil
  then show ?case by auto
next
  case (Cons s servers)
  from Cons.prems obtain t1 where
    t1: "ValidateGateway_portName (e1, m) s = Inr t1"
      "foldlP ValidateGateway_portName t1 servers = Inr s1"
    by (auto split: sum.splits)
  from ValidateGateway_portName_step [OF t1(1)] obtain k where
    k: "failures (fst t1) = failures e1 @ k"
      "\<And>e2. \<exists>x2. ValidateGateway_portName (e2, m) s = Inr (x2, snd t1)
                  \<and> failures x2 = failures e2 @ k"
    by blast
  from Cons.IH [of "fst t1" "snd t1" s1] t1(2) obtain K where
    K: "failures (fst s1) = failures (fst t1) @ K"
      "\<And>e2. \<exists>x2. foldlP ValidateGateway_portName (e2, snd t1) servers = Inr (x2, snd s1)
                  \<and> failures x2 = failures e2 @ K"
    by auto
  have "\<exists>x2. foldlP ValidateGateway_portName (e2, m) (s # servers) = Inr (x2, snd s1)
                  \<and> failures x2 = failures e2 @ (k @ K)" for e2
  proof -
    from k(2) [of e2] obtain y where
      y: "ValidateGateway_portName (e2, m) s = Inr (y, snd t1)" "failures y = failures e2 @ k"
      by blast
    from K(2) [of y] obtain x2 where
      "foldlP ValidateGateway_portName (y, snd t1) servers = Inr (x2, snd s1)"
      "failures x2 = failures y @ K"
      by blast
    with y show ?thesis by simp
  qed
  moreover have "failures (fst s1) = failures e1 @ (k @ K)"
    using k(1) K(1) by simp
  ultimately show ?case by blast
qed

lemma validateServer_failures:
  "failures (validateServer E server)
     = (if Server_Hosts server = []
        then [Errorf ''server config must contain at least one host'' []]
        else failures (foldl (validateServer_host E) None (Server_Hosts server)))
       @ failures (validateTLSOptions (Tls server))
       @ failures (validateServerPort E (Server_Port server))"
  by (simp add: validateServer_def Let_def failures_appendErrors)

lemma Gateway_body_failures:
  assumes "ValidateGateway_body E g = Inr r"
  shows "failures r = Gateway_serverFailures E g @ Gateway_portNameFailures g"
proof -
  let ?e1 = "if length (Servers g) = 0
             then appendErrors None [Some (Errorf ''gateway must have at least one server'' [])]
             else foldl (\<lambda>errs server. appendErrors errs [validateServer E server]) None
                    (Servers g)"
  have e1: "failures ?e1 = Gateway_serverFailures E g"
  proof -
    have "failures (foldl (\<lambda>errs server. appendErrors errs [validateServer E server]) None ss)
        = concat (map (\<lambda>server. failures (validateServer E server)) ss)" for ss
      using failures_foldl_step [where step = "\<lambda>errs server. appendErrors errs [validateServer E server]"
          and g = "\<lambda>server. failures (validateServer E server)" and errs = None and xs = ss]
      by (simp add: failures_appendErrors)
    then show ?thesis
      by (simp add: Gateway_serverFailures_def failures_appendErrors)
  qed
  from assms obtain st where
    st: "foldlP ValidateGateway_portName (?e1, \<lambda>n. False) (Servers g) = Inr st" "r = fst st"
    unfolding ValidateGateway_body_def Let_def by (auto split: sum.splits)
  from ValidateGateway_portName_loop [OF st(1)] obtain K where
    K: "failures (fst st) = failures ?e1 @ K"
      "\<And>e2. \<exists>x2. foldlP ValidateGateway_portName (e2, \<lambda>n. False) (Servers g) = Inr (x2, snd st)
                  \<and> failures x2 = failures e2 @ K"
    by blast
  from K(2) [of None] have "Gateway_portNameFailures g = K"
    by (auto simp: Gateway_portNameFailures_def)
  with K(1) st(2) e1 show ?thesis by simp
qed


lemma RouteRule_checks_accumulate:
  "\<forall>check \<in> set (RouteRule_checks E v). accumulates check"
  by (simp add: RouteRule_checks_def accumulates_destination accumulates_match accumulates_rewrite
      accumulates_redirect accumulates_both accumulates_route accumulates_mirror
      accumulates_appendHeaders accumulates_cors accumulates_timeout accumulates_retries
      accumulates_fault accumulates_l4fault)



end
